theory Spec2Isabelle
  imports Complex_Main
begin

section \<open>Values exchanged with the editor\<close>

text \<open>
  The folding controller of \<^verbatim>\<open>vs/editor/contrib/folding/browser/folding.ts\<close> is embedded as
  a state machine. Its fields are the fields of the class; the editor, the notification
  service and the error sink are logs of the calls made on them; the folding model and the
  hidden range model live in an object store, since promise callbacks keep references to them.
\<close>

text \<open>A JavaScript number, as far as the commands look at it: its type and its truthiness.\<close>

datatype number = NaN | PosInfinity | NegInfinity | Finite real

fun number_truthy :: "number \<Rightarrow> bool" where
  "number_truthy NaN = False"
| "number_truthy (Finite x) = (x \<noteq> 0)"
| "number_truthy _ = True"

record Range =
  range_startLineNumber :: int
  range_startColumn :: int
  range_endLineNumber :: int
  range_endColumn :: int

type_synonym IRange = Range
type_synonym Selection = Range

record TextModel =
  uri :: nat
  getLineCount :: int
  isTooLargeForTokenization :: bool

datatype Error = Canceled | Failure string

datatype EditorOption =
    Option_folding
  | Option_foldingStrategy
  | Option_unfoldOnClickAfterEndOfLine
  | Option_foldingImportsByDefault
  | Option_foldingMaximumRegions
  | Option_showFoldingControls
  | Option_foldingHighlight

record EditorOptions =
  opt_folding :: bool
  opt_foldingStrategy :: string
  opt_unfoldOnClickAfterEndOfLine :: bool
  opt_foldingImportsByDefault :: bool
  opt_foldingMaximumRegions :: int
  opt_showFoldingControls :: string
  opt_foldingHighlight :: bool

text \<open>A \<^verbatim>\<open>ConfigurationChangedEvent\<close>: the options it reports as changed.\<close>

type_synonym ConfigurationChangedEvent = "EditorOption list"

definition hasChanged :: "ConfigurationChangedEvent \<Rightarrow> EditorOption \<Rightarrow> bool" where
  "hasChanged e opt = (opt \<in> set e)"

datatype EditorCall =
    SetSelections "Selection list"
  | SetHiddenAreas "IRange list"
  | CaptureScrollState
  | RestoreScrollState
  | RevealPositionInCenterIfOutsideViewport int int

section \<open>Folding regions, mementos, providers\<close>

text \<open>
  Modelled from the spec: the class \<^verbatim>\<open>FoldingRegions\<close> (foldingRanges.ts) is not among the
  sources. A region is the value the spec's data model gives: start line, end line, nesting
  level, optional type tag, collapsed bit.
\<close>

record FoldingRegion =
  startLineNumber :: int
  endLineNumber :: int
  level :: nat
  regionType :: "string option"
  isCollapsed :: bool

type_synonym FoldingRegions = "FoldingRegion list"

text \<open>
  Modelled from the spec: \<^verbatim>\<open>FoldingRangeKind.Imports.value\<close> (languages.ts), the type tag of
  import regions.
\<close>

definition FoldingRangeKind_Imports :: string where
  "FoldingRangeKind_Imports = ''imports''"

text \<open>
  Modelled from the spec: \<^verbatim>\<open>FoldingRegions.setCollapsedAllOfType\<close>, which collapses (or
  expands) all regions tagged with the given type. The result says whether a region carries
  that tag.
\<close>

definition setCollapsedAllOfType :: "string \<Rightarrow> bool \<Rightarrow> FoldingRegions \<Rightarrow> bool \<times> FoldingRegions" where
  "setCollapsedAllOfType type newState regions =
     (list_ex (\<lambda>r. regionType r = Some type) regions,
      map (\<lambda>r. if regionType r = Some type then r\<lparr>isCollapsed := newState\<rparr> else r) regions)"

text \<open>
  Modelled from the spec: the type \<^verbatim>\<open>CollapseMemento\<close> (foldingModel.ts); the persisted
  layout lists the collapsed regions by start line and optional type.
\<close>

record CollapsedRegion =
  startLine :: int
  collapsedType :: "string option"

type_synonym CollapseMemento = "CollapsedRegion list"

text \<open>The interface \<^verbatim>\<open>FoldingStateMemento\<close>; every property is optional.\<close>

record FoldingStateMemento =
  collapsedRegions :: "CollapseMemento option"
  lineCount :: "int option"
  provider :: "string option"
  foldedImports :: "bool option"

text \<open>
  Modelled from the spec: the identifiers of the three range providers, whose modules are
  not among the sources; three different strings.
\<close>

definition ID_INDENT_PROVIDER :: string where "ID_INDENT_PROVIDER = ''indent''"
definition ID_SYNTAX_PROVIDER :: string where "ID_SYNTAX_PROVIDER = ''syntax''"
definition ID_INIT_PROVIDER :: string where "ID_INIT_PROVIDER = ''init''"

text \<open>
  A range provider is the constructor call that made it: the document (by its uri), and for
  the indentation provider the region limit, for the initializing provider the regions of the
  memento and the timeout in milliseconds, for the syntax provider the registered suppliers
  and the region limit. The callbacks handed to the last two are the handlers
  \<open>initializingProviderTimeout\<close> and \<open>triggerFoldingModelChanged\<close> below.
\<close>

datatype RangeProvider =
    IndentRangeProvider nat int
  | InitializingRangeProvider nat CollapseMemento nat
  | SyntaxRangeProvider nat "nat list" int

fun provider_id :: "RangeProvider \<Rightarrow> string" where
  "provider_id (IndentRangeProvider _ _) = ID_INDENT_PROVIDER"
| "provider_id (InitializingRangeProvider _ _ _) = ID_INIT_PROVIDER"
| "provider_id (SyntaxRangeProvider _ _ _) = ID_SYNTAX_PROVIDER"

section \<open>The folding model, the hidden range model and their operations\<close>

text \<open>
  Modelled from the spec: the classes \<^verbatim>\<open>FoldingModel\<close> and \<^verbatim>\<open>HiddenRangeModel\<close> are not
  among the sources. The folding model owns one set of regions; the hidden range model is the
  list of hidden line ranges derived from it. The controller creates them together and they
  are disposed together, so the store keeps them as one object.
\<close>

record Models =
  textModel :: nat
  regions :: FoldingRegions
  isInitialized :: bool
  hiddenRanges :: "IRange list"

definition new_Models :: "nat \<Rightarrow> Models" where
  "new_Models document =
     \<lparr>textModel = document, regions = [], isInitialized = False, hiddenRanges = []\<rparr>"

text \<open>
  The calls the fold commands make on the folding model (the functions
  \<^verbatim>\<open>setCollapseStateLevelsUp\<close>, \<^verbatim>\<open>setCollapseStateLevelsDown\<close> and \<^verbatim>\<open>setCollapseStateUp\<close> of
  foldingModel.ts), with their arguments after the model.
\<close>

datatype FoldOperation =
    SetCollapseStateLevelsUp bool number "int list"
  | SetCollapseStateLevelsDown bool number "int list"
  | SetCollapseStateUp bool "int list"

text \<open>
  What the methods of the two models do is not in the sources, so the controller is
  parameterised by them. A method that changes the models returns the new models and the
  hidden-range change events the hidden range model fires meanwhile; the controller's
  listener \<open>onHiddenRangesChanges\<close> receives them. \<^verbatim>\<open>FoldingModel.applyMemento\<close> may also throw,
  and \<^verbatim>\<open>FoldingModel.getMemento\<close> may answer \<^verbatim>\<open>undefined\<close>.
\<close>

record Collaborators =
  FoldingModel_update :: "FoldingRegions \<Rightarrow> int list \<Rightarrow> Models \<Rightarrow> Models \<times> IRange list list"
  FoldingModel_applyMemento ::
    "CollapseMemento \<Rightarrow> Models \<Rightarrow> (Models \<times> IRange list list) \<times> Error option"
  FoldingModel_getMemento :: "Models \<Rightarrow> CollapseMemento option"
  FoldingModel_operation :: "FoldOperation \<Rightarrow> Models \<Rightarrow> Models \<times> IRange list list"
  HiddenRangeModel_applyMemento ::
    "CollapseMemento \<Rightarrow> Models \<Rightarrow> bool \<times> Models \<times> IRange list list"
  HiddenRangeModel_getMemento :: "Models \<Rightarrow> CollapseMemento"
  HiddenRangeModel_adjustSelections :: "Models \<Rightarrow> Selection list \<Rightarrow> bool \<times> Selection list"
  HiddenRangeModel_notifyChangeModelContent :: "Models \<Rightarrow> Models \<times> IRange list list"
  HiddenRangeModel_dispose :: "Models \<Rightarrow> IRange list list"
  updateDebounceInfo_get :: "nat \<Rightarrow> nat"

section \<open>Promises and the update scheduler\<close>

text \<open>
  Modelled from the spec: \<^verbatim>\<open>Delayer\<close> (vs/base/common/async) is not among the sources. It
  debounces: it holds at most one task, a trigger replaces the task and re-arms the timer,
  and the promises handed out since the timer last fired are settled by the one run of the
  task. \<open>task\<close> says that a task is waiting for the timer, \<open>waiting\<close> lists the promises that
  \<^verbatim>\<open>triggerFoldingModelChanged\<close> derived from the triggers.
\<close>

record Delayer =
  defaultDelay :: nat
  task :: bool
  waiting :: "nat list"

text \<open>
  Modelled from the spec: \<^verbatim>\<open>createCancelablePromise\<close> (vs/base/common/async) is not among the
  sources. A computation is cancellable, and a cancelled one may still deliver a value that
  raced with the cancellation, or reject with \<open>Canceled\<close>. A provider computation started by
  the scheduler's task is recorded with the cancelable promise it is, the folding model the
  task read, whether \<^verbatim>\<open>cancel()\<close> was called on it, and the folding-model promises that settle
  with it.
\<close>

record Computation =
  promise :: nat
  capturedModel :: nat
  cancelled :: bool
  results :: "nat list"

text \<open>Of the fold commands, \<^verbatim>\<open>editor.unfold\<close> and \<^verbatim>\<open>editor.fold\<close> are embedded.\<close>

datatype Action = UnfoldAction | FoldAction

record FoldingArguments =
  levels :: "number option"
  direction :: "string option"
  selectionLines :: "int list option"

text \<open>The callbacks that \<^verbatim>\<open>then\<close> attaches to a folding-model promise.\<close>

datatype Continuation =
    RestoreViewStateThen CollapseMemento
  | RunEditorCommandThen Action "FoldingArguments option"

section \<open>The controller\<close>

record Controller =
  editor_model :: "TextModel option"
  editor_options :: EditorOptions
  editor_selections :: "Selection list option"
  editor_calls :: "EditorCall list"
  foldingRangeProvider_ordered :: "(nat \<times> nat list) list"
  notifications :: "int list"
  unexpectedErrors :: "Error list"
  telemetry :: nat
  isEnabled :: bool
  useFoldingProviders :: bool
  unfoldOnClickAfterEndOfLine :: bool
  restoringViewState :: bool
  foldingImportsByDefault :: bool
  currentModelHasFoldedImports :: bool
  maxFoldingRegions :: int
  tooManyRegionsNotified :: bool
  autoHideFoldingControls :: bool
  showFoldingHighlights :: bool
  foldingModel :: "nat option"
  hiddenRangeModel :: "nat option"
  foldingEnabled :: bool
  rangeProvider :: "RangeProvider option"
  foldingRegionPromise :: "nat option"
  foldingStateMemento :: "FoldingStateMemento option"
  foldingModelPromise :: "nat option"
  updateScheduler :: "Delayer option"
  localToDispose :: bool
  objects :: "nat \<Rightarrow> Models"
  nextObject :: nat
  nextPromise :: nat
  computations :: "Computation list"
  thens :: "(nat \<times> Continuation) list"
  settled :: "(nat \<times> nat option) list"

text \<open>
  \<open>editor_calls\<close>, \<open>notifications\<close>, \<open>unexpectedErrors\<close> and \<open>telemetry\<close> log the calls on the
  editor, on \<^verbatim>\<open>notificationService.notify\<close>, on \<^verbatim>\<open>onUnexpectedError\<close> and on
  \<^verbatim>\<open>reportTelemetry\<close>. \<open>foldingRangeProvider_ordered\<close> is the language feature registry: the
  ordered suppliers per document. \<open>localToDispose\<close> says whether the per-document bundle of
  listeners is registered. \<open>computations\<close> are the provider computations whose promise has
  not settled, \<open>thens\<close> the callbacks waiting on folding-model promises, \<open>settled\<close> the
  folding-model promises that have a value (the folding model, or null). Mouse gestures and
  the cursor reveal are outside this development.
\<close>

definition editorCall :: "EditorCall \<Rightarrow> Controller \<Rightarrow> Controller" where
  "editorCall c s = s\<lparr>editor_calls := editor_calls s @ [c]\<rparr>"

definition onUnexpectedError :: "Error \<Rightarrow> Controller \<Rightarrow> Controller" where
  "onUnexpectedError err s = s\<lparr>unexpectedErrors := unexpectedErrors s @ [err]\<rparr>"

definition reportTelemetry :: "Controller \<Rightarrow> Controller" where
  "reportTelemetry s = s\<lparr>telemetry := telemetry s + 1\<rparr>"

text \<open>The closure \<^verbatim>\<open>_notifyTooManyRegions\<close> built by the constructor.\<close>

definition notifyTooManyRegions :: "int \<Rightarrow> Controller \<Rightarrow> Controller" where
  "notifyTooManyRegions maxRegions s =
     (if \<not> tooManyRegionsNotified s
      then s\<lparr>notifications := notifications s @ [maxRegions], tooManyRegionsNotified := True\<rparr>
      else s)"

definition onHiddenRangesChanges :: "Collaborators \<Rightarrow> IRange list \<Rightarrow> Controller \<Rightarrow> Controller" where
  "onHiddenRangesChanges C ranges s =
     (let s1 =
        (case hiddenRangeModel s of
           None \<Rightarrow> s
         | Some h \<Rightarrow>
             if ranges \<noteq> [] \<and> \<not> restoringViewState s then
               (case editor_selections s of
                  None \<Rightarrow> s
                | Some selections \<Rightarrow>
                    (let (changed, adjusted) =
                           HiddenRangeModel_adjustSelections C (objects s h) selections
                     in if changed
                        then editorCall (SetSelections adjusted) (s\<lparr>editor_selections := Some adjusted\<rparr>)
                        else s))
             else s)
      in editorCall (SetHiddenAreas ranges) s1)"

text \<open>
  The hidden range model \<open>h\<close> fires change events; the controller listens while \<open>h\<close> is its
  hidden range model.
\<close>

definition fireHiddenRanges ::
  "Collaborators \<Rightarrow> nat \<Rightarrow> IRange list list \<Rightarrow> Controller \<Rightarrow> Controller" where
  "fireHiddenRanges C h events s =
     (if hiddenRangeModel s = Some h
      then foldl (\<lambda>s' ranges. onHiddenRangesChanges C ranges s') s events
      else s)"

subsection \<open>Scheduling\<close>

text \<open>\<^verbatim>\<open>cancel()\<close> on the cancelable promise \<open>p\<close>; nothing happens when \<open>p\<close> has settled.\<close>

definition cancelPromise :: "nat \<Rightarrow> Controller \<Rightarrow> Controller" where
  "cancelPromise p s =
     s\<lparr>computations := map (\<lambda>c. if promise c = p then c\<lparr>cancelled := True\<rparr> else c) (computations s)\<rparr>"

text \<open>
  \<^verbatim>\<open>if (this.foldingRegionPromise) { this.foldingRegionPromise.cancel(); this.foldingRegionPromise = null; }\<close>
\<close>

definition cancelCurrent :: "Controller \<Rightarrow> Controller" where
  "cancelCurrent s =
     (case foldingRegionPromise s of
        Some p \<Rightarrow> (cancelPromise p s)\<lparr>foldingRegionPromise := None\<rparr>
      | None \<Rightarrow> s)"

definition triggerFoldingModelChanged :: "Controller \<Rightarrow> Controller" where
  "triggerFoldingModelChanged s =
     (case updateScheduler s of
        None \<Rightarrow> s
      | Some d \<Rightarrow>
          (let s1 = cancelCurrent s;
               q = nextPromise s1
           in s1\<lparr>nextPromise := q + 1,
                 updateScheduler := Some (d\<lparr>task := True, waiting := waiting d @ [q]\<rparr>),
                 foldingModelPromise := Some q\<rparr>))"

definition onFoldingStrategyChanged :: "Controller \<Rightarrow> Controller" where
  "onFoldingStrategyChanged s = triggerFoldingModelChanged (s\<lparr>rangeProvider := None\<rparr>)"

text \<open>The callback handed to the initializing provider, called when its timeout elapses.\<close>

definition initializingProviderTimeout :: "Controller \<Rightarrow> Controller" where
  "initializingProviderTimeout s = onFoldingStrategyChanged (s\<lparr>foldingStateMemento := None\<rparr>)"

subsection \<open>Provider selection\<close>

definition ordered :: "Controller \<Rightarrow> nat \<Rightarrow> nat list" where
  "ordered s document =
     (case map_of (foldingRangeProvider_ordered s) document of None \<Rightarrow> [] | Some suppliers \<Rightarrow> suppliers)"

text \<open>\<^verbatim>\<open>this.foldingStateMemento && this.foldingStateMemento.collapsedRegions\<close>\<close>

definition mementoRegions :: "Controller \<Rightarrow> CollapseMemento option" where
  "mementoRegions s = (case foldingStateMemento s of None \<Rightarrow> None | Some m \<Rightarrow> collapsedRegions m)"

definition getRangeProvider :: "nat \<Rightarrow> Controller \<Rightarrow> RangeProvider \<times> Controller" where
  "getRangeProvider editorModel s =
     (case rangeProvider s of
        Some p \<Rightarrow> (p, s)
      | None \<Rightarrow>
          (let fallback = IndentRangeProvider editorModel (maxFoldingRegions s);
               s1 = s\<lparr>rangeProvider := Some fallback\<rparr>;
               done = (\<lambda>p s'. (p, s'\<lparr>rangeProvider := Some p, foldingStateMemento := None\<rparr>))
           in if useFoldingProviders s1 then
                (case foldingModel s1 of
                   None \<Rightarrow> done fallback s1
                 | Some fm \<Rightarrow>
                     (let foldingProviders = ordered s1 (textModel (objects s1 fm)) in
                      if foldingProviders = [] then
                        (case mementoRegions s1 of
                           Some initialRanges \<Rightarrow>
                             (let p = InitializingRangeProvider editorModel initialRanges 30000
                              in (p, s1\<lparr>rangeProvider := Some p\<rparr>))
                         | None \<Rightarrow> done fallback s1)
                      else
                        done (SyntaxRangeProvider editorModel foldingProviders (maxFoldingRegions s1)) s1))
              else done fallback s1))"

subsection \<open>The fold commands\<close>

definition getSelectedLines :: "Controller \<Rightarrow> int list" where
  "getSelectedLines s =
     (case editor_selections s of
        Some selections \<Rightarrow> map range_startLineNumber selections
      | None \<Rightarrow> [])"

definition getLineNumbers :: "FoldingArguments option \<Rightarrow> Controller \<Rightarrow> int list" where
  "getLineNumbers args s =
     (case args of
        None \<Rightarrow> getSelectedLines s
      | Some a \<Rightarrow>
          (case selectionLines a of
             Some ls \<Rightarrow> map (\<lambda>l. l + 1) ls
           | None \<Rightarrow> getSelectedLines s))"

text \<open>\<^verbatim>\<open>args && args.levels\<close> and \<^verbatim>\<open>args && args.direction\<close>\<close>

definition args_levels :: "FoldingArguments option \<Rightarrow> number option" where
  "args_levels args = (case args of None \<Rightarrow> None | Some a \<Rightarrow> levels a)"

definition args_direction :: "FoldingArguments option \<Rightarrow> string option" where
  "args_direction args = (case args of None \<Rightarrow> None | Some a \<Rightarrow> direction a)"

text \<open>\<^verbatim>\<open>levels || 1\<close>\<close>

definition levels_or_1 :: "number option \<Rightarrow> number" where
  "levels_or_1 l = (case l of Some n \<Rightarrow> if number_truthy n then n else Finite 1 | None \<Rightarrow> Finite 1)"

definition UnfoldAction_invoke :: "FoldingArguments option \<Rightarrow> Controller \<Rightarrow> FoldOperation" where
  "UnfoldAction_invoke args s =
     (let levels' = levels_or_1 (args_levels args);
          lineNumbers = getLineNumbers args s
      in if args_direction args = Some ''up''
         then SetCollapseStateLevelsUp False levels' lineNumbers
         else SetCollapseStateLevelsDown False levels' lineNumbers)"

definition FoldAction_invoke :: "FoldingArguments option \<Rightarrow> Controller \<Rightarrow> FoldOperation" where
  "FoldAction_invoke args s =
     (let lineNumbers = getLineNumbers args s;
          levels' = args_levels args;
          direction' = args_direction args
      in if levels' = None \<and> direction' = None
         then SetCollapseStateUp True lineNumbers
         else if direction' = Some ''up''
           then SetCollapseStateLevelsUp True (levels_or_1 levels') lineNumbers
           else SetCollapseStateLevelsDown True (levels_or_1 levels') lineNumbers)"

fun invoke :: "Action \<Rightarrow> FoldingArguments option \<Rightarrow> Controller \<Rightarrow> FoldOperation" where
  "invoke UnfoldAction args s = UnfoldAction_invoke args s"
| "invoke FoldAction args s = FoldAction_invoke args s"

definition reveal :: "int \<Rightarrow> int \<Rightarrow> Controller \<Rightarrow> Controller" where
  "reveal lineNumber column s = editorCall (RevealPositionInCenterIfOutsideViewport lineNumber column) s"

text \<open>The callback of \<^verbatim>\<open>runEditorCommand\<close> on the folding-model promise.\<close>

definition runEditorCommand_then ::
  "Collaborators \<Rightarrow> Action \<Rightarrow> FoldingArguments option \<Rightarrow> nat option \<Rightarrow> Controller \<Rightarrow> Controller" where
  "runEditorCommand_then C action args resolved s =
     (case resolved of
        None \<Rightarrow> s
      | Some fm \<Rightarrow>
          (let (m, events) = FoldingModel_operation C (invoke action args s) (objects s fm);
               s1 = fireHiddenRanges C fm events (s\<lparr>objects := (objects s)(fm := m)\<rparr>)
           in case editor_selections s1 of
                Some (selection # _) \<Rightarrow>
                  reveal (range_startLineNumber selection) (range_startColumn selection) s1
              | _ \<Rightarrow> s1))"

subsection \<open>View state\<close>

text \<open>
  The callback of \<^verbatim>\<open>restoreViewState\<close> on the folding-model promise, with the
  \<^verbatim>\<open>try ... finally\<close> around \<^verbatim>\<open>applyMemento\<close> and the error handler chained after it.
\<close>

definition restoreViewState_then ::
  "Collaborators \<Rightarrow> CollapseMemento \<Rightarrow> nat option \<Rightarrow> Controller \<Rightarrow> Controller" where
  "restoreViewState_then C memento resolved s =
     (case resolved of
        None \<Rightarrow> s
      | Some fm \<Rightarrow>
          (let s1 = s\<lparr>restoringViewState := True\<rparr>;
               ((m, events), thrown) = FoldingModel_applyMemento C memento (objects s1 fm);
               s2 = fireHiddenRanges C fm events (s1\<lparr>objects := (objects s1)(fm := m)\<rparr>);
               s3 = s2\<lparr>restoringViewState := False\<rparr>
           in case thrown of
                None \<Rightarrow> s3
              | Some err \<Rightarrow> onUnexpectedError err s3))"

fun runContinuation :: "Collaborators \<Rightarrow> nat option \<Rightarrow> Continuation \<Rightarrow> Controller \<Rightarrow> Controller" where
  "runContinuation C resolved (RestoreViewStateThen memento) s = restoreViewState_then C memento resolved s"
| "runContinuation C resolved (RunEditorCommandThen action args) s =
     runEditorCommand_then C action args resolved s"

text \<open>
  \<^verbatim>\<open>promise.then(callback)\<close> on a folding-model promise: the callback waits, or runs with the
  value when the promise has settled already.
\<close>

definition promise_then :: "Collaborators \<Rightarrow> nat \<Rightarrow> Continuation \<Rightarrow> Controller \<Rightarrow> Controller" where
  "promise_then C q k s =
     (case map_of (settled s) q of
        Some resolved \<Rightarrow> runContinuation C resolved k s
      | None \<Rightarrow> s\<lparr>thens := thens s @ [(q, k)]\<rparr>)"

text \<open>The folding-model promise \<open>q\<close> settles with a value: its callbacks run.\<close>

definition settlePromise :: "Collaborators \<Rightarrow> nat option \<Rightarrow> Controller \<Rightarrow> nat \<Rightarrow> Controller" where
  "settlePromise C resolved s q =
     foldl (\<lambda>s' k. runContinuation C resolved k s')
       (s\<lparr>thens := filter (\<lambda>(p, k). p \<noteq> q) (thens s), settled := settled s @ [(q, resolved)]\<rparr>)
       (map snd (filter (\<lambda>(p, k). p = q) (thens s)))"

text \<open>
  The promise the scheduler returned rejects: the handler that
  \<^verbatim>\<open>triggerFoldingModelChanged\<close> chained to it reports the error and yields null.
\<close>

definition rejectPromise :: "Collaborators \<Rightarrow> Error \<Rightarrow> Controller \<Rightarrow> nat \<Rightarrow> Controller" where
  "rejectPromise C err s q = settlePromise C None (onUnexpectedError err s) q"

definition saveViewState :: "Collaborators \<Rightarrow> Controller \<Rightarrow> Error + FoldingStateMemento option" where
  "saveViewState C s =
     (let empty = \<lparr>collapsedRegions = None, lineCount = None, provider = None, foldedImports = None\<rparr>
      in case editor_model s of
           None \<Rightarrow> Inr (Some empty)
         | Some model \<Rightarrow>
             if \<not> isEnabled s \<or> isTooLargeForTokenization model then Inr (Some empty)
             else
               (case foldingModel s of
                  None \<Rightarrow> Inr None
                | Some fm \<Rightarrow>
                    (let state = (\<lambda>regions'.
                           \<lparr>collapsedRegions = regions', lineCount = Some (getLineCount model),
                            provider = map_option provider_id (rangeProvider s),
                            foldedImports = Some (currentModelHasFoldedImports s)\<rparr>)
                     in if isInitialized (objects s fm)
                        then Inr (Some (state (FoldingModel_getMemento C (objects s fm))))
                        else
                          (case hiddenRangeModel s of
                             None \<Rightarrow> Inl (Failure ''TypeError'')
                           | Some h \<Rightarrow>
                               Inr (Some (state (Some (HiddenRangeModel_getMemento C (objects s h)))))))))"

definition restoreViewState :: "Collaborators \<Rightarrow> FoldingStateMemento option \<Rightarrow> Controller \<Rightarrow> Controller" where
  "restoreViewState C state s =
     (case editor_model s of
        None \<Rightarrow> s
      | Some model \<Rightarrow>
          (case hiddenRangeModel s of
             None \<Rightarrow> s
           | Some h \<Rightarrow>
               if \<not> isEnabled s \<or> isTooLargeForTokenization model then s
               else
                 (case state of
                    None \<Rightarrow> s
                  | Some st \<Rightarrow>
                      if lineCount st \<noteq> Some (getLineCount model) then s
                      else
                        (let s1 = s\<lparr>currentModelHasFoldedImports := (foldedImports st = Some True)\<rparr>
                         in case collapsedRegions st of
                              None \<Rightarrow> s1
                            | Some memento \<Rightarrow>
                                (let s2 = (if provider st = Some ID_SYNTAX_PROVIDER
                                              \<or> provider st = Some ID_INIT_PROVIDER
                                           then s1\<lparr>foldingStateMemento := Some st\<rparr>
                                           else s1);
                                     (applied, m, events) =
                                        HiddenRangeModel_applyMemento C memento (objects s2 h);
                                     s3 = fireHiddenRanges C h events (s2\<lparr>objects := (objects s2)(h := m)\<rparr>)
                                 in if applied then
                                      (case foldingModelPromise s3 of
                                         None \<Rightarrow> s3
                                       | Some q \<Rightarrow> promise_then C q (RestoreViewStateThen memento) s3)
                                    else s3)))))"

definition runEditorCommand ::
  "Collaborators \<Rightarrow> Action \<Rightarrow> FoldingArguments option \<Rightarrow> Controller option \<Rightarrow> Controller option" where
  "runEditorCommand C action args foldingController =
     (case foldingController of
        None \<Rightarrow> None
      | Some s \<Rightarrow>
          (case foldingModelPromise s of
             None \<Rightarrow> Some s
           | Some q \<Rightarrow> Some (promise_then C q (RunEditorCommandThen action args) (reportTelemetry s))))"

subsection \<open>Computing the regions\<close>

text \<open>
  The block of the callback below that folds the imports: it yields the regions to hand to
  the folding model, whether a scroll state was captured, and the controller.
\<close>

definition foldImports :: "FoldingRegions \<Rightarrow> Controller \<Rightarrow> FoldingRegions \<times> bool \<times> Controller" where
  "foldImports ranges s =
     (if foldingImportsByDefault s \<and> \<not> currentModelHasFoldedImports s then
        (let (hasChanges, collapsed) = setCollapsedAllOfType FoldingRangeKind_Imports True ranges
         in if hasChanges
            then (collapsed, True,
                  editorCall CaptureScrollState (s\<lparr>currentModelHasFoldedImports := hasChanges\<rparr>))
            else (collapsed, False, s))
      else (ranges, False, s))"

text \<open>
  The callback that the scheduler's task chains to the provider's promise \<open>p\<close>; \<open>fm\<close> is the
  folding model the task read, \<open>newValue\<close> the delay the debounce service answers.
\<close>

definition computeThen ::
  "Collaborators \<Rightarrow> nat \<Rightarrow> nat \<Rightarrow> FoldingRegions option \<Rightarrow> nat \<Rightarrow> Controller \<Rightarrow> Controller" where
  "computeThen C p fm foldingRanges newValue s =
     (case foldingRanges of
        None \<Rightarrow> s
      | Some ranges \<Rightarrow>
          if Some p = foldingRegionPromise s then
            (let (ranges1, scrollState, s1) = foldImports ranges s;
                 (m, events) = FoldingModel_update C ranges1 (getSelectedLines s1) (objects s1 fm);
                 s2 = fireHiddenRanges C fm events (s1\<lparr>objects := (objects s1)(fm := m)\<rparr>);
                 s3 = (if scrollState then editorCall RestoreScrollState s2 else s2)
             in case updateScheduler s3 of
                  Some d \<Rightarrow> s3\<lparr>updateScheduler := Some (d\<lparr>defaultDelay := newValue\<rparr>)\<rparr>
                | None \<Rightarrow> s3)
          else s)"

text \<open>
  The task given to the scheduler, run when the timer fires; \<open>qs\<close> are the folding-model
  promises waiting for it. Without a folding model it answers null at once.
\<close>

definition updateTask :: "Collaborators \<Rightarrow> nat list \<Rightarrow> Controller \<Rightarrow> Controller" where
  "updateTask C qs s =
     (case foldingModel s of
        None \<Rightarrow> foldl (settlePromise C None) s qs
      | Some fm \<Rightarrow>
          (let (provider', s1) = getRangeProvider (textModel (objects s fm)) s;
               p = nextPromise s1
           in s1\<lparr>nextPromise := p + 1,
                 foldingRegionPromise := Some p,
                 computations := computations s1 @
                   [\<lparr>promise = p, capturedModel = fm, cancelled = False, results = qs\<rparr>]\<rparr>))"

definition timerFires :: "Collaborators \<Rightarrow> Controller \<Rightarrow> Controller" where
  "timerFires C s =
     (case updateScheduler s of
        None \<Rightarrow> s
      | Some d \<Rightarrow>
          if task d
          then updateTask C (waiting d) (s\<lparr>updateScheduler := Some (d\<lparr>task := False, waiting := []\<rparr>)\<rparr>)
          else s)"

definition computation :: "Controller \<Rightarrow> nat \<Rightarrow> Computation option" where
  "computation s p = find (\<lambda>c. promise c = p) (computations s)"

definition forget :: "nat \<Rightarrow> Controller \<Rightarrow> Controller" where
  "forget p s = s\<lparr>computations := filter (\<lambda>c. promise c \<noteq> p) (computations s)\<rparr>"

text \<open>
  The provider's promise \<open>p\<close> resolves with regions or with null: the callback runs, and the
  folding-model promises of this run of the task resolve with the folding model.
\<close>

definition computeResolves ::
  "Collaborators \<Rightarrow> nat \<Rightarrow> FoldingRegions option \<Rightarrow> nat \<Rightarrow> Controller \<Rightarrow> Controller" where
  "computeResolves C p foldingRanges newValue s =
     (case computation s p of
        None \<Rightarrow> s
      | Some c \<Rightarrow>
          foldl (settlePromise C (Some (capturedModel c)))
            (computeThen C p (capturedModel c) foldingRanges newValue (forget p s))
            (results c))"

text \<open>
  The provider's promise \<open>p\<close> rejects, with the provider's error or, after \<^verbatim>\<open>cancel()\<close>, with
  \<open>Canceled\<close>: the callback is skipped and the error handlers run.
\<close>

definition computeRejects :: "Collaborators \<Rightarrow> nat \<Rightarrow> Error \<Rightarrow> Controller \<Rightarrow> Controller" where
  "computeRejects C p err s =
     (case computation s p of
        None \<Rightarrow> s
      | Some c \<Rightarrow> foldl (rejectPromise C err) (forget p s) (results c))"

subsection \<open>Attaching and detaching a document\<close>

text \<open>
  \<^verbatim>\<open>localToDispose.clear()\<close>: the hidden range model is disposed while the controller still
  listens to it, then the disposable that \<^verbatim>\<open>onModelChanged\<close> registered last runs. Cancelling
  the scheduler rejects the promises waiting for its task.
\<close>

definition hiddenRangeModel_dispose :: "Collaborators \<Rightarrow> Controller \<Rightarrow> Controller" where
  "hiddenRangeModel_dispose C s =
     (case hiddenRangeModel s of
        Some h \<Rightarrow> fireHiddenRanges C h (HiddenRangeModel_dispose C (objects s h)) s
      | None \<Rightarrow> s)"

definition updateScheduler_cancel :: "Collaborators \<Rightarrow> Controller \<Rightarrow> Controller" where
  "updateScheduler_cancel C s =
     (case updateScheduler s of
        Some d \<Rightarrow> foldl (rejectPromise C Canceled) s (waiting d)
      | None \<Rightarrow> s)"

definition localToDispose_clear :: "Collaborators \<Rightarrow> Controller \<Rightarrow> Controller" where
  "localToDispose_clear C s =
     (if \<not> localToDispose s then s
      else
        (updateScheduler_cancel C (cancelCurrent (hiddenRangeModel_dispose C s)))
          \<lparr>updateScheduler := None,
           foldingModel := None,
           foldingModelPromise := None,
           hiddenRangeModel := None,
           foldingStateMemento := None,
           rangeProvider := None,
           localToDispose := False\<rparr>)"

definition onModelChanged :: "Collaborators \<Rightarrow> Controller \<Rightarrow> Controller" where
  "onModelChanged C s =
     (let s1 = localToDispose_clear C s
      in case editor_model s1 of
           None \<Rightarrow> s1
         | Some model \<Rightarrow>
             if \<not> isEnabled s1 \<or> isTooLargeForTokenization model then s1
             else
               (let fm = nextObject s1
                in triggerFoldingModelChanged
                     (s1\<lparr>currentModelHasFoldedImports := False,
                         objects := (objects s1)(fm := new_Models (uri model)),
                         nextObject := fm + 1,
                         foldingModel := Some fm,
                         hiddenRangeModel := Some fm,
                         updateScheduler :=
                           Some \<lparr>defaultDelay = updateDebounceInfo_get C (uri model), task = False, waiting = []\<rparr>,
                         localToDispose := True\<rparr>)))"

definition notifyChangeModelContent :: "Collaborators \<Rightarrow> Controller \<Rightarrow> Controller" where
  "notifyChangeModelContent C s =
     (case hiddenRangeModel s of
        None \<Rightarrow> s
      | Some h \<Rightarrow>
          (let (m, events) = HiddenRangeModel_notifyChangeModelContent C (objects s h)
           in fireHiddenRanges C h events (s\<lparr>objects := (objects s)(h := m)\<rparr>)))"

definition onDidChangeModelContent :: "Collaborators \<Rightarrow> Controller \<Rightarrow> Controller" where
  "onDidChangeModelContent C s = triggerFoldingModelChanged (notifyChangeModelContent C s)"

text \<open>
  The listener of \<^verbatim>\<open>editor.onDidChangeConfiguration\<close>, one definition for each of its
  blocks; the editor has the new options.
\<close>

definition configuration_folding ::
  "Collaborators \<Rightarrow> ConfigurationChangedEvent \<Rightarrow> Controller \<Rightarrow> Controller" where
  "configuration_folding C e s =
     (if hasChanged e Option_folding then
        onModelChanged C
          (s\<lparr>isEnabled := opt_folding (editor_options s),
             foldingEnabled := opt_folding (editor_options s)\<rparr>)
      else s)"

definition configuration_foldingMaximumRegions ::
  "Collaborators \<Rightarrow> ConfigurationChangedEvent \<Rightarrow> Controller \<Rightarrow> Controller" where
  "configuration_foldingMaximumRegions C e s =
     (if hasChanged e Option_foldingMaximumRegions then
        onModelChanged C
          (s\<lparr>maxFoldingRegions := opt_foldingMaximumRegions (editor_options s),
             tooManyRegionsNotified := False\<rparr>)
      else s)"

definition configuration_decorations :: "ConfigurationChangedEvent \<Rightarrow> Controller \<Rightarrow> Controller" where
  "configuration_decorations e s =
     (if hasChanged e Option_showFoldingControls \<or> hasChanged e Option_foldingHighlight then
        triggerFoldingModelChanged
          (s\<lparr>autoHideFoldingControls := (opt_showFoldingControls (editor_options s) = ''mouseover''),
             showFoldingHighlights := opt_foldingHighlight (editor_options s)\<rparr>)
      else s)"

definition configuration_foldingStrategy :: "ConfigurationChangedEvent \<Rightarrow> Controller \<Rightarrow> Controller" where
  "configuration_foldingStrategy e s =
     (if hasChanged e Option_foldingStrategy then
        onFoldingStrategyChanged
          (s\<lparr>useFoldingProviders := (opt_foldingStrategy (editor_options s) \<noteq> ''indentation'')\<rparr>)
      else s)"

definition configuration_flags :: "ConfigurationChangedEvent \<Rightarrow> Controller \<Rightarrow> Controller" where
  "configuration_flags e s =
     (let s1 = (if hasChanged e Option_unfoldOnClickAfterEndOfLine then
                  s\<lparr>unfoldOnClickAfterEndOfLine := opt_unfoldOnClickAfterEndOfLine (editor_options s)\<rparr>
                else s)
      in if hasChanged e Option_foldingImportsByDefault then
           s1\<lparr>foldingImportsByDefault := opt_foldingImportsByDefault (editor_options s1)\<rparr>
         else s1)"

definition onDidChangeConfiguration ::
  "Collaborators \<Rightarrow> ConfigurationChangedEvent \<Rightarrow> Controller \<Rightarrow> Controller" where
  "onDidChangeConfiguration C e s =
     configuration_flags e
       (configuration_foldingStrategy e
         (configuration_decorations e
           (configuration_foldingMaximumRegions C e
             (configuration_folding C e s))))"

text \<open>The constructor, for an editor with the given options, document and selections.\<close>

definition FoldingController ::
  "Collaborators \<Rightarrow> EditorOptions \<Rightarrow> TextModel option \<Rightarrow> Selection list option
     \<Rightarrow> (nat \<times> nat list) list \<Rightarrow> Controller" where
  "FoldingController C options model selections registry =
     onModelChanged C
       \<lparr>editor_model = model,
        editor_options = options,
        editor_selections = selections,
        editor_calls = [],
        foldingRangeProvider_ordered = registry,
        notifications = [],
        unexpectedErrors = [],
        telemetry = 0,
        isEnabled = opt_folding options,
        useFoldingProviders = (opt_foldingStrategy options \<noteq> ''indentation''),
        unfoldOnClickAfterEndOfLine = opt_unfoldOnClickAfterEndOfLine options,
        restoringViewState = False,
        foldingImportsByDefault = opt_foldingImportsByDefault options,
        currentModelHasFoldedImports = False,
        maxFoldingRegions = opt_foldingMaximumRegions options,
        tooManyRegionsNotified = False,
        autoHideFoldingControls = (opt_showFoldingControls options = ''mouseover''),
        showFoldingHighlights = opt_foldingHighlight options,
        foldingModel = None,
        hiddenRangeModel = None,
        foldingEnabled = opt_folding options,
        rangeProvider = None,
        foldingRegionPromise = None,
        foldingStateMemento = None,
        foldingModelPromise = None,
        updateScheduler = None,
        localToDispose = False,
        objects = (\<lambda>_. new_Models 0),
        nextObject = 0,
        nextPromise = 0,
        computations = [],
        thens = [],
        settled = []\<rparr>"

subsection \<open>What can happen to a controller\<close>

text \<open>
  The editor, the language feature registry, the timers, the providers and the callers of the
  public methods drive the controller. A listener of the per-document bundle hears its event
  while the bundle is registered; a provider's callback is live while that provider is held.
\<close>

datatype Event =
    SetModel "TextModel option"
  | UpdateOptions EditorOptions ConfigurationChangedEvent
  | ChangeModelContent int
  | ChangeSelections "Selection list"
  | ChangeFoldingRangeProviders "(nat \<times> nat list) list"
  | ChangeLanguageConfiguration
  | SyntaxProviderChanges
  | InitializingProviderTimesOut
  | TimerFires
  | ProviderNotifiesTooMany int
  | ComputeResolves nat "FoldingRegions option" nat
  | ComputeRejects nat Error
  | RestoreViewState "FoldingStateMemento option"
  | RunEditorCommand Action "FoldingArguments option"

fun step :: "Collaborators \<Rightarrow> Controller \<Rightarrow> Event \<Rightarrow> Controller" where
  "step C s (SetModel model) = onModelChanged C (s\<lparr>editor_model := model\<rparr>)"
| "step C s (UpdateOptions options e) = onDidChangeConfiguration C e (s\<lparr>editor_options := options\<rparr>)"
| "step C s (ChangeModelContent n) =
     (case editor_model s of
        None \<Rightarrow> s
      | Some model \<Rightarrow>
          (let s1 = s\<lparr>editor_model := Some (model\<lparr>getLineCount := n\<rparr>)\<rparr>
           in if localToDispose s1 then onDidChangeModelContent C s1 else s1))"
| "step C s (ChangeSelections selections) = s\<lparr>editor_selections := Some selections\<rparr>"
| "step C s (ChangeFoldingRangeProviders registry) =
     (let s1 = s\<lparr>foldingRangeProvider_ordered := registry\<rparr>
      in if localToDispose s1 then onFoldingStrategyChanged s1 else s1)"
| "step C s ChangeLanguageConfiguration =
     (if localToDispose s then onFoldingStrategyChanged s else s)"
| "step C s SyntaxProviderChanges =
     (case rangeProvider s of
        Some (SyntaxRangeProvider _ _ _) \<Rightarrow> triggerFoldingModelChanged s
      | _ \<Rightarrow> s)"
| "step C s InitializingProviderTimesOut =
     (case rangeProvider s of
        Some (InitializingRangeProvider _ _ _) \<Rightarrow> initializingProviderTimeout s
      | _ \<Rightarrow> s)"
| "step C s TimerFires = timerFires C s"
| "step C s (ProviderNotifiesTooMany maxRegions) = notifyTooManyRegions maxRegions s"
| "step C s (ComputeResolves p foldingRanges newValue) = computeResolves C p foldingRanges newValue s"
| "step C s (ComputeRejects p err) = computeRejects C p err s"
| "step C s (RestoreViewState state) = restoreViewState C state s"
| "step C s (RunEditorCommand action args) =
     (case runEditorCommand C action args (Some s) of Some s' \<Rightarrow> s' | None \<Rightarrow> s)"

definition run :: "Collaborators \<Rightarrow> Controller \<Rightarrow> Event list \<Rightarrow> Controller" where
  "run C s events = foldl (step C) s events"

text \<open>The provider computations that are in flight: started, not cancelled, not settled.\<close>

definition outstanding :: "Controller \<Rightarrow> Computation list" where
  "outstanding s = filter (\<lambda>c. \<not> cancelled c) (computations s)"

subsection \<open>An instance of the models\<close>

text \<open>
  Modelled from the spec: an instance of the two models, to run the controller on examples.
  The hidden ranges are the lines below the header of each collapsed region that no other
  collapsed region encloses. An update takes the computed regions with the collapse bits they
  arrive with, carries the collapse bit of the old region with the same start line and level
  over, and expands every region with a cursor line below its header. A memento collapses the
  regions that start on its lines; applying it never throws, and the folding model answers
  no memento when nothing is collapsed. The hidden range model, which has no regions of its
  own, hides the line below each start line of a memento, refuses an empty memento and one
  with a start line 0, and moves a selection out of a hidden range to the line above it. The
  fold operations leave this instance as it is.
\<close>

definition lineRange :: "int \<Rightarrow> int \<Rightarrow> IRange" where
  "lineRange lo hi =
     \<lparr>range_startLineNumber = lo, range_startColumn = 1,
      range_endLineNumber = hi, range_endColumn = 1\<rparr>"

definition hiddenBelow :: "CollapseMemento \<Rightarrow> IRange list" where
  "hiddenBelow memento = map (\<lambda>c. lineRange (startLine c + 1) (startLine c + 1)) memento"

definition collapseAt :: "CollapseMemento \<Rightarrow> FoldingRegions \<Rightarrow> FoldingRegions" where
  "collapseAt memento rs =
     map (\<lambda>r. if startLineNumber r \<in> set (map startLine memento) then r\<lparr>isCollapsed := True\<rparr> else r) rs"

definition encloses :: "FoldingRegion \<Rightarrow> FoldingRegion \<Rightarrow> bool" where
  "encloses outer r \<longleftrightarrow>
     startLineNumber outer \<le> startLineNumber r \<and> endLineNumber r \<le> endLineNumber outer
     \<and> (startLineNumber outer < startLineNumber r \<or> endLineNumber r < endLineNumber outer)"

definition hiddenOf :: "FoldingRegions \<Rightarrow> IRange list" where
  "hiddenOf rs =
     map (\<lambda>r. lineRange (startLineNumber r + 1) (endLineNumber r))
       (filter (\<lambda>r. isCollapsed r \<and> \<not> list_ex (\<lambda>outer. isCollapsed outer \<and> encloses outer r) rs) rs)"

definition carryOver :: "FoldingRegions \<Rightarrow> int list \<Rightarrow> FoldingRegions \<Rightarrow> FoldingRegions" where
  "carryOver old cursorLines new =
     map (\<lambda>r. r\<lparr>isCollapsed :=
            (isCollapsed r
             \<or> list_ex (\<lambda>r'. isCollapsed r' \<and> startLineNumber r' = startLineNumber r \<and> level r' = level r) old)
            \<and> \<not> list_ex (\<lambda>l. startLineNumber r < l \<and> l \<le> endLineNumber r) cursorLines\<rparr>) new"

definition adjustLine :: "IRange list \<Rightarrow> int \<Rightarrow> int" where
  "adjustLine hidden l =
     (case find (\<lambda>h. range_startLineNumber h \<le> l \<and> l \<le> range_endLineNumber h) hidden of
        Some h \<Rightarrow> range_startLineNumber h - 1
      | None \<Rightarrow> l)"

text \<open>The models with new regions; an event is fired when the hidden ranges change.\<close>

definition withRegions :: "FoldingRegions \<Rightarrow> Models \<Rightarrow> Models \<times> IRange list list" where
  "withRegions rs m =
     (m\<lparr>regions := rs, hiddenRanges := hiddenOf rs\<rparr>,
      if hiddenOf rs = hiddenRanges m then [] else [hiddenOf rs])"

definition plainModels :: Collaborators where
  "plainModels =
     \<lparr>FoldingModel_update = (\<lambda>ranges lineNumbers m.
         withRegions (carryOver (regions m) lineNumbers ranges) (m\<lparr>isInitialized := True\<rparr>)),
      FoldingModel_applyMemento = (\<lambda>memento m. (withRegions (collapseAt memento (regions m)) m, None)),
      FoldingModel_getMemento = (\<lambda>m.
         if list_ex isCollapsed (regions m)
         then Some (map (\<lambda>r. \<lparr>startLine = startLineNumber r, collapsedType = regionType r\<rparr>)
                      (filter isCollapsed (regions m)))
         else None),
      FoldingModel_operation = (\<lambda>operation m. (m, [])),
      HiddenRangeModel_applyMemento = (\<lambda>memento m.
         if memento \<noteq> [] \<and> list_all (\<lambda>c. startLine c \<noteq> 0) memento
         then (True, m\<lparr>hiddenRanges := hiddenBelow memento\<rparr>, [hiddenBelow memento])
         else (False, m, [])),
      HiddenRangeModel_getMemento = (\<lambda>m.
         map (\<lambda>h. \<lparr>startLine = range_startLineNumber h - 1, collapsedType = None\<rparr>) (hiddenRanges m)),
      HiddenRangeModel_adjustSelections = (\<lambda>m selections.
         (list_ex (\<lambda>sel. adjustLine (hiddenRanges m) (range_startLineNumber sel) \<noteq> range_startLineNumber sel
                       \<or> adjustLine (hiddenRanges m) (range_endLineNumber sel) \<noteq> range_endLineNumber sel)
            selections,
          map (\<lambda>sel. sel\<lparr>range_startLineNumber := adjustLine (hiddenRanges m) (range_startLineNumber sel),
                           range_endLineNumber := adjustLine (hiddenRanges m) (range_endLineNumber sel)\<rparr>)
            selections)),
      HiddenRangeModel_notifyChangeModelContent = (\<lambda>m. (m, [])),
      HiddenRangeModel_dispose = (\<lambda>m. if hiddenRanges m = [] then [] else [[]]),
      updateDebounceInfo_get = (\<lambda>document. 200)\<rparr>"

text \<open>
  The same models with a folding model whose \<^verbatim>\<open>applyMemento\<close> throws, to run the \<^verbatim>\<open>finally\<close>
  branch of the restore on an example.
\<close>

definition failingModels :: Collaborators where
  "failingModels =
     plainModels\<lparr>FoldingModel_applyMemento :=
       (\<lambda>memento m. ((m, []), Some (Failure ''applyMemento failed'')))\<rparr>"

definition exampleOptions :: EditorOptions where
  "exampleOptions =
     \<lparr>opt_folding = True, opt_foldingStrategy = ''auto'', opt_unfoldOnClickAfterEndOfLine = False,
      opt_foldingImportsByDefault = True, opt_foldingMaximumRegions = 5000,
      opt_showFoldingControls = ''mouseover'', opt_foldingHighlight = True\<rparr>"

definition exampleDocument :: TextModel where
  "exampleDocument = \<lparr>uri = 1, getLineCount = 51, isTooLargeForTokenization = False\<rparr>"

definition exampleController :: Controller where
  "exampleController =
     FoldingController plainModels exampleOptions (Some exampleDocument)
       (Some [\<lparr>range_startLineNumber = 4, range_startColumn = 1, range_endLineNumber = 4, range_endColumn = 1\<rparr>])
       []"

definition exampleMemento :: "int \<Rightarrow> string option \<Rightarrow> FoldingStateMemento" where
  "exampleMemento n p =
     \<lparr>collapsedRegions = Some [\<lparr>startLine = 3, collapsedType = None\<rparr>], lineCount = Some n,
      provider = p, foldedImports = None\<rparr>"

text \<open>
  The example controller after a memento of the syntax provider was restored, and a memento
  of the indentation provider with another collapsed region.
\<close>

definition restoredController :: Controller where
  "restoredController =
     restoreViewState plainModels (Some (exampleMemento 51 (Some ID_SYNTAX_PROVIDER))) exampleController"

definition laterMemento :: FoldingStateMemento where
  "laterMemento =
     \<lparr>collapsedRegions = Some [\<lparr>startLine = 7, collapsedType = None\<rparr>], lineCount = Some 51,
      provider = Some ID_INDENT_PROVIDER, foldedImports = None\<rparr>"

subsection \<open>Notions used in the statements\<close>

definition is_Initializing :: "RangeProvider \<Rightarrow> bool" where
  "is_Initializing p = (case p of InitializingRangeProvider _ _ _ \<Rightarrow> True | _ \<Rightarrow> False)"

text \<open>
  The memento \<open>st\<close> passes the checks of \<^verbatim>\<open>restoreViewState\<close>: a document is attached that is not
  too large, folding is enabled, the hidden range model \<open>h\<close> exists, the line counts agree, and
  the memento has the collapsed regions \<open>memento\<close>.
\<close>

definition restorable :: "Controller \<Rightarrow> FoldingStateMemento \<Rightarrow> nat \<Rightarrow> CollapseMemento \<Rightarrow> bool" where
  "restorable s st h memento \<longleftrightarrow>
     (case editor_model s of
        None \<Rightarrow> False
      | Some model \<Rightarrow>
          isEnabled s \<and> \<not> isTooLargeForTokenization model \<and> lineCount st = Some (getLineCount model))
     \<and> hiddenRangeModel s = Some h \<and> collapsedRegions st = Some memento"

text \<open>
  The controller without what callbacks write: the editor's selections, the calls on the
  editor, the models, the restoring flag, the reported errors and the promise bookkeeping.
\<close>

definition core :: "Controller \<Rightarrow> Controller" where
  "core s = s\<lparr>editor_calls := [], editor_selections := None, objects := (\<lambda>_. new_Models 0),
             restoringViewState := False, unexpectedErrors := [], thens := [], settled := []\<rparr>"

text \<open>The events that reset, and that raise, the warning about too many regions.\<close>

definition resetsWarning :: "Event \<Rightarrow> bool" where
  "resetsWarning ev =
     (case ev of UpdateOptions options e \<Rightarrow> hasChanged e Option_foldingMaximumRegions | _ \<Rightarrow> False)"

definition warns :: "Event \<Rightarrow> bool" where
  "warns ev = (case ev of ProviderNotifiesTooMany maxRegions \<Rightarrow> True | _ \<Rightarrow> False)"

text \<open>
  The bookkeeping of computations and of the per-document bundle is consistent: a pending
  computation was cancelled exactly when it is not the current one, promises are numbered in
  order and each computation settles some folding-model promise; an armed scheduler has promises waiting
  and no current computation; without the bundle there is no scheduler, no model and no
  promise, with it both models are there.
\<close>

definition scheduled :: "Controller \<Rightarrow> bool" where
  "scheduled s \<longleftrightarrow>
     list_all (\<lambda>c. (cancelled c \<longleftrightarrow> foldingRegionPromise s \<noteq> Some (promise c))
                  \<and> promise c < nextPromise s \<and> results c \<noteq> []) (computations s)
   \<and> distinct (map promise (computations s))
   \<and> (case updateScheduler s of
         None \<Rightarrow> \<not> localToDispose s
       | Some d \<Rightarrow> localToDispose s \<and> (task d \<longrightarrow> foldingRegionPromise s = None \<and> waiting d \<noteq> []))
   \<and> (if localToDispose s
       then foldingModel s \<noteq> None \<and> hiddenRangeModel s = foldingModel s
       else foldingModelPromise s = None \<and> foldingModel s = None \<and> hiddenRangeModel s = None
            \<and> foldingRegionPromise s = None)"

text \<open>The bundle is only registered for an enabled controller on a document that is not too large.\<close>

definition attached :: "Controller \<Rightarrow> bool" where
  "attached s \<longleftrightarrow>
     (localToDispose s \<longrightarrow>
        isEnabled s
        \<and> (case editor_model s of None \<Rightarrow> False | Some model \<Rightarrow> \<not> isTooLargeForTokenization model))"

definition wellFormed :: "Controller \<Rightarrow> bool" where
  "wellFormed s \<longleftrightarrow> scheduled s \<and> attached s"

text \<open>
  The fields that matter for scheduling: the controller without what \<open>core\<close> drops and
  without provider, stored memento, import flag, warnings and telemetry.
\<close>

definition control :: "Controller \<Rightarrow> Controller" where
  "control s = (core s)\<lparr>rangeProvider := None, foldingStateMemento := None,
     currentModelHasFoldedImports := False, notifications := [], tooManyRegionsNotified := False,
     telemetry := 0\<rparr>"

text \<open>
  From \<open>s\<close> to \<open>s'\<close> promises were only added: a promise of \<open>s\<close> that is not the current
  computation of \<open>s\<close> is not the current computation of \<open>s'\<close> either.
\<close>

definition advanced :: "Controller \<Rightarrow> Controller \<Rightarrow> bool" where
  "advanced s s' \<longleftrightarrow>
     nextPromise s \<le> nextPromise s'
     \<and> (\<forall>p < nextPromise s. foldingRegionPromise s \<noteq> Some p \<longrightarrow> foldingRegionPromise s' \<noteq> Some p)"

text \<open>The events that make the controller ask for a new computation.\<close>

definition triggers :: "Event \<Rightarrow> bool" where
  "triggers ev =
     (case ev of
        SetModel model \<Rightarrow> True
      | ChangeModelContent n \<Rightarrow> True
      | ChangeFoldingRangeProviders registry \<Rightarrow> True
      | ChangeLanguageConfiguration \<Rightarrow> True
      | UpdateOptions options e \<Rightarrow>
          hasChanged e Option_folding \<or> hasChanged e Option_foldingMaximumRegions
          \<or> hasChanged e Option_showFoldingControls \<or> hasChanged e Option_foldingHighlight
          \<or> hasChanged e Option_foldingStrategy
      | _ \<Rightarrow> False)"

text \<open>No document is attached, folding is disabled, or the document is too large.\<close>

definition modelUnavailable :: "Controller \<Rightarrow> bool" where
  "modelUnavailable s \<longleftrightarrow>
     (case editor_model s of
        None \<Rightarrow> True
      | Some model \<Rightarrow> \<not> isEnabled s \<or> isTooLargeForTokenization model)"

text \<open>Two regions for the examples: one of import type, one without a type.\<close>

definition bodyRegion :: FoldingRegion where
  "bodyRegion =
     \<lparr>startLineNumber = 5, endLineNumber = 9, level = 1, regionType = None, isCollapsed = False\<rparr>"

definition importsRegion :: FoldingRegion where
  "importsRegion =
     \<lparr>startLineNumber = 1, endLineNumber = 3, level = 1, regionType = Some FoldingRangeKind_Imports,
      isCollapsed = False\<rparr>"

text \<open>
  The events after which imports may be folded again: those that run \<^verbatim>\<open>onModelChanged\<close>, and
  \<^verbatim>\<open>restoreViewState\<close>.
\<close>

definition resetsImports :: "Event \<Rightarrow> bool" where
  "resetsImports ev =
     (case ev of
        SetModel model \<Rightarrow> True
      | UpdateOptions options e \<Rightarrow>
          hasChanged e Option_folding \<or> hasChanged e Option_foldingMaximumRegions
      | RestoreViewState state \<Rightarrow> True
      | _ \<Rightarrow> False)"

text \<open>All regions of import type are collapsed.\<close>

definition importsCollapsed :: "FoldingRegions \<Rightarrow> bool" where
  "importsCollapsed ranges =
     list_all (\<lambda>r. regionType r = Some FoldingRangeKind_Imports \<longrightarrow> isCollapsed r) ranges"

section \<open>What callbacks leave alone\<close>

lemma foldl_core: "(\<And>s x. core (f s x) = core s) \<Longrightarrow> core (foldl f s xs) = core s"
  by (induction xs arbitrary: s) simp_all

lemma foldl_commute: "(\<And>s x. f (g s) x = g (f s x)) \<Longrightarrow> foldl f (g s) xs = g (foldl f s xs)"
  by (induction xs arbitrary: s) simp_all

lemma core_update [simp]:
  "core (s\<lparr>objects := x\<rparr>) = core s"
  "core (s\<lparr>restoringViewState := b\<rparr>) = core s"
  "core (s\<lparr>editor_calls := c\<rparr>) = core s"
  "core (s\<lparr>editor_selections := d\<rparr>) = core s"
  "core (s\<lparr>unexpectedErrors := e\<rparr>) = core s"
  "core (s\<lparr>thens := t\<rparr>) = core s"
  "core (s\<lparr>settled := u\<rparr>) = core s"
  by (simp_all add: core_def)

lemma core_onHiddenRangesChanges [simp]: "core (onHiddenRangesChanges C ranges s) = core s"
  by (simp add: onHiddenRangesChanges_def editorCall_def Let_def split: option.splits prod.splits)

lemma core_fireHiddenRanges [simp]: "core (fireHiddenRanges C h events s) = core s"
  by (simp add: fireHiddenRanges_def foldl_core)

lemma core_restoreViewState_then [simp]: "core (restoreViewState_then C memento resolved s) = core s"
  by (simp add: restoreViewState_then_def onUnexpectedError_def Let_def split: option.splits prod.splits)

lemma core_runEditorCommand_then [simp]: "core (runEditorCommand_then C action args resolved s) = core s"
  by (simp add: runEditorCommand_then_def reveal_def editorCall_def Let_def
      split: option.splits prod.splits list.splits)

lemma core_runContinuation [simp]: "core (runContinuation C resolved k s) = core s"
  by (cases k) simp_all

lemma core_promise_then [simp]: "core (promise_then C q k s) = core s"
  by (simp add: promise_then_def split: option.splits)

lemma core_settlePromise [simp]: "core (settlePromise C resolved s q) = core s"
  by (simp add: settlePromise_def foldl_core)

lemma core_rejectPromise [simp]: "core (rejectPromise C err s q) = core s"
  by (simp add: rejectPromise_def onUnexpectedError_def)

lemma core_settle_all [simp]: "core (foldl (settlePromise C resolved) s qs) = core s"
  by (simp add: foldl_core)

lemma core_reject_all [simp]: "core (foldl (rejectPromise C err) s qs) = core s"
  by (simp add: foldl_core)

lemma core_fields:
  assumes "core s' = core s"
  shows "foldingStateMemento s' = foldingStateMemento s"
    and "rangeProvider s' = rangeProvider s"
    and "notifications s' = notifications s"
    and "tooManyRegionsNotified s' = tooManyRegionsNotified s"
    and "foldingRegionPromise s' = foldingRegionPromise s"
    and "computations s' = computations s"
    and "updateScheduler s' = updateScheduler s"
    and "foldingModelPromise s' = foldingModelPromise s"
    and "foldingModel s' = foldingModel s"
    and "hiddenRangeModel s' = hiddenRangeModel s"
    and "editor_model s' = editor_model s"
    and "isEnabled s' = isEnabled s"
    and "currentModelHasFoldedImports s' = currentModelHasFoldedImports s"
    and "nextPromise s' = nextPromise s"
    and "localToDispose s' = localToDispose s"
    and "foldingImportsByDefault s' = foldingImportsByDefault s"
    and "useFoldingProviders s' = useFoldingProviders s"
    and "maxFoldingRegions s' = maxFoldingRegions s"
    and "foldingRangeProvider_ordered s' = foldingRangeProvider_ordered s"
  using assms [THEN arg_cong, of foldingStateMemento]
        assms [THEN arg_cong, of rangeProvider]
        assms [THEN arg_cong, of notifications]
        assms [THEN arg_cong, of tooManyRegionsNotified]
        assms [THEN arg_cong, of foldingRegionPromise]
        assms [THEN arg_cong, of computations]
        assms [THEN arg_cong, of updateScheduler]
        assms [THEN arg_cong, of foldingModelPromise]
        assms [THEN arg_cong, of foldingModel]
        assms [THEN arg_cong, of hiddenRangeModel]
        assms [THEN arg_cong, of editor_model]
        assms [THEN arg_cong, of isEnabled]
        assms [THEN arg_cong, of currentModelHasFoldedImports]
        assms [THEN arg_cong, of nextPromise]
        assms [THEN arg_cong, of localToDispose]
        assms [THEN arg_cong, of foldingImportsByDefault]
        assms [THEN arg_cong, of useFoldingProviders]
        assms [THEN arg_cong, of maxFoldingRegions]
        assms [THEN arg_cong, of foldingRangeProvider_ordered]
  by (simp_all add: core_def)

lemmas callback_frame [simp] =
  core_fields [OF core_onHiddenRangesChanges]
  core_fields [OF core_fireHiddenRanges]
  core_fields [OF core_restoreViewState_then]
  core_fields [OF core_runEditorCommand_then]
  core_fields [OF core_runContinuation]
  core_fields [OF core_promise_then]
  core_fields [OF core_settlePromise]
  core_fields [OF core_rejectPromise]
  core_fields [OF core_settle_all]
  core_fields [OF core_reject_all]

text \<open>Callbacks neither read nor write the stored memento.\<close>

lemma onHiddenRangesChanges_memento:
  "onHiddenRangesChanges C r (s\<lparr>foldingStateMemento := x\<rparr>) =
     (onHiddenRangesChanges C r s)\<lparr>foldingStateMemento := x\<rparr>"
  by (simp add: onHiddenRangesChanges_def editorCall_def Let_def split: option.splits prod.splits)

lemma fireHiddenRanges_memento:
  "fireHiddenRanges C h events (s\<lparr>foldingStateMemento := x\<rparr>) =
     (fireHiddenRanges C h events s)\<lparr>foldingStateMemento := x\<rparr>"
  by (simp add: fireHiddenRanges_def foldl_commute onHiddenRangesChanges_memento)

lemma memento_out:
  "s\<lparr>foldingStateMemento := x, restoringViewState := b, objects := ob\<rparr> =
     (s\<lparr>restoringViewState := b, objects := ob\<rparr>)\<lparr>foldingStateMemento := x\<rparr>"
  "s\<lparr>foldingStateMemento := x, objects := ob\<rparr> = (s\<lparr>objects := ob\<rparr>)\<lparr>foldingStateMemento := x\<rparr>"
  "s\<lparr>currentModelHasFoldedImports := cm, foldingStateMemento := x, objects := ob\<rparr> =
     (s\<lparr>currentModelHasFoldedImports := cm, objects := ob\<rparr>)\<lparr>foldingStateMemento := x\<rparr>"
  by (cases s; simp)+

lemma fireHiddenRanges_memento_inner:
  "fireHiddenRanges C h events (s\<lparr>foldingStateMemento := x, restoringViewState := b, objects := ob\<rparr>) =
     (fireHiddenRanges C h events (s\<lparr>restoringViewState := b, objects := ob\<rparr>))\<lparr>foldingStateMemento := x\<rparr>"
  "fireHiddenRanges C h events (s\<lparr>foldingStateMemento := x, objects := ob\<rparr>) =
     (fireHiddenRanges C h events (s\<lparr>objects := ob\<rparr>))\<lparr>foldingStateMemento := x\<rparr>"
  "fireHiddenRanges C h events (s\<lparr>currentModelHasFoldedImports := cm, foldingStateMemento := x, objects := ob\<rparr>) =
     (fireHiddenRanges C h events (s\<lparr>currentModelHasFoldedImports := cm, objects := ob\<rparr>))\<lparr>foldingStateMemento := x\<rparr>"
  unfolding memento_out by (rule fireHiddenRanges_memento)+

lemma getLineNumbers_memento [simp]:
  "getLineNumbers args (s\<lparr>foldingStateMemento := x\<rparr>) = getLineNumbers args s"
  by (simp add: getLineNumbers_def getSelectedLines_def cong: option.case_cong)

lemma invoke_memento [simp]:
  "invoke action args (s\<lparr>foldingStateMemento := x\<rparr>) = invoke action args s"
  by (cases action) (simp_all add: UnfoldAction_invoke_def FoldAction_invoke_def)

lemma runContinuation_memento:
  "runContinuation C resolved k (s\<lparr>foldingStateMemento := x\<rparr>) =
     (runContinuation C resolved k s)\<lparr>foldingStateMemento := x\<rparr>"
proof (cases k)
  case (RestoreViewStateThen memento)
  then show ?thesis
    by (simp add: restoreViewState_then_def onUnexpectedError_def Let_def fireHiddenRanges_memento_inner
        split: option.splits prod.splits)
next
  case (RunEditorCommandThen action args)
  then show ?thesis
    by (simp add: runEditorCommand_then_def reveal_def editorCall_def Let_def fireHiddenRanges_memento_inner
        split: option.splits prod.splits list.splits)
qed

lemma promise_then_memento:
  "promise_then C q k (s\<lparr>foldingStateMemento := x\<rparr>) = (promise_then C q k s)\<lparr>foldingStateMemento := x\<rparr>"
  by (simp add: promise_then_def runContinuation_memento split: option.splits)

section \<open>View state\<close>

text \<open>
  C2. A memento whose line count differs from the line count of the editor's document is
  discarded as a whole: \<^verbatim>\<open>restoreViewState\<close> leaves the controller, the models, the stored
  memento, the notifications and the reported errors as they are.
\<close>

theorem restoreViewState_stale_memento:
  "editor_model s = Some model \<Longrightarrow> lineCount st \<noteq> Some (getLineCount model)
     \<Longrightarrow> restoreViewState C (Some st) s = s"
  by (simp add: restoreViewState_def split: option.splits)

text \<open>A memento for 50 lines and a document of 51 lines.\<close>

theorem restoreViewState_stale_memento_witness:
  "editor_model exampleController = Some exampleDocument
   \<and> lineCount (exampleMemento 50 None) \<noteq> Some (getLineCount exampleDocument)
   \<and> restoreViewState plainModels (Some (exampleMemento 50 None)) exampleController = exampleController"
proof -
  have 1: "editor_model exampleController = Some exampleDocument" by code_simp
  have 2: "lineCount (exampleMemento 50 None) \<noteq> Some (getLineCount exampleDocument)" by code_simp
  show ?thesis using 1 2 restoreViewState_stale_memento [OF 1 2] by simp
qed

lemma restoreViewState_frame:
  "foldingStateMemento (promise_then C q k (fireHiddenRanges C h events t)) = foldingStateMemento t"
  "foldingStateMemento (fireHiddenRanges C h events t) = foldingStateMemento t"
  "rangeProvider (promise_then C q k (fireHiddenRanges C h events t)) = rangeProvider t"
  "rangeProvider (fireHiddenRanges C h events t) = rangeProvider t"
  "foldingModelPromise (fireHiddenRanges C h events t) = foldingModelPromise t"
  by simp_all

lemma restoreViewState_stores_or_keeps:
  "foldingStateMemento (restoreViewState C state s) = foldingStateMemento s
     \<or> (\<exists>st. state = Some st \<and> foldingStateMemento (restoreViewState C state s) = Some st
           \<and> (provider st = Some ID_SYNTAX_PROVIDER \<or> provider st = Some ID_INIT_PROVIDER))"
  by (simp add: restoreViewState_def Let_def restoreViewState_frame split: option.splits prod.splits)

lemma other_provider:
  assumes "provider st = Some ID_INDENT_PROVIDER \<or> provider st = None"
  shows "provider st \<noteq> Some ID_SYNTAX_PROVIDER" and "provider st \<noteq> Some ID_INIT_PROVIDER"
  using assms by (auto simp add: ID_INDENT_PROVIDER_def ID_SYNTAX_PROVIDER_def ID_INIT_PROVIDER_def)

lemma restoreViewState_applies_regardless:
  assumes "provider st = Some ID_INDENT_PROVIDER \<or> provider st = None"
  shows "restoreViewState C (Some st) s =
           (restoreViewState C (Some (st\<lparr>provider := Some ID_SYNTAX_PROVIDER\<rparr>)) s)
             \<lparr>foldingStateMemento := foldingStateMemento s\<rparr>"
  using other_provider [OF assms]
  by (simp add: restoreViewState_def Let_def restoreViewState_frame
      fireHiddenRanges_memento_inner promise_then_memento
      split: option.splits prod.splits)

lemma restoreViewState_selection_inputs:
  "rangeProvider (restoreViewState C state s) = rangeProvider s"
  "useFoldingProviders (restoreViewState C state s) = useFoldingProviders s"
  "maxFoldingRegions (restoreViewState C state s) = maxFoldingRegions s"
  "foldingModel (restoreViewState C state s) = foldingModel s"
  "foldingRangeProvider_ordered (restoreViewState C state s) = foldingRangeProvider_ordered s"
  by (simp_all add: restoreViewState_def Let_def split_beta split: option.splits)

lemma restoreViewState_other_provider:
  assumes "provider st = Some ID_INDENT_PROVIDER \<or> provider st = None"
  shows "foldingStateMemento (restoreViewState C (Some st) s) = foldingStateMemento s"
  using other_provider [OF assms] restoreViewState_stores_or_keeps [of C "Some st" s] by auto

lemma restoreViewState_no_seed:
  assumes "provider st = Some ID_INDENT_PROVIDER \<or> provider st = None"
    and "rangeProvider s = None" and "foldingStateMemento s = None"
  shows "\<not> is_Initializing (fst (getRangeProvider editorModel (restoreViewState C (Some st) s)))"
  using restoreViewState_other_provider [OF assms(1), of C s] assms(2,3)
    restoreViewState_selection_inputs(1) [of C "Some st" s]
  by (simp add: getRangeProvider_def Let_def mementoRegions_def is_Initializing_def split: option.splits)

text \<open>
  What \<^verbatim>\<open>restoreViewState\<close> does with a memento that passes its checks: it sets the imports
  flag, stores the memento of a syntax or initializing provider, hands the regions to the
  hidden range model, whose events the controller hears, and, when the hidden range model
  took them, attaches the callback to the folding-model promise.
\<close>

lemma restoreViewState_restorable:
  assumes "restorable s st h memento"
    and "HiddenRangeModel_applyMemento C memento (objects s h) = (applied, m, events)"
  shows "restoreViewState C (Some st) s =
     (let t = fireHiddenRanges C h events
                (s\<lparr>currentModelHasFoldedImports := (foldedImports st = Some True),
                   foldingStateMemento :=
                     (if provider st = Some ID_SYNTAX_PROVIDER \<or> provider st = Some ID_INIT_PROVIDER
                      then Some st else foldingStateMemento s),
                   objects := (objects s)(h := m)\<rparr>)
      in if applied
         then (case foldingModelPromise s of
                 None \<Rightarrow> t
               | Some q \<Rightarrow> promise_then C q (RestoreViewStateThen memento) t)
         else t)"
proof -
  obtain model where m: "editor_model s = Some model" "isEnabled s" "\<not> isTooLargeForTokenization model"
    "lineCount st = Some (getLineCount model)" "hiddenRangeModel s = Some h"
    "collapsedRegions st = Some memento"
    using assms(1) by (auto simp add: restorable_def split: option.splits)
  have "s\<lparr>currentModelHasFoldedImports := b, objects := ob\<rparr> =
      s\<lparr>currentModelHasFoldedImports := b, foldingStateMemento := foldingStateMemento s, objects := ob\<rparr>"
    for b ob
    by (cases s) simp
  with m assms(2) show ?thesis
    by (simp add: restoreViewState_def Let_def split: option.splits)
qed

lemma onHiddenRangesChanges_promises [simp]:
  "thens (onHiddenRangesChanges C ranges s) = thens s"
  "settled (onHiddenRangesChanges C ranges s) = settled s"
  "restoringViewState (onHiddenRangesChanges C ranges s) = restoringViewState s"
  by (simp_all add: onHiddenRangesChanges_def editorCall_def Let_def split_beta split: option.splits)

lemma fireHiddenRanges_promises [simp]:
  "thens (fireHiddenRanges C h events s) = thens s"
  "settled (fireHiddenRanges C h events s) = settled s"
  "restoringViewState (fireHiddenRanges C h events s) = restoringViewState s"
proof -
  have "thens (foldl (\<lambda>s' ranges. onHiddenRangesChanges C ranges s') t events) = thens t
      \<and> settled (foldl (\<lambda>s' ranges. onHiddenRangesChanges C ranges s') t events) = settled t
      \<and> restoringViewState (foldl (\<lambda>s' ranges. onHiddenRangesChanges C ranges s') t events)
          = restoringViewState t" for t
    by (induction events arbitrary: t) simp_all
  then show "thens (fireHiddenRanges C h events s) = thens s"
    "settled (fireHiddenRanges C h events s) = settled s"
    "restoringViewState (fireHiddenRanges C h events s) = restoringViewState s"
    by (simp_all add: fireHiddenRanges_def)
qed

lemma objects_onHiddenRangesChanges [simp]:
  "objects (onHiddenRangesChanges C ranges s) = objects s"
  by (simp add: onHiddenRangesChanges_def editorCall_def split_beta split: option.splits)

lemma objects_fireHiddenRanges [simp]: "objects (fireHiddenRanges C h events s) = objects s"
proof -
  have "objects (foldl (\<lambda>s' ranges. onHiddenRangesChanges C ranges s') t events) = objects t" for t
    by (induction events arbitrary: t) simp_all
  then show ?thesis by (simp add: fireHiddenRanges_def)
qed

text \<open>A callback attached last runs last when the promise settles.\<close>

lemma settlePromise_last:
  "settlePromise C resolved (u\<lparr>thens := thens u @ [(q, k)]\<rparr>) q =
     runContinuation C resolved k (settlePromise C resolved u q)"
  by (simp add: settlePromise_def)

lemma objects_restoreViewState_then:
  "objects (restoreViewState_then C memento (Some fm) u) fm =
     fst (fst (FoldingModel_applyMemento C memento (objects u fm)))"
  by (simp add: restoreViewState_then_def onUnexpectedError_def Let_def split_beta split: option.splits)

lemma getRangeProvider_cong:
  assumes "rangeProvider s' = rangeProvider s" and "foldingStateMemento s' = foldingStateMemento s"
    and "useFoldingProviders s' = useFoldingProviders s" and "maxFoldingRegions s' = maxFoldingRegions s"
    and "foldingModel s' = foldingModel s"
    and "foldingRangeProvider_ordered s' = foldingRangeProvider_ordered s"
    and "\<And>fm. foldingModel s = Some fm \<Longrightarrow> textModel (objects s' fm) = textModel (objects s fm)"
  shows "fst (getRangeProvider editorModel s') = fst (getRangeProvider editorModel s)"
  using assms
  by (simp add: getRangeProvider_def Let_def ordered_def mementoRegions_def split: option.splits)

lemma getRangeProvider_Initializing:
  assumes "is_Initializing (fst (getRangeProvider editorModel s))"
  shows "(\<exists>p. rangeProvider s = Some p \<and> is_Initializing p)
       \<or> (\<exists>r. mementoRegions s = Some r
              \<and> fst (getRangeProvider editorModel s) = InitializingRangeProvider editorModel r 30000)"
  using assms
  by (auto simp add: getRangeProvider_def Let_def is_Initializing_def mementoRegions_def
      split: option.splits if_splits)

lemma getRangeProvider_seeded:
  assumes "rangeProvider s = None" and "useFoldingProviders s" and "foldingModel s = Some fm"
    and "ordered s (textModel (objects s fm)) = []" and "mementoRegions s = Some r"
  shows "fst (getRangeProvider editorModel s) = InitializingRangeProvider editorModel r 30000"
  using assms by (simp add: getRangeProvider_def Let_def ordered_def mementoRegions_def)

text \<open>
  C9. \<^verbatim>\<open>restoreViewState\<close> either leaves the stored memento as it was or stores the memento
  it was given, and it stores it only when the memento's provider is the syntax provider or
  the initializing provider; a memento of these providers that passes the checks is stored,
  and seeds the initializing provider at the next selection when no provider is held and no
  supplier is registered. A memento recorded under the indentation provider, or without a
  provider, is applied like one of the syntax provider (the two results differ in the stored
  memento only), and it leaves the stored memento and the held provider as they are: the
  next provider selection is the one that would be made without it (as long as the folding
  model keeps its document), so the initializing provider is selected then only when it was
  held already or with the regions of a memento stored before; it is not selected when no
  memento was stored before and no provider is held. Applying a memento of any provider that
  passes the checks means: the hidden range model takes its regions; when the hidden range
  model accepts them, the callback is attached to the folding-model promise after the
  callbacks that wait already, and when the promise settles with the folding model the
  callback applies the regions to it; when the promise has settled already the callback
  runs at once.
\<close>

theorem restoreViewState_keeps_provider_mementos:
  "(foldingStateMemento (restoreViewState C state s) = foldingStateMemento s
      \<or> (\<exists>st. state = Some st \<and> foldingStateMemento (restoreViewState C state s) = Some st
            \<and> (provider st = Some ID_SYNTAX_PROVIDER \<or> provider st = Some ID_INIT_PROVIDER)))
   \<and> (\<forall>st. state = Some st \<and> (provider st = Some ID_INDENT_PROVIDER \<or> provider st = None) \<longrightarrow>
         restoreViewState C state s =
           (restoreViewState C (Some (st\<lparr>provider := Some ID_SYNTAX_PROVIDER\<rparr>)) s)
             \<lparr>foldingStateMemento := foldingStateMemento s\<rparr>
       \<and> (rangeProvider s = None \<and> foldingStateMemento s = None \<longrightarrow>
            \<not> is_Initializing (fst (getRangeProvider editorModel (restoreViewState C state s))))
       \<and> foldingStateMemento (restoreViewState C state s) = foldingStateMemento s
       \<and> rangeProvider (restoreViewState C state s) = rangeProvider s
       \<and> ((\<forall>fm. foldingModel s = Some fm \<longrightarrow>
               textModel (objects (restoreViewState C state s) fm) = textModel (objects s fm)) \<longrightarrow>
            fst (getRangeProvider editorModel (restoreViewState C state s))
              = fst (getRangeProvider editorModel s))
       \<and> (is_Initializing (fst (getRangeProvider editorModel (restoreViewState C state s))) \<longrightarrow>
            (\<exists>p. rangeProvider s = Some p \<and> is_Initializing p)
            \<or> (\<exists>r. mementoRegions s = Some r
                   \<and> fst (getRangeProvider editorModel (restoreViewState C state s))
                       = InitializingRangeProvider editorModel r 30000)))
   \<and> (\<forall>st h memento applied m events.
         state = Some st \<and> restorable s st h memento
         \<and> HiddenRangeModel_applyMemento C memento (objects s h) = (applied, m, events) \<longrightarrow>
           foldingStateMemento (restoreViewState C state s) =
             (if provider st = Some ID_SYNTAX_PROVIDER \<or> provider st = Some ID_INIT_PROVIDER
              then Some st else foldingStateMemento s)
         \<and> (provider st = Some ID_SYNTAX_PROVIDER \<or> provider st = Some ID_INIT_PROVIDER \<longrightarrow>
              (\<forall>fm. rangeProvider s = None \<and> useFoldingProviders s \<and> foldingModel s = Some fm
                  \<and> ordered s (textModel (objects (restoreViewState C state s) fm)) = [] \<longrightarrow>
                    fst (getRangeProvider editorModel (restoreViewState C state s))
                      = InitializingRangeProvider editorModel memento 30000))
         \<and> (let t = fireHiddenRanges C h events
                       (s\<lparr>currentModelHasFoldedImports := (foldedImports st = Some True),
                          foldingStateMemento :=
                            (if provider st = Some ID_SYNTAX_PROVIDER \<or> provider st = Some ID_INIT_PROVIDER
                             then Some st else foldingStateMemento s),
                          objects := (objects s)(h := m)\<rparr>)
            in objects t = (objects s)(h := m)
             \<and> (\<not> applied \<or> foldingModelPromise s = None \<longrightarrow> restoreViewState C state s = t)
             \<and> (\<forall>q. applied \<and> foldingModelPromise s = Some q \<and> map_of (settled s) q = None \<longrightarrow>
                    restoreViewState C state s = t\<lparr>thens := thens s @ [(q, RestoreViewStateThen memento)]\<rparr>
                  \<and> (\<forall>fm. settlePromise C (Some fm) (restoreViewState C state s) q =
                             restoreViewState_then C memento (Some fm) (settlePromise C (Some fm) t q)))
             \<and> (\<forall>q resolved. applied \<and> foldingModelPromise s = Some q
                    \<and> map_of (settled s) q = Some resolved \<longrightarrow>
                    restoreViewState C state s = restoreViewState_then C memento resolved t)))
   \<and> (\<forall>memento fm u. objects (restoreViewState_then C memento (Some fm) u) fm =
          fst (fst (FoldingModel_applyMemento C memento (objects u fm))))"
proof -
  let ?after = "restoreViewState C state s"
  note inputs = restoreViewState_selection_inputs [of C state s]
  have 1: "restoreViewState C state s =
           (restoreViewState C (Some (st\<lparr>provider := Some ID_SYNTAX_PROVIDER\<rparr>)) s)
             \<lparr>foldingStateMemento := foldingStateMemento s\<rparr>
       \<and> (rangeProvider s = None \<and> foldingStateMemento s = None \<longrightarrow>
            \<not> is_Initializing (fst (getRangeProvider editorModel ?after)))
       \<and> foldingStateMemento ?after = foldingStateMemento s
       \<and> rangeProvider ?after = rangeProvider s
       \<and> ((\<forall>fm. foldingModel s = Some fm \<longrightarrow>
               textModel (objects ?after fm) = textModel (objects s fm)) \<longrightarrow>
            fst (getRangeProvider editorModel ?after) = fst (getRangeProvider editorModel s))
       \<and> (is_Initializing (fst (getRangeProvider editorModel ?after)) \<longrightarrow>
            (\<exists>p. rangeProvider s = Some p \<and> is_Initializing p)
            \<or> (\<exists>r. mementoRegions s = Some r
                   \<and> fst (getRangeProvider editorModel ?after) = InitializingRangeProvider editorModel r 30000))"
    if st: "state = Some st" and p: "provider st = Some ID_INDENT_PROVIDER \<or> provider st = None" for st
  proof -
    have k: "foldingStateMemento ?after = foldingStateMemento s"
      using restoreViewState_other_provider [OF p, of C s] st by simp
    then have r: "mementoRegions ?after = mementoRegions s" by (simp add: mementoRegions_def)
    have c: "fst (getRangeProvider editorModel ?after) = fst (getRangeProvider editorModel s)"
      if "\<forall>fm. foldingModel s = Some fm \<longrightarrow> textModel (objects ?after fm) = textModel (objects s fm)"
      using that by (intro getRangeProvider_cong inputs k) simp
    have i: "(\<exists>p. rangeProvider s = Some p \<and> is_Initializing p)
            \<or> (\<exists>r. mementoRegions s = Some r
                   \<and> fst (getRangeProvider editorModel ?after) = InitializingRangeProvider editorModel r 30000)"
      if "is_Initializing (fst (getRangeProvider editorModel ?after))"
      using getRangeProvider_Initializing [OF that] inputs(1) r by simp
    from restoreViewState_applies_regardless [OF p, of C s] restoreViewState_no_seed [OF p, of s editorModel C]
      st k inputs(1) c i
    show ?thesis by blast
  qed
  have 2: "foldingStateMemento ?after =
             (if provider st = Some ID_SYNTAX_PROVIDER \<or> provider st = Some ID_INIT_PROVIDER
              then Some st else foldingStateMemento s)
         \<and> (provider st = Some ID_SYNTAX_PROVIDER \<or> provider st = Some ID_INIT_PROVIDER \<longrightarrow>
              (\<forall>fm. rangeProvider s = None \<and> useFoldingProviders s \<and> foldingModel s = Some fm
                  \<and> ordered s (textModel (objects ?after fm)) = [] \<longrightarrow>
                    fst (getRangeProvider editorModel ?after)
                      = InitializingRangeProvider editorModel memento 30000))
         \<and> (let t = fireHiddenRanges C h events
                       (s\<lparr>currentModelHasFoldedImports := (foldedImports st = Some True),
                          foldingStateMemento :=
                            (if provider st = Some ID_SYNTAX_PROVIDER \<or> provider st = Some ID_INIT_PROVIDER
                             then Some st else foldingStateMemento s),
                          objects := (objects s)(h := m)\<rparr>)
            in objects t = (objects s)(h := m)
             \<and> (\<not> applied \<or> foldingModelPromise s = None \<longrightarrow> ?after = t)
             \<and> (\<forall>q. applied \<and> foldingModelPromise s = Some q \<and> map_of (settled s) q = None \<longrightarrow>
                    ?after = t\<lparr>thens := thens s @ [(q, RestoreViewStateThen memento)]\<rparr>
                  \<and> (\<forall>fm. settlePromise C (Some fm) ?after q =
                             restoreViewState_then C memento (Some fm) (settlePromise C (Some fm) t q)))
             \<and> (\<forall>q resolved. applied \<and> foldingModelPromise s = Some q
                    \<and> map_of (settled s) q = Some resolved \<longrightarrow>
                    ?after = restoreViewState_then C memento resolved t))"
    if st: "state = Some st" and r: "restorable s st h memento"
      and a: "HiddenRangeModel_applyMemento C memento (objects s h) = (applied, m, events)"
    for st h memento applied m events
  proof -
    define t where "t = fireHiddenRanges C h events
                       (s\<lparr>currentModelHasFoldedImports := (foldedImports st = Some True),
                          foldingStateMemento :=
                            (if provider st = Some ID_SYNTAX_PROVIDER \<or> provider st = Some ID_INIT_PROVIDER
                             then Some st else foldingStateMemento s),
                          objects := (objects s)(h := m)\<rparr>)"
    have t: "thens t = thens s" "settled t = settled s" "objects t = (objects s)(h := m)"
      "foldingStateMemento t =
         (if provider st = Some ID_SYNTAX_PROVIDER \<or> provider st = Some ID_INIT_PROVIDER
          then Some st else foldingStateMemento s)"
      by (simp_all add: t_def)
    have e: "?after =
        (if applied
         then (case foldingModelPromise s of
                 None \<Rightarrow> t
               | Some q \<Rightarrow> promise_then C q (RestoreViewStateThen memento) t)
         else t)"
      using restoreViewState_restorable [OF r a, unfolded Let_def, folded t_def] st by simp
    have w: "?after = t\<lparr>thens := thens s @ [(q, RestoreViewStateThen memento)]\<rparr>"
      if "applied" "foldingModelPromise s = Some q" "map_of (settled s) q = None" for q
      using that e t by (simp add: promise_then_def)
    have w': "settlePromise C (Some fm) ?after q =
        restoreViewState_then C memento (Some fm) (settlePromise C (Some fm) t q)"
      if "applied" "foldingModelPromise s = Some q" "map_of (settled s) q = None" for q fm
      using settlePromise_last [of C "Some fm" t q "RestoreViewStateThen memento"] w [OF that] t(1)
      by simp
    have d: "?after = restoreViewState_then C memento resolved t"
      if "applied" "foldingModelPromise s = Some q" "map_of (settled s) q = Some resolved" for q resolved
      using that e t by (simp add: promise_then_def)
    have n: "?after = t" if "\<not> applied \<or> foldingModelPromise s = None"
      using that e by auto
    have k: "foldingStateMemento ?after =
             (if provider st = Some ID_SYNTAX_PROVIDER \<or> provider st = Some ID_INIT_PROVIDER
              then Some st else foldingStateMemento s)"
    proof (cases "applied \<and> foldingModelPromise s \<noteq> None")
      case False
      with n t(4) show ?thesis by auto
    next
      case True
      then obtain q where "foldingModelPromise s = Some q" by auto
      with True e t(4) show ?thesis by simp
    qed
    have f: "fst (getRangeProvider editorModel ?after) = InitializingRangeProvider editorModel memento 30000"
      if "provider st = Some ID_SYNTAX_PROVIDER \<or> provider st = Some ID_INIT_PROVIDER"
        "rangeProvider s = None" "useFoldingProviders s" "foldingModel s = Some fm"
        "ordered s (textModel (objects ?after fm)) = []" for fm
    proof -
      from r have "collapsedRegions st = Some memento" by (simp add: restorable_def)
      with k that(1) have "mementoRegions ?after = Some memento" by (simp add: mementoRegions_def)
      moreover from that(5) inputs(5) have "ordered ?after (textModel (objects ?after fm)) = []"
        by (simp add: ordered_def)
      ultimately show ?thesis
        using that(2,3,4) inputs by (intro getRangeProvider_seeded) simp_all
    qed
    from k f t(3) n w w' d show ?thesis unfolding Let_def t_def [symmetric] by blast
  qed
  from restoreViewState_stores_or_keeps [of C state s] 1 2 objects_restoreViewState_then [of C]
  show ?thesis by blast
qed

text \<open>
  A memento of the syntax provider is stored in the example controller; then a memento of
  the indentation provider is restored. The stored memento stays, and the next selection
  takes the initializing provider with the regions of the stored memento, not with those of
  the second one. Restored alone, the memento of the indentation provider reaches the hidden
  range model, its callback waits for the folding model and collapses the region of the
  first computation, and the next selection does not take the initializing provider.
\<close>

theorem restoreViewState_keeps_provider_mementos_witness:
  "provider laterMemento = Some ID_INDENT_PROVIDER
   \<and> restorable exampleController (exampleMemento 51 (Some ID_SYNTAX_PROVIDER)) 0
        [\<lparr>startLine = 3, collapsedType = None\<rparr>]
   \<and> foldingStateMemento restoredController = Some (exampleMemento 51 (Some ID_SYNTAX_PROVIDER))
   \<and> foldingStateMemento (restoreViewState plainModels (Some laterMemento) restoredController)
       = Some (exampleMemento 51 (Some ID_SYNTAX_PROVIDER))
   \<and> fst (getRangeProvider 1 (restoreViewState plainModels (Some laterMemento) restoredController))
       = InitializingRangeProvider 1 [\<lparr>startLine = 3, collapsedType = None\<rparr>] 30000
   \<and> restorable exampleController laterMemento 0 [\<lparr>startLine = 7, collapsedType = None\<rparr>]
   \<and> fst (HiddenRangeModel_applyMemento plainModels [\<lparr>startLine = 7, collapsedType = None\<rparr>]
          (objects exampleController 0))
   \<and> foldingModelPromise exampleController = Some 0
   \<and> map_of (settled exampleController) 0 = None
   \<and> thens (restoreViewState plainModels (Some laterMemento) exampleController)
       = thens exampleController @ [(0, RestoreViewStateThen [\<lparr>startLine = 7, collapsedType = None\<rparr>])]
   \<and> hiddenRanges (objects (restoreViewState plainModels (Some laterMemento) exampleController) 0)
       = [lineRange 8 8]
   \<and> regions (objects (run plainModels exampleController
        [RestoreViewState (Some laterMemento), TimerFires,
         ComputeResolves 1 (Some [bodyRegion\<lparr>startLineNumber := 7\<rparr>]) 200]) 0)
       = [bodyRegion\<lparr>startLineNumber := 7, isCollapsed := True\<rparr>]
   \<and> rangeProvider exampleController = None \<and> foldingStateMemento exampleController = None
   \<and> \<not> is_Initializing (fst (getRangeProvider 1
         (restoreViewState plainModels (Some laterMemento) exampleController)))"
proof -
  let ?first = "[\<lparr>startLine = 3, collapsedType = None\<rparr>]"
  let ?memento = "[\<lparr>startLine = 7, collapsedType = None\<rparr>]"
  let ?after = "restoreViewState plainModels (Some laterMemento) restoredController"
  note r = restoreViewState_keeps_provider_mementos
    [of plainModels "Some (exampleMemento 51 (Some ID_SYNTAX_PROVIDER))" exampleController 1,
     THEN conjunct2, THEN conjunct2, THEN conjunct1, rule_format]
  note t = restoreViewState_keeps_provider_mementos
    [of plainModels "Some laterMemento" restoredController 1, THEN conjunct2, THEN conjunct1, rule_format]
  note u = restoreViewState_keeps_provider_mementos [of plainModels "Some laterMemento" exampleController 1]
  have 1: "provider laterMemento = Some ID_INDENT_PROVIDER" by (simp add: laterMemento_def)
  have 2: "restorable exampleController (exampleMemento 51 (Some ID_SYNTAX_PROVIDER)) 0 ?first"
    by code_simp
  obtain applied' m' events'
    where "HiddenRangeModel_applyMemento plainModels ?first (objects exampleController 0)
             = (applied', m', events')"
    by (cases "HiddenRangeModel_applyMemento plainModels ?first (objects exampleController 0)")
  with r [of "exampleMemento 51 (Some ID_SYNTAX_PROVIDER)" 0 ?first applied' m' events'] 2
  have 3: "foldingStateMemento restoredController = Some (exampleMemento 51 (Some ID_SYNTAX_PROVIDER))"
    by (simp add: restoredController_def exampleMemento_def)
  from t [of laterMemento] 1 3
  have 4: "foldingStateMemento ?after = Some (exampleMemento 51 (Some ID_SYNTAX_PROVIDER))"
    by simp
  have 5: "fst (getRangeProvider 1 ?after) = InitializingRangeProvider 1 ?first 30000"
    by code_simp
  have 6: "restorable exampleController laterMemento 0 ?memento" by code_simp
  have 7: "fst (HiddenRangeModel_applyMemento plainModels ?memento (objects exampleController 0))"
    by code_simp
  have 8: "foldingModelPromise exampleController = Some 0" by code_simp
  have 9: "map_of (settled exampleController) 0 = None" by code_simp
  obtain applied m events
    where a: "HiddenRangeModel_applyMemento plainModels ?memento (objects exampleController 0)
                = (applied, m, events)"
    by (cases "HiddenRangeModel_applyMemento plainModels ?memento (objects exampleController 0)")
  with 7 have "applied" by simp
  with u [THEN conjunct2, THEN conjunct2, THEN conjunct1, rule_format, of laterMemento 0 ?memento applied m events]
    6 a 8 9
  have 10: "thens (restoreViewState plainModels (Some laterMemento) exampleController)
       = thens exampleController @ [(0, RestoreViewStateThen ?memento)]"
    by (simp add: Let_def)
  have 11: "hiddenRanges (objects (restoreViewState plainModels (Some laterMemento) exampleController) 0)
       = [lineRange 8 8]"
    by code_simp
  have 12: "regions (objects (run plainModels exampleController
        [RestoreViewState (Some laterMemento), TimerFires,
         ComputeResolves 1 (Some [bodyRegion\<lparr>startLineNumber := 7\<rparr>]) 200]) 0)
       = [bodyRegion\<lparr>startLineNumber := 7, isCollapsed := True\<rparr>]"
    by code_simp
  have 13: "rangeProvider exampleController = None \<and> foldingStateMemento exampleController = None"
    by code_simp
  from u [THEN conjunct2, THEN conjunct1, rule_format, of laterMemento] 1 13
  have 14: "\<not> is_Initializing (fst (getRangeProvider 1
         (restoreViewState plainModels (Some laterMemento) exampleController)))"
    by blast
  from 1 2 3 4 5 6 7 8 9 10 11 12 13 14 show ?thesis by (intro conjI) simp_all
qed

section \<open>Provider selection\<close>



section \<open>The fold and unfold commands\<close>

text \<open>
  C10. For \<^verbatim>\<open>editor.unfold\<close> and \<^verbatim>\<open>editor.fold\<close> a levels argument that is a falsy number
  (0 or NaN) gives the same call as levels 1, and so does an absent levels argument for
  \<^verbatim>\<open>editor.unfold\<close>, and for \<^verbatim>\<open>editor.fold\<close> when a direction is given; whenever levels is
  absent or falsy, a call that takes a number of levels receives 1. \<^verbatim>\<open>editor.fold\<close> folds at
  the cursor (\<^verbatim>\<open>setCollapseStateUp\<close>) exactly when neither a numeric levels nor a string
  direction is supplied.
\<close>

theorem fold_levels_default:
  "(\<not> number_truthy n \<longrightarrow>
      UnfoldAction_invoke (Some (a\<lparr>levels := Some n\<rparr>)) s =
        UnfoldAction_invoke (Some (a\<lparr>levels := Some (Finite 1)\<rparr>)) s
    \<and> FoldAction_invoke (Some (a\<lparr>levels := Some n\<rparr>)) s =
        FoldAction_invoke (Some (a\<lparr>levels := Some (Finite 1)\<rparr>)) s)
   \<and> UnfoldAction_invoke (Some (a\<lparr>levels := None\<rparr>)) s =
       UnfoldAction_invoke (Some (a\<lparr>levels := Some (Finite 1)\<rparr>)) s
   \<and> UnfoldAction_invoke None s =
       UnfoldAction_invoke (Some \<lparr>levels = Some (Finite 1), direction = None, selectionLines = None\<rparr>) s
   \<and> (direction a \<noteq> None \<longrightarrow>
        FoldAction_invoke (Some (a\<lparr>levels := None\<rparr>)) s =
          FoldAction_invoke (Some (a\<lparr>levels := Some (Finite 1)\<rparr>)) s)
   \<and> ((\<forall>l. args_levels args = Some l \<longrightarrow> \<not> number_truthy l) \<longrightarrow>
        UnfoldAction_invoke args s \<in>
          {SetCollapseStateLevelsUp False (Finite 1) (getLineNumbers args s),
           SetCollapseStateLevelsDown False (Finite 1) (getLineNumbers args s)}
      \<and> FoldAction_invoke args s \<in>
          {SetCollapseStateLevelsUp True (Finite 1) (getLineNumbers args s),
           SetCollapseStateLevelsDown True (Finite 1) (getLineNumbers args s),
           SetCollapseStateUp True (getLineNumbers args s)})
   \<and> (FoldAction_invoke args s = SetCollapseStateUp True (getLineNumbers args s)
        \<longleftrightarrow> args_levels args = None \<and> args_direction args = None)"
  by (cases args)
    (auto simp add: UnfoldAction_invoke_def FoldAction_invoke_def levels_or_1_def args_levels_def
      args_direction_def getLineNumbers_def Let_def split: option.splits)

text \<open>Folding with levels 0 on the line with index 4 folds one level down from line 5.\<close>

theorem fold_levels_default_witness:
  "\<not> number_truthy (Finite 0)
   \<and> FoldAction_invoke (Some \<lparr>levels = Some (Finite 0), direction = None, selectionLines = Some [4]\<rparr>)
        exampleController
     = SetCollapseStateLevelsDown True (Finite 1) [5]"
proof -
  have 1: "\<not> number_truthy (Finite 0)" by simp
  have 2: "FoldAction_invoke (Some \<lparr>levels = Some (Finite 1), direction = None, selectionLines = Some [4]\<rparr>)
        exampleController = SetCollapseStateLevelsDown True (Finite 1) [5]"
    by (simp add: FoldAction_invoke_def levels_or_1_def args_levels_def args_direction_def
        getLineNumbers_def)
  show ?thesis
    using 1 2
      fold_levels_default [of "Finite 0"
        "\<lparr>levels = Some (Finite 0), direction = None, selectionLines = Some [4]\<rparr>" exampleController None]
    by simp
qed

section \<open>Restoring the collapse state\<close>

lemma onHiddenRangesChanges_restoring:
  "restoringViewState s \<Longrightarrow>
     onHiddenRangesChanges C ranges s = s\<lparr>editor_calls := editor_calls s @ [SetHiddenAreas ranges]\<rparr>"
  by (simp add: onHiddenRangesChanges_def editorCall_def split: option.splits)

lemma foldl_onHiddenRangesChanges_restoring:
  "restoringViewState s \<Longrightarrow>
     foldl (\<lambda>s' ranges. onHiddenRangesChanges C ranges s') s events =
       s\<lparr>editor_calls := editor_calls s @ map SetHiddenAreas events\<rparr>"
proof (induction events arbitrary: s)
  case Nil
  then show ?case by simp
next
  case (Cons ranges events)
  then show ?case by (simp add: onHiddenRangesChanges_restoring)
qed

lemma fireHiddenRanges_restoring:
  "restoringViewState s \<Longrightarrow>
     fireHiddenRanges C h events s =
       s\<lparr>editor_calls := editor_calls s @ (if hiddenRangeModel s = Some h then map SetHiddenAreas events else [])\<rparr>"
  by (simp add: fireHiddenRanges_def foldl_onHiddenRangesChanges_restoring)

lemma restoreViewState_then_effect:
  assumes "FoldingModel_applyMemento C memento (objects s fm) = ((m, events), thrown)"
  shows "restoreViewState_then C memento (Some fm) s =
          s\<lparr>restoringViewState := False,
            objects := (objects s)(fm := m),
            editor_calls := editor_calls s @
              (if hiddenRangeModel s = Some fm then map SetHiddenAreas events else []),
            unexpectedErrors := unexpectedErrors s @ (case thrown of None \<Rightarrow> [] | Some err \<Rightarrow> [err])\<rparr>"
  using assms
  by (auto simp add: restoreViewState_then_def Let_def fireHiddenRanges_restoring onUnexpectedError_def
      split: option.splits)

lemma restoreViewState_then_calls:
  "\<exists>rest. editor_calls (restoreViewState_then C memento resolved s) = editor_calls s @ rest"
  "editor_selections (restoreViewState_then C memento resolved s) = editor_selections s"
  "restoringViewState (restoreViewState_then C memento resolved s) \<longrightarrow> restoringViewState s"
proof -
  show "\<exists>rest. editor_calls (restoreViewState_then C memento resolved s) = editor_calls s @ rest"
  proof (cases resolved)
    case None
    then show ?thesis by (simp add: restoreViewState_then_def)
  next
    case (Some fm)
    obtain m events thrown where "FoldingModel_applyMemento C memento (objects s fm) = ((m, events), thrown)"
      by (metis surj_pair)
    from restoreViewState_then_effect [OF this] Some show ?thesis by simp
  qed
  show "editor_selections (restoreViewState_then C memento resolved s) = editor_selections s"
  proof (cases resolved)
    case None
    then show ?thesis by (simp add: restoreViewState_then_def)
  next
    case (Some fm)
    obtain m events thrown where "FoldingModel_applyMemento C memento (objects s fm) = ((m, events), thrown)"
      by (metis surj_pair)
    from restoreViewState_then_effect [OF this] Some show ?thesis by simp
  qed
  show "restoringViewState (restoreViewState_then C memento resolved s) \<longrightarrow> restoringViewState s"
  proof (cases resolved)
    case None
    then show ?thesis by (simp add: restoreViewState_then_def)
  next
    case (Some fm)
    obtain m events thrown where "FoldingModel_applyMemento C memento (objects s fm) = ((m, events), thrown)"
      by (metis surj_pair)
    from restoreViewState_then_effect [OF this] Some show ?thesis by simp
  qed
qed

lemma onHiddenRangesChanges_adjusts:
  assumes "\<not> restoringViewState s" and "hiddenRangeModel s = Some h" and "ranges \<noteq> []"
    and "editor_selections s = Some selections"
    and "HiddenRangeModel_adjustSelections C (objects s h) selections = (True, adjusted)"
  shows "onHiddenRangesChanges C ranges s =
           s\<lparr>editor_selections := Some adjusted,
             editor_calls := editor_calls s @ [SetSelections adjusted, SetHiddenAreas ranges]\<rparr>"
  using assms by (simp add: onHiddenRangesChanges_def editorCall_def)

lemma restoreViewState_early_apply:
  assumes r: "restorable s st h memento"
    and a: "HiddenRangeModel_applyMemento C memento (objects s h) = (applied, m, [ranges])"
    and n: "ranges \<noteq> []" "\<not> restoringViewState s" "editor_selections s = Some selections"
      "HiddenRangeModel_adjustSelections C m selections = (True, adjusted)"
  shows "\<exists>rest. editor_calls (restoreViewState C (Some st) s) =
                  editor_calls s @ [SetSelections adjusted, SetHiddenAreas ranges] @ rest"
    and "editor_selections (restoreViewState C (Some st) s) = Some adjusted"
    and "\<not> restoringViewState (restoreViewState C (Some st) s)"
proof -
  define s' where "s' = s\<lparr>currentModelHasFoldedImports := (foldedImports st = Some True),
                          foldingStateMemento :=
                            (if provider st = Some ID_SYNTAX_PROVIDER \<or> provider st = Some ID_INIT_PROVIDER
                             then Some st else foldingStateMemento s),
                          objects := (objects s)(h := m)\<rparr>"
  define t where "t = fireHiddenRanges C h [ranges] s'"
  from r have h: "hiddenRangeModel s' = Some h" by (simp add: restorable_def s'_def)
  have s': "\<not> restoringViewState s'" "editor_selections s' = Some selections"
    "HiddenRangeModel_adjustSelections C (objects s' h) selections = (True, adjusted)"
    using n by (simp_all add: s'_def)
  have "t = onHiddenRangesChanges C ranges s'"
    using h by (simp add: t_def fireHiddenRanges_def)
  also have "\<dots> = s'\<lparr>editor_selections := Some adjusted,
                    editor_calls := editor_calls s' @ [SetSelections adjusted, SetHiddenAreas ranges]\<rparr>"
    using s'(1) h n(1) s'(2,3) by (rule onHiddenRangesChanges_adjusts)
  finally have t: "editor_calls t = editor_calls s @ [SetSelections adjusted, SetHiddenAreas ranges]"
    "editor_selections t = Some adjusted" "\<not> restoringViewState t"
    using n(2) by (simp_all add: s'_def)
  have e: "restoreViewState C (Some st) s =
        (if applied
         then (case foldingModelPromise s of
                 None \<Rightarrow> t
               | Some q \<Rightarrow> promise_then C q (RestoreViewStateThen memento) t)
         else t)"
    using restoreViewState_restorable [OF r a, unfolded Let_def, folded s'_def, folded t_def] .
  have p: "(\<exists>rest. editor_calls (promise_then C q (RestoreViewStateThen memento) t) = editor_calls t @ rest)
      \<and> editor_selections (promise_then C q (RestoreViewStateThen memento) t) = editor_selections t
      \<and> \<not> restoringViewState (promise_then C q (RestoreViewStateThen memento) t)" for q
    using restoreViewState_then_calls [of C memento _ t] t(3)
    by (auto simp add: promise_then_def split: option.splits)
  show "\<exists>rest. editor_calls (restoreViewState C (Some st) s) =
                  editor_calls s @ [SetSelections adjusted, SetHiddenAreas ranges] @ rest"
    using e t(1) p by (auto split: option.splits)
  show "editor_selections (restoreViewState C (Some st) s) = Some adjusted"
    using e t(2) p by (auto split: option.splits)
  show "\<not> restoringViewState (restoreViewState C (Some st) s)"
    using e t(3) p by (auto split: option.splits)
qed




section \<open>The warning about too many regions\<close>

lemma cancelCurrent_frame [simp]:
  "notifications (cancelCurrent s) = notifications s"
  "tooManyRegionsNotified (cancelCurrent s) = tooManyRegionsNotified s"
  "currentModelHasFoldedImports (cancelCurrent s) = currentModelHasFoldedImports s"
  by (simp_all add: cancelCurrent_def cancelPromise_def split: option.splits)

lemma triggerFoldingModelChanged_frame [simp]:
  "notifications (triggerFoldingModelChanged s) = notifications s"
  "tooManyRegionsNotified (triggerFoldingModelChanged s) = tooManyRegionsNotified s"
  "currentModelHasFoldedImports (triggerFoldingModelChanged s) = currentModelHasFoldedImports s"
  by (simp_all add: triggerFoldingModelChanged_def Let_def split: option.splits)

lemma onFoldingStrategyChanged_frame [simp]:
  "notifications (onFoldingStrategyChanged s) = notifications s"
  "tooManyRegionsNotified (onFoldingStrategyChanged s) = tooManyRegionsNotified s"
  "currentModelHasFoldedImports (onFoldingStrategyChanged s) = currentModelHasFoldedImports s"
  by (simp_all add: onFoldingStrategyChanged_def)

lemma initializingProviderTimeout_frame [simp]:
  "notifications (initializingProviderTimeout s) = notifications s"
  "tooManyRegionsNotified (initializingProviderTimeout s) = tooManyRegionsNotified s"
  "currentModelHasFoldedImports (initializingProviderTimeout s) = currentModelHasFoldedImports s"
  by (simp_all add: initializingProviderTimeout_def)

lemma getRangeProvider_frame [simp]:
  "notifications (snd (getRangeProvider editorModel s)) = notifications s"
  "tooManyRegionsNotified (snd (getRangeProvider editorModel s)) = tooManyRegionsNotified s"
  "currentModelHasFoldedImports (snd (getRangeProvider editorModel s)) = currentModelHasFoldedImports s"
  by (simp_all add: getRangeProvider_def Let_def split: option.splits)

lemma updateTask_frame [simp]:
  "notifications (updateTask C qs s) = notifications s"
  "tooManyRegionsNotified (updateTask C qs s) = tooManyRegionsNotified s"
  "currentModelHasFoldedImports (updateTask C qs s) = currentModelHasFoldedImports s"
  by (simp_all add: updateTask_def Let_def split_beta split: option.splits)

lemma timerFires_frame [simp]:
  "notifications (timerFires C s) = notifications s"
  "tooManyRegionsNotified (timerFires C s) = tooManyRegionsNotified s"
  "currentModelHasFoldedImports (timerFires C s) = currentModelHasFoldedImports s"
  by (simp_all add: timerFires_def split: option.splits)

lemma foldImports_frame [simp]:
  "notifications (snd (snd (foldImports ranges s))) = notifications s"
  "tooManyRegionsNotified (snd (snd (foldImports ranges s))) = tooManyRegionsNotified s"
  by (simp_all add: foldImports_def editorCall_def Let_def split_beta)

lemma computeThen_frame [simp]:
  "notifications (computeThen C p fm foldingRanges newValue s) = notifications s"
  "tooManyRegionsNotified (computeThen C p fm foldingRanges newValue s) = tooManyRegionsNotified s"
  by (simp_all add: computeThen_def editorCall_def Let_def split_beta split: option.splits)

lemma computeResolves_frame [simp]:
  "notifications (computeResolves C p foldingRanges newValue s) = notifications s"
  "tooManyRegionsNotified (computeResolves C p foldingRanges newValue s) = tooManyRegionsNotified s"
  by (simp_all add: computeResolves_def forget_def split: option.splits)

lemma computeRejects_frame [simp]:
  "notifications (computeRejects C p err s) = notifications s"
  "tooManyRegionsNotified (computeRejects C p err s) = tooManyRegionsNotified s"
  "currentModelHasFoldedImports (computeRejects C p err s) = currentModelHasFoldedImports s"
  by (simp_all add: computeRejects_def forget_def split: option.splits)

lemma localToDispose_clear_frame [simp]:
  "notifications (localToDispose_clear C s) = notifications s"
  "tooManyRegionsNotified (localToDispose_clear C s) = tooManyRegionsNotified s"
  "currentModelHasFoldedImports (localToDispose_clear C s) = currentModelHasFoldedImports s"
  by (simp_all add: localToDispose_clear_def updateScheduler_cancel_def hiddenRangeModel_dispose_def
      split: option.splits)

lemma onModelChanged_frame [simp]:
  "notifications (onModelChanged C s) = notifications s"
  "tooManyRegionsNotified (onModelChanged C s) = tooManyRegionsNotified s"
  by (simp_all add: onModelChanged_def Let_def split: option.splits)

lemma onDidChangeModelContent_frame [simp]:
  "notifications (onDidChangeModelContent C s) = notifications s"
  "tooManyRegionsNotified (onDidChangeModelContent C s) = tooManyRegionsNotified s"
  "currentModelHasFoldedImports (onDidChangeModelContent C s) = currentModelHasFoldedImports s"
  by (simp_all add: onDidChangeModelContent_def notifyChangeModelContent_def split_beta split: option.splits)

lemma restoreViewState_frame2 [simp]:
  "notifications (restoreViewState C state s) = notifications s"
  "tooManyRegionsNotified (restoreViewState C state s) = tooManyRegionsNotified s"
  by (simp_all add: restoreViewState_def Let_def split_beta split: option.splits)

lemma runEditorCommand_frame [simp]:
  "notifications (case runEditorCommand C action args (Some s) of Some s' \<Rightarrow> s' | None \<Rightarrow> s) = notifications s"
  "tooManyRegionsNotified (case runEditorCommand C action args (Some s) of Some s' \<Rightarrow> s' | None \<Rightarrow> s) = tooManyRegionsNotified s"
  "currentModelHasFoldedImports (case runEditorCommand C action args (Some s) of Some s' \<Rightarrow> s' | None \<Rightarrow> s) = currentModelHasFoldedImports s"
  by (simp_all add: runEditorCommand_def reportTelemetry_def split: option.splits)

lemmas configuration =
  onDidChangeConfiguration_def configuration_folding_def configuration_foldingMaximumRegions_def
  configuration_decorations_def configuration_foldingStrategy_def configuration_flags_def

lemma onDidChangeConfiguration_frame:
  "\<not> hasChanged e Option_foldingMaximumRegions \<Longrightarrow>
     notifications (onDidChangeConfiguration C e s) = notifications s
     \<and> tooManyRegionsNotified (onDidChangeConfiguration C e s) = tooManyRegionsNotified s"
  by (simp add: configuration Let_def)

lemma step_alerts:
  assumes "\<not> resetsWarning ev" and "\<not> warns ev"
  shows "notifications (step C s ev) = notifications s
       \<and> tooManyRegionsNotified (step C s ev) = tooManyRegionsNotified s"
proof (cases ev)
  case (UpdateOptions options e)
  with assms have "\<not> hasChanged e Option_foldingMaximumRegions" by (simp add: resetsWarning_def)
  from onDidChangeConfiguration_frame [OF this] UpdateOptions show ?thesis by simp
next
  case (ProviderNotifiesTooMany maxRegions)
  with assms show ?thesis by (simp add: warns_def)
qed (simp_all add: Let_def split: option.splits RangeProvider.splits)


lemma notifyTooManyRegions_alerts:
  "notifications (notifyTooManyRegions m s) =
     (if tooManyRegionsNotified s then notifications s else notifications s @ [m])"
  "tooManyRegionsNotified (notifyTooManyRegions m s)"
  by (simp_all add: notifyTooManyRegions_def)

lemma run_Cons: "run C s (ev # events) = run C (step C s ev) events"
  by (simp add: run_def)

lemma run_alerts:
  assumes "\<not> list_ex resetsWarning events"
  shows "(tooManyRegionsNotified s \<longrightarrow>
            notifications (run C s events) = notifications s \<and> tooManyRegionsNotified (run C s events))
       \<and> (\<not> tooManyRegionsNotified s \<and> \<not> list_ex warns events \<longrightarrow>
            notifications (run C s events) = notifications s \<and> \<not> tooManyRegionsNotified (run C s events))
       \<and> (\<not> tooManyRegionsNotified s \<and> list_ex warns events \<longrightarrow>
            length (notifications (run C s events)) = length (notifications s) + 1
            \<and> tooManyRegionsNotified (run C s events))"
  using assms
proof (induction events arbitrary: s)
  case Nil
  then show ?case by (simp add: run_def)
next
  case (Cons ev events)
  then have r: "\<not> resetsWarning ev" and rs: "\<not> list_ex resetsWarning events" by simp_all
  note IH = Cons.IH [OF rs, of "step C s ev"]
  show ?case
  proof (cases "warns ev")
    case False
    from step_alerts [OF r False, of C s] IH False show ?thesis by (simp add: run_Cons)
  next
    case True
    then obtain m where ev: "ev = ProviderNotifiesTooMany m" by (cases ev) (simp_all add: warns_def)
    with IH True show ?thesis by (simp add: run_Cons notifyTooManyRegions_alerts)
  qed
qed

text \<open>
  C3. Over any sequence of events in which the option \<^verbatim>\<open>foldingMaximumRegions\<close> does not
  change, the controller raises the warning at most once, however often providers call the
  notify callback: not at all when it was raised before, exactly once when it was not and a
  provider calls. A change of \<^verbatim>\<open>foldingMaximumRegions\<close> raises no warning and clears the flag,
  so that the same holds anew from there. A new controller has raised no warning.
\<close>

theorem tooManyRegions_notified_once:
  "(\<not> list_ex resetsWarning events \<longrightarrow>
      length (notifications (run C s events)) \<le> length (notifications s) + 1
    \<and> (tooManyRegionsNotified s \<longrightarrow> notifications (run C s events) = notifications s)
    \<and> (\<not> tooManyRegionsNotified s \<and> list_ex warns events \<longrightarrow>
         length (notifications (run C s events)) = length (notifications s) + 1))
   \<and> (hasChanged e Option_foldingMaximumRegions \<longrightarrow>
        \<not> tooManyRegionsNotified (step C s (UpdateOptions options e)))
   \<and> notifications (step C s (UpdateOptions options e)) = notifications s
   \<and> notifications (FoldingController C options model selections registry) = []
   \<and> \<not> tooManyRegionsNotified (FoldingController C options model selections registry)"
proof -
  have 1: "length (notifications (run C s events)) \<le> length (notifications s) + 1
    \<and> (tooManyRegionsNotified s \<longrightarrow> notifications (run C s events) = notifications s)
    \<and> (\<not> tooManyRegionsNotified s \<and> list_ex warns events \<longrightarrow>
         length (notifications (run C s events)) = length (notifications s) + 1)"
    if "\<not> list_ex resetsWarning events"
    using run_alerts [OF that, of s C] by (cases "tooManyRegionsNotified s"; cases "list_ex warns events") auto
  have 2: "\<not> tooManyRegionsNotified (step C s (UpdateOptions options e))"
    if "hasChanged e Option_foldingMaximumRegions"
    using that by (simp add: configuration Let_def)
  have 3: "notifications (step C s (UpdateOptions options e)) = notifications s"
    by (simp add: configuration Let_def)
  have 4: "notifications (FoldingController C options model selections registry) = []
   \<and> \<not> tooManyRegionsNotified (FoldingController C options model selections registry)"
    by (simp add: FoldingController_def)
  from 1 2 3 4 show ?thesis by blast
qed

text \<open>
  Two calls of the notify callback raise one warning; after the limit was changed, two more
  calls raise one more.
\<close>

theorem tooManyRegions_notified_once_witness:
  "\<not> list_ex resetsWarning [ProviderNotifiesTooMany 5000, TimerFires, ProviderNotifiesTooMany 5000]
   \<and> length (notifications (run plainModels exampleController
        [ProviderNotifiesTooMany 5000, TimerFires, ProviderNotifiesTooMany 5000])) = 1
   \<and> notifications (run plainModels exampleController
        [ProviderNotifiesTooMany 5000, TimerFires, ProviderNotifiesTooMany 5000,
         UpdateOptions (exampleOptions\<lparr>opt_foldingMaximumRegions := 100\<rparr>) [Option_foldingMaximumRegions],
         ProviderNotifiesTooMany 100, TimerFires, ProviderNotifiesTooMany 100]) = [5000, 100]"
proof -
  let ?events = "[ProviderNotifiesTooMany 5000, TimerFires, ProviderNotifiesTooMany 5000]"
  have 1: "\<not> list_ex resetsWarning ?events" by (simp add: resetsWarning_def)
  have 2: "\<not> tooManyRegionsNotified exampleController \<and> list_ex warns ?events
             \<and> notifications exampleController = []"
    by code_simp
  have 3: "notifications (run plainModels exampleController
        [ProviderNotifiesTooMany 5000, TimerFires, ProviderNotifiesTooMany 5000,
         UpdateOptions (exampleOptions\<lparr>opt_foldingMaximumRegions := 100\<rparr>) [Option_foldingMaximumRegions],
         ProviderNotifiesTooMany 100, TimerFires, ProviderNotifiesTooMany 100]) = [5000, 100]"
    by code_simp
  show ?thesis
    using 1 2 3 tooManyRegions_notified_once [of ?events plainModels exampleController]
    by simp
qed


section \<open>An invariant of the controller\<close>

lemma scheduled_core:
  assumes "core s' = core s"
  shows "scheduled s' = scheduled s"
  using core_fields [OF assms] by (simp add: scheduled_def cong: option.case_cong)

lemma attached_core:
  assumes "core s' = core s"
  shows "attached s' = attached s"
  using core_fields [OF assms] by (simp add: attached_def cong: option.case_cong)

lemmas callback_scheduled [simp] =
  scheduled_core [OF core_fireHiddenRanges]
  scheduled_core [OF core_promise_then]
  scheduled_core [OF core_settle_all]
  scheduled_core [OF core_reject_all]
  attached_core [OF core_fireHiddenRanges]
  attached_core [OF core_promise_then]
  attached_core [OF core_settle_all]
  attached_core [OF core_reject_all]

lemma promise_cancelPromise [simp]:
  "map promise (computations (cancelPromise p s)) = map promise (computations s)"
  by (simp add: cancelPromise_def comp_def if_distrib [of promise] cong: if_cong)

lemma scheduled_computations:
  assumes "scheduled s" and "c \<in> set (computations s)"
  shows "cancelled c \<longleftrightarrow> foldingRegionPromise s \<noteq> Some (promise c)"
    and "promise c < nextPromise s" and "results c \<noteq> []"
  using assms by (simp_all add: scheduled_def list_all_iff)

lemma scheduled_cancelCurrent:
  assumes "scheduled s"
  shows "list_all (\<lambda>c. cancelled c \<and> promise c < nextPromise s \<and> results c \<noteq> [])
           (computations (cancelCurrent s))"
    and "distinct (map promise (computations (cancelCurrent s)))"
    and "foldingRegionPromise (cancelCurrent s) = None"
proof -
  show "foldingRegionPromise (cancelCurrent s) = None"
    by (simp add: cancelCurrent_def split: option.splits)
  show "distinct (map promise (computations (cancelCurrent s)))"
    using assms by (simp add: cancelCurrent_def scheduled_def split: option.splits)
  show "list_all (\<lambda>c. cancelled c \<and> promise c < nextPromise s \<and> results c \<noteq> [])
           (computations (cancelCurrent s))"
  proof (cases "foldingRegionPromise s")
    case None
    with scheduled_computations [OF assms] show ?thesis
      by (simp add: cancelCurrent_def list_all_iff)
  next
    case (Some p)
    with scheduled_computations [OF assms] show ?thesis
      by (auto simp add: cancelCurrent_def cancelPromise_def list_all_iff)
  qed
qed

lemma cancelCurrent_other [simp]:
  "updateScheduler (cancelCurrent s) = updateScheduler s"
  "localToDispose (cancelCurrent s) = localToDispose s"
  "foldingModel (cancelCurrent s) = foldingModel s"
  "hiddenRangeModel (cancelCurrent s) = hiddenRangeModel s"
  "foldingModelPromise (cancelCurrent s) = foldingModelPromise s"
  "nextPromise (cancelCurrent s) = nextPromise s"
  "isEnabled (cancelCurrent s) = isEnabled s"
  "editor_model (cancelCurrent s) = editor_model s"
  by (simp_all add: cancelCurrent_def cancelPromise_def split: option.splits)

lemma scheduled_triggerFoldingModelChanged:
  assumes "scheduled s"
  shows "scheduled (triggerFoldingModelChanged s)"
proof (cases "updateScheduler s")
  case None
  with assms show ?thesis by (simp add: triggerFoldingModelChanged_def)
next
  case (Some d)
  have "list_all (\<lambda>c. cancelled c \<and> promise c < Suc (nextPromise s) \<and> results c \<noteq> [])
           (computations (cancelCurrent s))"
    using scheduled_cancelCurrent(1) [OF assms] by (auto simp add: list_all_iff)
  then show ?thesis
    using Some assms scheduled_cancelCurrent(2,3) [OF assms]
    by (simp add: triggerFoldingModelChanged_def Let_def scheduled_def list_all_iff)
qed

lemma attached_triggerFoldingModelChanged [simp]:
  "attached (triggerFoldingModelChanged s) = attached s"
  by (simp add: triggerFoldingModelChanged_def Let_def attached_def split: option.splits)


lemma control_core:
  assumes "core s' = core s"
  shows "control s' = control s"
  using assms by (simp add: control_def)

lemma control_update [simp]:
  "control (s\<lparr>objects := x\<rparr>) = control s"
  "control (s\<lparr>restoringViewState := b\<rparr>) = control s"
  "control (s\<lparr>editor_calls := c\<rparr>) = control s"
  "control (s\<lparr>editor_selections := d\<rparr>) = control s"
  "control (s\<lparr>unexpectedErrors := e\<rparr>) = control s"
  "control (s\<lparr>thens := t\<rparr>) = control s"
  "control (s\<lparr>settled := u\<rparr>) = control s"
  "control (s\<lparr>rangeProvider := rp\<rparr>) = control s"
  "control (s\<lparr>foldingStateMemento := fsm\<rparr>) = control s"
  "control (s\<lparr>currentModelHasFoldedImports := cm\<rparr>) = control s"
  "control (s\<lparr>notifications := ns\<rparr>) = control s"
  "control (s\<lparr>tooManyRegionsNotified := tm\<rparr>) = control s"
  "control (s\<lparr>telemetry := te\<rparr>) = control s"
  by (simp_all add: control_def core_def)

lemmas control_callbacks [simp] =
  control_core [OF core_onHiddenRangesChanges]
  control_core [OF core_fireHiddenRanges]
  control_core [OF core_runContinuation]
  control_core [OF core_promise_then]
  control_core [OF core_settlePromise]
  control_core [OF core_rejectPromise]
  control_core [OF core_settle_all]
  control_core [OF core_reject_all]

lemma control_fields:
  assumes "control s' = control s"
  shows "foldingRegionPromise s' = foldingRegionPromise s"
    and "computations s' = computations s"
    and "updateScheduler s' = updateScheduler s"
    and "foldingModelPromise s' = foldingModelPromise s"
    and "foldingModel s' = foldingModel s"
    and "hiddenRangeModel s' = hiddenRangeModel s"
    and "editor_model s' = editor_model s"
    and "isEnabled s' = isEnabled s"
    and "nextPromise s' = nextPromise s"
    and "localToDispose s' = localToDispose s"
  using assms [THEN arg_cong, of foldingRegionPromise]
        assms [THEN arg_cong, of computations]
        assms [THEN arg_cong, of updateScheduler]
        assms [THEN arg_cong, of foldingModelPromise]
        assms [THEN arg_cong, of foldingModel]
        assms [THEN arg_cong, of hiddenRangeModel]
        assms [THEN arg_cong, of editor_model]
        assms [THEN arg_cong, of isEnabled]
        assms [THEN arg_cong, of nextPromise]
        assms [THEN arg_cong, of localToDispose]
  by (simp_all add: control_def core_def)

lemma scheduled_control:
  assumes "control s' = control s"
  shows "scheduled s' = scheduled s"
  using control_fields [OF assms] by (simp add: scheduled_def cong: option.case_cong)

lemma attached_control:
  assumes "control s' = control s"
  shows "attached s' = attached s"
  using control_fields [OF assms] by (simp add: attached_def cong: option.case_cong)

lemma wellFormed_control:
  assumes "control s' = control s"
  shows "wellFormed s' = wellFormed s"
  using scheduled_control [OF assms] attached_control [OF assms] by (simp add: wellFormed_def)

lemma control_getRangeProvider [simp]: "control (snd (getRangeProvider editorModel s)) = control s"
  by (simp add: getRangeProvider_def Let_def split: option.splits)

lemma control_foldImports [simp]: "control (snd (snd (foldImports ranges s))) = control s"
  by (simp add: foldImports_def editorCall_def Let_def split_beta)

lemma control_restoreViewState [simp]: "control (restoreViewState C state s) = control s"
  by (simp add: restoreViewState_def Let_def split_beta split: option.splits)

lemma control_runEditorCommand [simp]:
  "control (case runEditorCommand C action args (Some s) of Some s' \<Rightarrow> s' | None \<Rightarrow> s) = control s"
  by (simp add: runEditorCommand_def reportTelemetry_def split: option.splits)

lemma control_notifyTooManyRegions [simp]: "control (notifyTooManyRegions m s) = control s"
  by (simp add: notifyTooManyRegions_def)

lemma control_notifyChangeModelContent [simp]: "control (notifyChangeModelContent C s) = control s"
  by (simp add: notifyChangeModelContent_def split_beta split: option.splits)

lemma control_hiddenRangeModel_dispose [simp]: "control (hiddenRangeModel_dispose C s) = control s"
  by (simp add: hiddenRangeModel_dispose_def split: option.splits)

lemma control_updateScheduler_cancel [simp]: "control (updateScheduler_cancel C s) = control s"
  by (simp add: updateScheduler_cancel_def split: option.splits)


lemmas scheduled_frame [simp] =
  scheduled_control [OF control_update(1)] scheduled_control [OF control_update(2)]
  scheduled_control [OF control_update(3)] scheduled_control [OF control_update(4)]
  scheduled_control [OF control_update(5)] scheduled_control [OF control_update(6)]
  scheduled_control [OF control_update(7)] scheduled_control [OF control_update(8)]
  scheduled_control [OF control_update(9)] scheduled_control [OF control_update(10)]
  scheduled_control [OF control_update(11)] scheduled_control [OF control_update(12)]
  scheduled_control [OF control_update(13)]
  scheduled_control [OF control_getRangeProvider]
  scheduled_control [OF control_foldImports]
  scheduled_control [OF control_restoreViewState]
  scheduled_control [OF control_runEditorCommand]
  scheduled_control [OF control_notifyTooManyRegions]
  scheduled_control [OF control_notifyChangeModelContent]
  scheduled_control [OF control_hiddenRangeModel_dispose]
  scheduled_control [OF control_updateScheduler_cancel]

lemmas attached_frame [simp] =
  attached_control [OF control_update(1)] attached_control [OF control_update(2)]
  attached_control [OF control_update(3)] attached_control [OF control_update(4)]
  attached_control [OF control_update(5)] attached_control [OF control_update(6)]
  attached_control [OF control_update(7)] attached_control [OF control_update(8)]
  attached_control [OF control_update(9)] attached_control [OF control_update(10)]
  attached_control [OF control_update(11)] attached_control [OF control_update(12)]
  attached_control [OF control_update(13)]
  attached_control [OF control_getRangeProvider]
  attached_control [OF control_foldImports]
  attached_control [OF control_restoreViewState]
  attached_control [OF control_runEditorCommand]
  attached_control [OF control_notifyTooManyRegions]
  attached_control [OF control_notifyChangeModelContent]
  attached_control [OF control_hiddenRangeModel_dispose]
  attached_control [OF control_updateScheduler_cancel]

lemma scheduled_onFoldingStrategyChanged:
  "scheduled s \<Longrightarrow> scheduled (onFoldingStrategyChanged s)"
  by (simp add: onFoldingStrategyChanged_def scheduled_triggerFoldingModelChanged)

lemma attached_onFoldingStrategyChanged [simp]:
  "attached (onFoldingStrategyChanged s) = attached s"
  by (simp add: onFoldingStrategyChanged_def)

lemma scheduled_updateTask:
  assumes "scheduled s" and "foldingRegionPromise s = None" and "qs \<noteq> []"
    and "\<forall>d. updateScheduler s = Some d \<longrightarrow> \<not> task d"
  shows "scheduled (updateTask C qs s)"
proof (cases "foldingModel s")
  case None
  with assms show ?thesis by (simp add: updateTask_def)
next
  case (Some fm)
  obtain p s1 where g: "getRangeProvider (textModel (objects s fm)) s = (p, s1)"
    by (cases "getRangeProvider (textModel (objects s fm)) s")
  with control_getRangeProvider [of "textModel (objects s fm)" s] have c: "control s1 = control s"
    by simp
  note f = control_fields [OF c]
  have "list_all (\<lambda>c. cancelled c \<and> promise c < nextPromise s \<and> results c \<noteq> []) (computations s)"
    using assms(1,2) by (simp add: scheduled_def list_all_iff)
  then have "list_all (\<lambda>c. cancelled c \<and> promise c < Suc (nextPromise s) \<and> results c \<noteq> [])
      (computations s) \<and> nextPromise s \<notin> promise ` set (computations s)"
    by (auto simp add: list_all_iff)
  then show ?thesis
    using Some g assms f
    by (auto simp add: updateTask_def Let_def scheduled_def list_all_iff split: option.splits)
qed

lemma attached_cong:
  "localToDispose s' = localToDispose s \<Longrightarrow> isEnabled s' = isEnabled s
     \<Longrightarrow> editor_model s' = editor_model s \<Longrightarrow> attached s' = attached s"
  by (simp add: attached_def)

lemmas getRangeProvider_fields [simp] = control_fields [OF control_getRangeProvider]
lemmas foldImports_fields [simp] = control_fields [OF control_foldImports]

lemma attached_updateTask [simp]: "attached (updateTask C qs s) = attached s"
  by (rule attached_cong) (simp_all add: updateTask_def Let_def split_beta split: option.splits)

lemma scheduled_timerFires:
  assumes "scheduled s"
  shows "scheduled (timerFires C s)"
proof (cases "updateScheduler s")
  case None
  with assms show ?thesis by (simp add: timerFires_def)
next
  case (Some d)
  show ?thesis
  proof (cases "task d")
    case False
    with Some assms show ?thesis by (simp add: timerFires_def)
  next
    case True
    let ?s = "s\<lparr>updateScheduler := Some (d\<lparr>task := False, waiting := []\<rparr>)\<rparr>"
    from assms Some True have "scheduled ?s" "foldingRegionPromise ?s = None" "waiting d \<noteq> []"
      "\<forall>d'. updateScheduler ?s = Some d' \<longrightarrow> \<not> task d'"
      by (auto simp add: scheduled_def list_all_iff)
    from scheduled_updateTask [OF this] Some True show ?thesis by (simp add: timerFires_def)
  qed
qed

lemma attached_timerFires [simp]: "attached (timerFires C s) = attached s"
  by (rule attached_cong) (simp_all add: timerFires_def updateTask_def Let_def split_beta split: option.splits)

lemma scheduled_forget: "scheduled s \<Longrightarrow> scheduled (forget p s)"
  by (auto simp add: forget_def scheduled_def list_all_iff distinct_map_filter split: option.splits)

lemma attached_forget [simp]: "attached (forget p s) = attached s"
  by (simp add: forget_def attached_def)

lemma computeThen_fields [simp]:
  "computations (computeThen C p fm foldingRanges newValue s) = computations s"
  "foldingRegionPromise (computeThen C p fm foldingRanges newValue s) = foldingRegionPromise s"
  "nextPromise (computeThen C p fm foldingRanges newValue s) = nextPromise s"
  "localToDispose (computeThen C p fm foldingRanges newValue s) = localToDispose s"
  "foldingModelPromise (computeThen C p fm foldingRanges newValue s) = foldingModelPromise s"
  "foldingModel (computeThen C p fm foldingRanges newValue s) = foldingModel s"
  "hiddenRangeModel (computeThen C p fm foldingRanges newValue s) = hiddenRangeModel s"
  "editor_model (computeThen C p fm foldingRanges newValue s) = editor_model s"
  "isEnabled (computeThen C p fm foldingRanges newValue s) = isEnabled s"
  by (simp_all add: computeThen_def editorCall_def Let_def split_beta split: option.splits)

lemma computeThen_updateScheduler:
  "updateScheduler (computeThen C p fm foldingRanges newValue s) = updateScheduler s
   \<or> (\<exists>d. updateScheduler s = Some d
         \<and> updateScheduler (computeThen C p fm foldingRanges newValue s) = Some (d\<lparr>defaultDelay := newValue\<rparr>))"
  by (simp add: computeThen_def editorCall_def Let_def split_beta split: option.splits)

lemma scheduled_computeThen:
  assumes "scheduled s"
  shows "scheduled (computeThen C p fm foldingRanges newValue s)"
  using assms computeThen_updateScheduler [of C p fm foldingRanges newValue s]
  by (auto simp add: scheduled_def split: option.splits)

lemma attached_computeThen [simp]: "attached (computeThen C p fm foldingRanges newValue s) = attached s"
  by (rule attached_cong) simp_all

lemma scheduled_computeResolves:
  "scheduled s \<Longrightarrow> scheduled (computeResolves C p foldingRanges newValue s)"
  by (simp add: computeResolves_def scheduled_computeThen scheduled_forget split: option.splits)

lemma attached_computeResolves [simp]:
  "attached (computeResolves C p foldingRanges newValue s) = attached s"
  by (simp add: computeResolves_def split: option.splits)

lemma scheduled_computeRejects: "scheduled s \<Longrightarrow> scheduled (computeRejects C p err s)"
  by (simp add: computeRejects_def scheduled_forget split: option.splits)

lemma attached_computeRejects [simp]: "attached (computeRejects C p err s) = attached s"
  by (simp add: computeRejects_def split: option.splits)


lemma scheduled_localToDispose_clear:
  assumes "scheduled s"
  shows "scheduled (localToDispose_clear C s)" and "\<not> localToDispose (localToDispose_clear C s)"
proof -
  show "\<not> localToDispose (localToDispose_clear C s)"
    by (simp add: localToDispose_clear_def)
  show "scheduled (localToDispose_clear C s)"
  proof (cases "localToDispose s")
    case False
    with assms show ?thesis by (simp add: localToDispose_clear_def)
  next
    case True
    define t where "t = hiddenRangeModel_dispose C s"
    have t: "scheduled t" using assms by (simp add: t_def)
    define u where "u = updateScheduler_cancel C (cancelCurrent t)"
    note f = control_fields [OF control_updateScheduler_cancel, of C "cancelCurrent t", folded u_def]
    have "list_all (\<lambda>c. cancelled c \<and> promise c < nextPromise u \<and> results c \<noteq> []) (computations u)"
      "distinct (map promise (computations u))" "foldingRegionPromise u = None"
      using scheduled_cancelCurrent [OF t] f by simp_all
    then have "scheduled (u\<lparr>updateScheduler := None, foldingModel := None, foldingModelPromise := None,
        hiddenRangeModel := None, foldingStateMemento := None, rangeProvider := None,
        localToDispose := False\<rparr>)"
      by (simp add: scheduled_def list_all_iff)
    with True show ?thesis by (simp add: localToDispose_clear_def t_def u_def)
  qed
qed

lemma localToDispose_clear_fields [simp]:
  "isEnabled (localToDispose_clear C s) = isEnabled s"
  "editor_model (localToDispose_clear C s) = editor_model s"
proof -
  note f = control_fields [OF control_updateScheduler_cancel] control_fields [OF control_hiddenRangeModel_dispose]
  show "isEnabled (localToDispose_clear C s) = isEnabled s"
    "editor_model (localToDispose_clear C s) = editor_model s"
    by (simp_all add: localToDispose_clear_def f)
qed

lemma wellFormed_onModelChanged:
  assumes "scheduled s"
  shows "wellFormed (onModelChanged C s)"
proof -
  define t where "t = localToDispose_clear C s"
  have t: "scheduled t" "\<not> localToDispose t"
    using scheduled_localToDispose_clear [OF assms] by (simp_all add: t_def)
  then have a: "attached t" by (simp add: attached_def)
  show ?thesis
  proof (cases "\<exists>model. editor_model t = Some model \<and> isEnabled t \<and> \<not> isTooLargeForTokenization model")
    case False
    with t a show ?thesis
      by (auto simp add: onModelChanged_def Let_def wellFormed_def t_def [symmetric] split: option.splits)
  next
    case True
    then obtain model where m: "editor_model t = Some model" "isEnabled t" "\<not> isTooLargeForTokenization model"
      by blast
    let ?t = "t\<lparr>currentModelHasFoldedImports := False,
                objects := (objects t)(nextObject t := new_Models (uri model)),
                nextObject := nextObject t + 1,
                foldingModel := Some (nextObject t),
                hiddenRangeModel := Some (nextObject t),
                updateScheduler :=
                  Some \<lparr>defaultDelay = updateDebounceInfo_get C (uri model), task = False, waiting = []\<rparr>,
                localToDispose := True\<rparr>"
    from t have "scheduled ?t" by (auto simp add: scheduled_def list_all_iff)
    then have "scheduled (triggerFoldingModelChanged ?t)" by (rule scheduled_triggerFoldingModelChanged)
    moreover have "attached ?t" using m by (simp add: attached_def)
    ultimately show ?thesis
      using m by (simp add: onModelChanged_def Let_def wellFormed_def t_def [symmetric])
  qed
qed

lemma wellFormed_onDidChangeModelContent:
  "wellFormed s \<Longrightarrow> wellFormed (onDidChangeModelContent C s)"
  by (simp add: onDidChangeModelContent_def wellFormed_def scheduled_triggerFoldingModelChanged)

lemma scheduled_options [simp]:
  "scheduled (s\<lparr>editor_options := x1\<rparr>) = scheduled s"
  "scheduled (s\<lparr>editor_model := x2\<rparr>) = scheduled s"
  "scheduled (s\<lparr>isEnabled := x3\<rparr>) = scheduled s"
  "scheduled (s\<lparr>foldingEnabled := x4\<rparr>) = scheduled s"
  "scheduled (s\<lparr>maxFoldingRegions := x5\<rparr>) = scheduled s"
  "scheduled (s\<lparr>autoHideFoldingControls := x6\<rparr>) = scheduled s"
  "scheduled (s\<lparr>showFoldingHighlights := x7\<rparr>) = scheduled s"
  "scheduled (s\<lparr>useFoldingProviders := x8\<rparr>) = scheduled s"
  "scheduled (s\<lparr>unfoldOnClickAfterEndOfLine := x9\<rparr>) = scheduled s"
  "scheduled (s\<lparr>foldingImportsByDefault := x10\<rparr>) = scheduled s"
  "scheduled (s\<lparr>foldingRangeProvider_ordered := x11\<rparr>) = scheduled s"
  by (simp_all add: scheduled_def cong: option.case_cong)

lemma attached_options [simp]:
  "attached (s\<lparr>editor_options := x1\<rparr>) = attached s"
  "attached (s\<lparr>maxFoldingRegions := x5\<rparr>) = attached s"
  "attached (s\<lparr>autoHideFoldingControls := x6\<rparr>) = attached s"
  "attached (s\<lparr>showFoldingHighlights := x7\<rparr>) = attached s"
  "attached (s\<lparr>useFoldingProviders := x8\<rparr>) = attached s"
  "attached (s\<lparr>unfoldOnClickAfterEndOfLine := x9\<rparr>) = attached s"
  "attached (s\<lparr>foldingImportsByDefault := x10\<rparr>) = attached s"
  "attached (s\<lparr>foldingRangeProvider_ordered := x11\<rparr>) = attached s"
  by (simp_all add: attached_def cong: option.case_cong)

lemma wellFormed_configuration:
  assumes "wellFormed s"
  shows "wellFormed (configuration_folding C e s)"
    and "wellFormed (configuration_foldingMaximumRegions C e s)"
    and "wellFormed (configuration_decorations e s)"
    and "wellFormed (configuration_foldingStrategy e s)"
    and "wellFormed (configuration_flags e s)"
proof -
  from assms have a: "scheduled (s\<lparr>isEnabled := opt_folding (editor_options s),
      foldingEnabled := opt_folding (editor_options s)\<rparr>)"
    and b: "scheduled (s\<lparr>maxFoldingRegions := opt_foldingMaximumRegions (editor_options s),
      tooManyRegionsNotified := False\<rparr>)"
    by (simp_all add: wellFormed_def)
  show "wellFormed (configuration_folding C e s)"
    using assms wellFormed_onModelChanged [OF a] by (simp add: configuration_folding_def)
  show "wellFormed (configuration_foldingMaximumRegions C e s)"
    using assms wellFormed_onModelChanged [OF b] by (simp add: configuration_foldingMaximumRegions_def)
  show "wellFormed (configuration_decorations e s)"
    using assms
    by (simp add: configuration_decorations_def wellFormed_def scheduled_triggerFoldingModelChanged)
  show "wellFormed (configuration_foldingStrategy e s)"
    using assms
    by (simp add: configuration_foldingStrategy_def wellFormed_def scheduled_onFoldingStrategyChanged)
  show "wellFormed (configuration_flags e s)"
    using assms by (simp add: configuration_flags_def wellFormed_def Let_def)
qed

lemma wellFormed_onDidChangeConfiguration:
  "wellFormed s \<Longrightarrow> wellFormed (onDidChangeConfiguration C e s)"
  by (simp add: onDidChangeConfiguration_def wellFormed_configuration)

lemma wellFormed_step:
  assumes "wellFormed s"
  shows "wellFormed (step C s ev)"
proof (cases ev)
  case (SetModel model)
  from assms have "scheduled (s\<lparr>editor_model := model\<rparr>)" by (simp add: wellFormed_def)
  with SetModel show ?thesis by (simp add: wellFormed_onModelChanged)
next
  case (UpdateOptions options e)
  from assms have "wellFormed (s\<lparr>editor_options := options\<rparr>)" by (simp add: wellFormed_def)
  with UpdateOptions show ?thesis by (simp add: wellFormed_onDidChangeConfiguration)
next
  case (ChangeModelContent n)
  show ?thesis
  proof (cases "editor_model s")
    case None
    with ChangeModelContent assms show ?thesis by simp
  next
    case (Some model)
    from assms Some have "wellFormed (s\<lparr>editor_model := Some (model\<lparr>getLineCount := n\<rparr>)\<rparr>)"
      by (simp add: wellFormed_def attached_def)
    with ChangeModelContent Some show ?thesis
      by (simp add: Let_def wellFormed_onDidChangeModelContent)
  qed
next
  case (ChangeSelections selections)
  with assms show ?thesis by (simp add: wellFormed_def)
next
  case (ChangeFoldingRangeProviders registry)
  with assms show ?thesis by (simp add: wellFormed_def Let_def scheduled_onFoldingStrategyChanged)
next
  case ChangeLanguageConfiguration
  with assms show ?thesis by (simp add: wellFormed_def scheduled_onFoldingStrategyChanged)
next
  case SyntaxProviderChanges
  with assms show ?thesis
    by (simp add: wellFormed_def scheduled_triggerFoldingModelChanged split: option.splits RangeProvider.splits)
next
  case InitializingProviderTimesOut
  with assms show ?thesis
    by (simp add: wellFormed_def initializingProviderTimeout_def scheduled_onFoldingStrategyChanged
        split: option.splits RangeProvider.splits)
next
  case TimerFires
  with assms show ?thesis by (simp add: wellFormed_def scheduled_timerFires)
next
  case (ProviderNotifiesTooMany maxRegions)
  with assms show ?thesis by (simp add: wellFormed_def)
next
  case (ComputeResolves p foldingRanges newValue)
  with assms show ?thesis by (simp add: wellFormed_def scheduled_computeResolves)
next
  case (ComputeRejects p err)
  with assms show ?thesis by (simp add: wellFormed_def scheduled_computeRejects)
next
  case (RestoreViewState state)
  with assms show ?thesis by (simp add: wellFormed_def)
next
  case (RunEditorCommand action args)
  with assms show ?thesis by (simp add: wellFormed_def)
qed

lemma wellFormed_run: "wellFormed s \<Longrightarrow> wellFormed (run C s events)"
  by (induction events arbitrary: s) (simp_all add: run_def wellFormed_step)

lemma wellFormed_FoldingController:
  "wellFormed (FoldingController C options model selections registry)"
  unfolding FoldingController_def
  by (rule wellFormed_onModelChanged) (simp add: scheduled_def)

lemma wellFormed_reachable:
  "wellFormed (run C (FoldingController C options model selections registry) events)"
  by (rule wellFormed_run) (rule wellFormed_FoldingController)

section \<open>Computations in flight\<close>

lemma filter_at_most_one:
  "distinct (map f xs) \<Longrightarrow> \<forall>x\<in>set xs. P x \<longrightarrow> f x = k \<Longrightarrow> length (filter P xs) \<le> Suc 0"
proof (induction xs)
  case Nil
  then show ?case by simp
next
  case (Cons x xs)
  show ?case
  proof (cases "P x")
    case False
    with Cons show ?thesis by simp
  next
    case True
    with Cons.prems have k: "f x = k" "k \<notin> f ` set xs" by auto
    have "\<not> P y" if "y \<in> set xs" for y
    proof
      assume "P y"
      with Cons.prems(2) that have "f y = k" by simp
      with that k(2) show False by auto
    qed
    then have "filter P xs = []" by (simp add: filter_empty_conv)
    with True show ?thesis by simp
  qed
qed

lemma scheduled_outstanding:
  assumes "scheduled s"
  shows "length (outstanding s) \<le> 1"
    and "foldingRegionPromise s = None \<Longrightarrow> outstanding s = []"
proof -
  from assms have d: "distinct (map promise (computations s))"
    and c: "\<forall>c\<in>set (computations s). \<not> cancelled c \<longrightarrow> Some (promise c) = foldingRegionPromise s"
    by (auto simp add: scheduled_def list_all_iff)
  show "outstanding s = []" if "foldingRegionPromise s = None"
    using c that by (auto simp add: outstanding_def filter_empty_conv)
  show "length (outstanding s) \<le> 1"
  proof (cases "foldingRegionPromise s")
    case None
    with c show ?thesis by (auto simp add: outstanding_def filter_empty_conv)
  next
    case (Some k)
    with c have "\<forall>c\<in>set (computations s). \<not> cancelled c \<longrightarrow> promise c = k" by auto
    from filter_at_most_one [OF d this] show ?thesis by (simp add: outstanding_def)
  qed
qed

lemma triggerFoldingModelChanged_current:
  "scheduled s \<Longrightarrow> foldingRegionPromise (triggerFoldingModelChanged s) = None"
  by (auto simp add: triggerFoldingModelChanged_def cancelCurrent_def Let_def scheduled_def
      split: option.splits if_splits)

lemma onModelChanged_current:
  assumes "scheduled s"
  shows "foldingRegionPromise (onModelChanged C s) = None"
proof -
  define t where "t = localToDispose_clear C s"
  have t: "scheduled t" "\<not> localToDispose t"
    using scheduled_localToDispose_clear [OF assms] by (simp_all add: t_def)
  then have n: "foldingRegionPromise t = None" by (simp add: scheduled_def)
  have "foldingRegionPromise (triggerFoldingModelChanged (t\<lparr>currentModelHasFoldedImports := False,
     objects := ob, nextObject := no, foldingModel := fm, hiddenRangeModel := hm,
     updateScheduler := Some d, localToDispose := True\<rparr>)) = None" for ob no fm hm d
    by (simp add: triggerFoldingModelChanged_def cancelCurrent_def Let_def n)
  with n show ?thesis
    by (simp add: onModelChanged_def Let_def t_def [symmetric] split: option.splits)
qed


lemma runContinuation_null [simp]: "runContinuation C None k s = s"
  by (cases k) (simp_all add: restoreViewState_then_def runEditorCommand_then_def)

lemma rejectPromise_effect:
  "objects (rejectPromise C err s q) = objects s"
  "editor_calls (rejectPromise C err s q) = editor_calls s"
  "editor_selections (rejectPromise C err s q) = editor_selections s"
  "unexpectedErrors (rejectPromise C err s q) = unexpectedErrors s @ [err]"
proof -
  have "foldl (\<lambda>s' k. runContinuation C None k s') t ks = t" for t ks
    by (induction ks) simp_all
  then have "rejectPromise C err s q =
      s\<lparr>unexpectedErrors := unexpectedErrors s @ [err],
        thens := filter (\<lambda>(p, k). p \<noteq> q) (thens s), settled := settled s @ [(q, None)]\<rparr>"
    by (simp add: rejectPromise_def settlePromise_def onUnexpectedError_def)
  then show "objects (rejectPromise C err s q) = objects s"
    "editor_calls (rejectPromise C err s q) = editor_calls s"
    "editor_selections (rejectPromise C err s q) = editor_selections s"
    "unexpectedErrors (rejectPromise C err s q) = unexpectedErrors s @ [err]"
    by simp_all
qed

lemma rejectPromises_effect:
  "objects (foldl (rejectPromise C err) s qs) = objects s
   \<and> editor_calls (foldl (rejectPromise C err) s qs) = editor_calls s
   \<and> editor_selections (foldl (rejectPromise C err) s qs) = editor_selections s
   \<and> unexpectedErrors (foldl (rejectPromise C err) s qs) = unexpectedErrors s @ replicate (length qs) err"
  by (induction qs arbitrary: s) (simp_all add: rejectPromise_effect replicate_app_Cons_same)

lemma computation_results:
  assumes "scheduled s" and "computation s p = Some c"
  shows "results c \<noteq> []"
proof -
  from assms(2) have "c \<in> set (computations s)"
    by (auto simp add: computation_def find_Some_iff)
  with assms(1) show ?thesis by (simp add: scheduled_def list_all_iff)
qed


lemma unattached_current:
  "wellFormed s \<Longrightarrow> \<not> localToDispose s \<Longrightarrow> foldingRegionPromise s = None"
  by (simp add: wellFormed_def scheduled_def)

lemma configuration_current:
  assumes "wellFormed s"
  shows "hasChanged e Option_folding \<or> foldingRegionPromise s = None
           \<Longrightarrow> foldingRegionPromise (configuration_folding C e s) = None"
    and "hasChanged e Option_foldingMaximumRegions \<or> foldingRegionPromise s = None
           \<Longrightarrow> foldingRegionPromise (configuration_foldingMaximumRegions C e s) = None"
    and "hasChanged e Option_showFoldingControls \<or> hasChanged e Option_foldingHighlight
           \<or> foldingRegionPromise s = None
           \<Longrightarrow> foldingRegionPromise (configuration_decorations e s) = None"
    and "hasChanged e Option_foldingStrategy \<or> foldingRegionPromise s = None
           \<Longrightarrow> foldingRegionPromise (configuration_foldingStrategy e s) = None"
    and "foldingRegionPromise (configuration_flags e s) = foldingRegionPromise s"
proof -
  from assms have a: "scheduled (s\<lparr>isEnabled := opt_folding (editor_options s),
      foldingEnabled := opt_folding (editor_options s)\<rparr>)"
    and b: "scheduled (s\<lparr>maxFoldingRegions := opt_foldingMaximumRegions (editor_options s),
      tooManyRegionsNotified := False\<rparr>)"
    and c: "scheduled (s\<lparr>autoHideFoldingControls := (opt_showFoldingControls (editor_options s) = ''mouseover''),
             showFoldingHighlights := opt_foldingHighlight (editor_options s)\<rparr>)"
    and d: "scheduled (s\<lparr>useFoldingProviders := (opt_foldingStrategy (editor_options s) \<noteq> ''indentation''),
             rangeProvider := None\<rparr>)"
    by (simp_all add: wellFormed_def)
  show "hasChanged e Option_folding \<or> foldingRegionPromise s = None
           \<Longrightarrow> foldingRegionPromise (configuration_folding C e s) = None"
    using onModelChanged_current [OF a] by (auto simp add: configuration_folding_def)
  show "hasChanged e Option_foldingMaximumRegions \<or> foldingRegionPromise s = None
           \<Longrightarrow> foldingRegionPromise (configuration_foldingMaximumRegions C e s) = None"
    using onModelChanged_current [OF b] by (auto simp add: configuration_foldingMaximumRegions_def)
  show "hasChanged e Option_showFoldingControls \<or> hasChanged e Option_foldingHighlight
           \<or> foldingRegionPromise s = None
           \<Longrightarrow> foldingRegionPromise (configuration_decorations e s) = None"
    using triggerFoldingModelChanged_current [OF c] by (auto simp add: configuration_decorations_def)
  show "hasChanged e Option_foldingStrategy \<or> foldingRegionPromise s = None
           \<Longrightarrow> foldingRegionPromise (configuration_foldingStrategy e s) = None"
    using triggerFoldingModelChanged_current [OF d]
    by (auto simp add: configuration_foldingStrategy_def onFoldingStrategyChanged_def)
  show "foldingRegionPromise (configuration_flags e s) = foldingRegionPromise s"
    by (simp add: configuration_flags_def Let_def)
qed

lemma onDidChangeConfiguration_current:
  assumes "wellFormed s"
    and "hasChanged e Option_folding \<or> hasChanged e Option_foldingMaximumRegions
          \<or> hasChanged e Option_showFoldingControls \<or> hasChanged e Option_foldingHighlight
          \<or> hasChanged e Option_foldingStrategy"
  shows "foldingRegionPromise (onDidChangeConfiguration C e s) = None"
proof -
  define s1 where "s1 = configuration_folding C e s"
  define s2 where "s2 = configuration_foldingMaximumRegions C e s1"
  define s3 where "s3 = configuration_decorations e s2"
  define s4 where "s4 = configuration_foldingStrategy e s3"
  have w: "wellFormed s1" "wellFormed s2" "wellFormed s3" "wellFormed s4"
    using assms(1) by (simp_all add: s1_def s2_def s3_def s4_def wellFormed_configuration)
  have 1: "hasChanged e Option_folding \<longrightarrow> foldingRegionPromise s1 = None"
    using configuration_current(1) [OF assms(1), of e C] by (simp add: s1_def)
  have 2: "hasChanged e Option_folding \<or> hasChanged e Option_foldingMaximumRegions
        \<longrightarrow> foldingRegionPromise s2 = None"
    using configuration_current(2) [OF w(1), of e C] 1 by (auto simp add: s2_def)
  have 3: "hasChanged e Option_folding \<or> hasChanged e Option_foldingMaximumRegions
        \<or> hasChanged e Option_showFoldingControls \<or> hasChanged e Option_foldingHighlight
        \<longrightarrow> foldingRegionPromise s3 = None"
    using configuration_current(3) [OF w(2), of e] 2 by (auto simp add: s3_def)
  have 4: "foldingRegionPromise s4 = None"
    using configuration_current(4) [OF w(3), of e] 3 assms(2) by (auto simp add: s4_def)
  have "onDidChangeConfiguration C e s = configuration_flags e s4"
    by (simp add: onDidChangeConfiguration_def s1_def s2_def s3_def s4_def)
  with 4 configuration_current(5) [OF w(4), of e] show ?thesis by simp
qed

lemma step_triggers_current:
  assumes "wellFormed s" and "triggers ev"
  shows "foldingRegionPromise (step C s ev) = None"
proof (cases ev)
  case (SetModel model)
  from assms have "scheduled (s\<lparr>editor_model := model\<rparr>)" by (simp add: wellFormed_def)
  from onModelChanged_current [OF this] SetModel show ?thesis by simp
next
  case (UpdateOptions options e)
  from assms(1) have "wellFormed (s\<lparr>editor_options := options\<rparr>)" by (simp add: wellFormed_def)
  from onDidChangeConfiguration_current [OF this, of e C] assms(2) UpdateOptions show ?thesis
    by (simp add: triggers_def)
next
  case (ChangeModelContent n)
  show ?thesis
  proof (cases "localToDispose s")
    case False
    with unattached_current [OF assms(1)] ChangeModelContent show ?thesis
      by (simp add: Let_def split: option.splits)
  next
    case True
    have "foldingRegionPromise (onDidChangeModelContent C (s\<lparr>editor_model := x\<rparr>)) = None" for x
    proof -
      from assms(1) have "scheduled (notifyChangeModelContent C (s\<lparr>editor_model := x\<rparr>))"
        by (simp add: wellFormed_def)
      from triggerFoldingModelChanged_current [OF this] show ?thesis
        by (simp add: onDidChangeModelContent_def)
    qed
    moreover from True assms(1) have "editor_model s \<noteq> None"
      by (auto simp add: wellFormed_def attached_def split: option.splits)
    ultimately show ?thesis using ChangeModelContent True by (auto simp add: Let_def)
  qed
next
  case (ChangeFoldingRangeProviders registry)
  from assms(1) have "scheduled (s\<lparr>foldingRangeProvider_ordered := registry, rangeProvider := None\<rparr>)"
    by (simp add: wellFormed_def)
  from triggerFoldingModelChanged_current [OF this] unattached_current [OF assms(1)]
    ChangeFoldingRangeProviders
  show ?thesis by (simp add: Let_def onFoldingStrategyChanged_def)
next
  case ChangeLanguageConfiguration
  from assms(1) have "scheduled (s\<lparr>rangeProvider := None\<rparr>)" by (simp add: wellFormed_def)
  from triggerFoldingModelChanged_current [OF this] unattached_current [OF assms(1)]
    ChangeLanguageConfiguration
  show ?thesis by (simp add: onFoldingStrategyChanged_def)
qed (use assms(2) in \<open>simp_all add: triggers_def\<close>)

lemma stale_resolution_like_null:
  "foldingRegionPromise s \<noteq> Some p \<Longrightarrow>
     computeResolves C p foldingRanges newValue s = computeResolves C p None newValue s"
  by (auto simp add: computeResolves_def computeThen_def forget_def split: option.splits)

lemma computeThen_imports:
  assumes "foldingRegionPromise s = Some p"
  shows "objects (computeThen C p fm (Some ranges) newValue s) =
           (objects s)(fm := fst (FoldingModel_update C (fst (foldImports ranges s))
                                    (getSelectedLines s) (objects s fm)))"
    and "currentModelHasFoldedImports (computeThen C p fm (Some ranges) newValue s) =
           currentModelHasFoldedImports (snd (snd (foldImports ranges s)))"
proof -
  have e: "objects (snd (snd (foldImports ranges s))) = objects s"
    "getSelectedLines (snd (snd (foldImports ranges s))) = getSelectedLines s"
    by (simp_all add: foldImports_def editorCall_def getSelectedLines_def split_beta)
  show "objects (computeThen C p fm (Some ranges) newValue s) =
           (objects s)(fm := fst (FoldingModel_update C (fst (foldImports ranges s))
                                    (getSelectedLines s) (objects s fm)))"
    using assms by (simp add: computeThen_def split_beta Let_def e editorCall_def split: option.splits)
  show "currentModelHasFoldedImports (computeThen C p fm (Some ranges) newValue s) =
           currentModelHasFoldedImports (snd (snd (foldImports ranges s)))"
    using assms by (simp add: computeThen_def split_beta Let_def editorCall_def split: option.splits)
qed

text \<open>Promises are not reused: no event makes an older promise the current computation.\<close>

lemma advanced_refl [simp]: "advanced s s"
  by (simp add: advanced_def)

lemma advanced_trans: "advanced s t \<Longrightarrow> advanced t u \<Longrightarrow> advanced s u"
  by (fastforce simp add: advanced_def)

lemma advanced_from [simp]:
  "advanced (s\<lparr>editor_model := x1\<rparr>) t = advanced s t"
  "advanced (s\<lparr>editor_options := x2\<rparr>) t = advanced s t"
  "advanced (s\<lparr>foldingRangeProvider_ordered := x3\<rparr>) t = advanced s t"
  "advanced (s\<lparr>isEnabled := x4\<rparr>) t = advanced s t"
  "advanced (s\<lparr>foldingEnabled := x5\<rparr>) t = advanced s t"
  "advanced (s\<lparr>maxFoldingRegions := x6\<rparr>) t = advanced s t"
  "advanced (s\<lparr>tooManyRegionsNotified := x7\<rparr>) t = advanced s t"
  "advanced (s\<lparr>autoHideFoldingControls := x8\<rparr>) t = advanced s t"
  "advanced (s\<lparr>showFoldingHighlights := x9\<rparr>) t = advanced s t"
  "advanced (s\<lparr>useFoldingProviders := x10\<rparr>) t = advanced s t"
  "advanced (s\<lparr>rangeProvider := x11\<rparr>) t = advanced s t"
  "advanced (s\<lparr>foldingStateMemento := x12\<rparr>) t = advanced s t"
  "advanced (s\<lparr>updateScheduler := x13\<rparr>) t = advanced s t"
  "advanced (s\<lparr>currentModelHasFoldedImports := x14\<rparr>) t = advanced s t"
  "advanced (s\<lparr>objects := x15\<rparr>) t = advanced s t"
  "advanced (s\<lparr>nextObject := x16\<rparr>) t = advanced s t"
  "advanced (s\<lparr>foldingModel := x17\<rparr>) t = advanced s t"
  "advanced (s\<lparr>hiddenRangeModel := x18\<rparr>) t = advanced s t"
  "advanced (s\<lparr>localToDispose := x19\<rparr>) t = advanced s t"
  "advanced (s\<lparr>editor_selections := x20\<rparr>) t = advanced s t"
  by (simp_all add: advanced_def)

lemma advanced_control:
  assumes "control s' = control s"
  shows "advanced s s'"
  using control_fields(1,9) [OF assms] by (simp add: advanced_def)

lemma advanced_cancelCurrent: "advanced s (cancelCurrent s)"
  by (simp add: advanced_def cancelCurrent_def cancelPromise_def split: option.splits)

lemma advanced_triggerFoldingModelChanged: "advanced s (triggerFoldingModelChanged s)"
  by (simp add: advanced_def triggerFoldingModelChanged_def cancelCurrent_def cancelPromise_def Let_def
      split: option.splits)

lemma advanced_onFoldingStrategyChanged: "advanced s (onFoldingStrategyChanged s)"
  using advanced_triggerFoldingModelChanged [of "s\<lparr>rangeProvider := None\<rparr>"]
  by (simp add: onFoldingStrategyChanged_def)

lemma advanced_initializingProviderTimeout: "advanced s (initializingProviderTimeout s)"
  using advanced_onFoldingStrategyChanged [of "s\<lparr>foldingStateMemento := None\<rparr>"]
  by (simp add: initializingProviderTimeout_def)

lemma advanced_updateTask: "advanced s (updateTask C qs s)"
  by (simp add: advanced_def updateTask_def Let_def split_beta split: option.splits)

lemma advanced_timerFires: "advanced s (timerFires C s)"
proof (cases "updateScheduler s")
  case None
  then show ?thesis by (simp add: timerFires_def)
next
  case (Some d)
  with advanced_updateTask [of "s\<lparr>updateScheduler := Some (d\<lparr>task := False, waiting := []\<rparr>)\<rparr>" C "waiting d"]
  show ?thesis by (simp add: timerFires_def)
qed

lemma advanced_computeResolves: "advanced s (computeResolves C p foldingRanges newValue s)"
  by (simp add: advanced_def computeResolves_def forget_def split: option.splits)

lemma advanced_computeRejects: "advanced s (computeRejects C p err s)"
  by (simp add: advanced_def computeRejects_def forget_def split: option.splits)

lemma advanced_localToDispose_clear: "advanced s (localToDispose_clear C s)"
proof -
  note f = control_fields(1,9) [OF control_updateScheduler_cancel]
    control_fields(1,9) [OF control_hiddenRangeModel_dispose]
  have "advanced (hiddenRangeModel_dispose C s) (cancelCurrent (hiddenRangeModel_dispose C s))"
    by (rule advanced_cancelCurrent)
  then show ?thesis
    by (simp add: localToDispose_clear_def advanced_def f)
qed

lemma advanced_onModelChanged: "advanced s (onModelChanged C s)"
proof -
  define t where "t = localToDispose_clear C s"
  have 1: "advanced s t" by (simp add: t_def advanced_localToDispose_clear)
  have 2: "advanced t (triggerFoldingModelChanged (t\<lparr>currentModelHasFoldedImports := False,
     objects := ob, nextObject := no, foldingModel := fm, hiddenRangeModel := hm,
     updateScheduler := d, localToDispose := True\<rparr>))" for ob no fm hm d
    using advanced_triggerFoldingModelChanged [of "t\<lparr>currentModelHasFoldedImports := False,
     objects := ob, nextObject := no, foldingModel := fm, hiddenRangeModel := hm,
     updateScheduler := d, localToDispose := True\<rparr>"]
    by simp
  show ?thesis
    using 1 advanced_trans [OF 1 2]
    by (simp add: onModelChanged_def Let_def t_def [symmetric] split: option.splits)
qed

lemma advanced_onDidChangeModelContent: "advanced s (onDidChangeModelContent C s)"
proof -
  have "advanced s (notifyChangeModelContent C s)"
    by (rule advanced_control) simp
  from advanced_trans [OF this advanced_triggerFoldingModelChanged] show ?thesis
    by (simp add: onDidChangeModelContent_def)
qed

lemma advanced_configuration:
  "advanced s (configuration_folding C e s)"
  "advanced s (configuration_foldingMaximumRegions C e s)"
  "advanced s (configuration_decorations e s)"
  "advanced s (configuration_foldingStrategy e s)"
  "advanced s (configuration_flags e s)"
proof -
  show "advanced s (configuration_folding C e s)"
    using advanced_onModelChanged [of "s\<lparr>isEnabled := opt_folding (editor_options s),
             foldingEnabled := opt_folding (editor_options s)\<rparr>" C]
    by (simp add: configuration_folding_def)
  show "advanced s (configuration_foldingMaximumRegions C e s)"
    using advanced_onModelChanged [of "s\<lparr>maxFoldingRegions := opt_foldingMaximumRegions (editor_options s),
             tooManyRegionsNotified := False\<rparr>" C]
    by (simp add: configuration_foldingMaximumRegions_def)
  show "advanced s (configuration_decorations e s)"
    using advanced_triggerFoldingModelChanged
      [of "s\<lparr>autoHideFoldingControls := (opt_showFoldingControls (editor_options s) = ''mouseover''),
             showFoldingHighlights := opt_foldingHighlight (editor_options s)\<rparr>"]
    by (simp add: configuration_decorations_def)
  show "advanced s (configuration_foldingStrategy e s)"
    using advanced_onFoldingStrategyChanged
      [of "s\<lparr>useFoldingProviders := (opt_foldingStrategy (editor_options s) \<noteq> ''indentation'')\<rparr>"]
    by (simp add: configuration_foldingStrategy_def)
  show "advanced s (configuration_flags e s)"
    by (simp add: configuration_flags_def advanced_def Let_def)
qed

lemma advanced_onDidChangeConfiguration: "advanced s (onDidChangeConfiguration C e s)"
  unfolding onDidChangeConfiguration_def
  by (intro advanced_trans [OF _ advanced_configuration(5)] advanced_trans [OF _ advanced_configuration(4)]
      advanced_trans [OF _ advanced_configuration(3)] advanced_trans [OF _ advanced_configuration(2)]
      advanced_configuration(1))

lemma advanced_step: "advanced s (step C s ev)"
proof (cases ev)
  case (SetModel model)
  with advanced_onModelChanged [of "s\<lparr>editor_model := model\<rparr>" C] show ?thesis by simp
next
  case (UpdateOptions options e)
  with advanced_onDidChangeConfiguration [of "s\<lparr>editor_options := options\<rparr>" C e] show ?thesis by simp
next
  case (ChangeModelContent n)
  have "advanced s (onDidChangeModelContent C (s\<lparr>editor_model := x\<rparr>))" for x
    using advanced_onDidChangeModelContent [of "s\<lparr>editor_model := x\<rparr>" C] by simp
  with ChangeModelContent show ?thesis by (simp add: Let_def advanced_def split: option.splits)
next
  case (ChangeSelections selections)
  then show ?thesis by (simp add: advanced_def)
next
  case (ChangeFoldingRangeProviders registry)
  with advanced_onFoldingStrategyChanged [of "s\<lparr>foldingRangeProvider_ordered := registry\<rparr>"]
  show ?thesis by (simp add: Let_def advanced_def)
next
  case ChangeLanguageConfiguration
  with advanced_onFoldingStrategyChanged [of s] show ?thesis by simp
next
  case SyntaxProviderChanges
  with advanced_triggerFoldingModelChanged [of s] show ?thesis
    by (simp split: option.splits RangeProvider.splits)
next
  case InitializingProviderTimesOut
  with advanced_initializingProviderTimeout [of s] show ?thesis
    by (simp split: option.splits RangeProvider.splits)
next
  case TimerFires
  then show ?thesis by (simp add: advanced_timerFires)
next
  case (ProviderNotifiesTooMany maxRegions)
  then show ?thesis by (simp add: advanced_control)
next
  case (ComputeResolves p foldingRanges newValue)
  then show ?thesis by (simp add: advanced_computeResolves)
next
  case (ComputeRejects p err)
  then show ?thesis by (simp add: advanced_computeRejects)
next
  case (RestoreViewState state)
  then show ?thesis by (simp add: advanced_control)
next
  case (RunEditorCommand action args)
  then show ?thesis by (simp add: advanced_control)
qed

lemma advanced_run: "advanced s (run C s events)"
proof (induction events arbitrary: s)
  case Nil
  then show ?case by (simp add: run_def)
next
  case (Cons ev events)
  from advanced_trans [OF advanced_step Cons.IH] show ?case by (simp add: run_Cons)
qed

lemma run_append: "run C (run C s events) later = run C s (events @ later)"
  by (simp add: run_def)

text \<open>
  C1. In every state the controller reaches from its construction: the callback of a
  computation whose promise is not the controller's current one changes nothing, and its
  resolution with regions has the effect of a resolution with null; at most one computation
  is in flight; after an event that triggers a new computation (a new document, a content
  change, a change of the registered providers or of the language configuration, a change of
  the folding options) no computation is in flight, and the trigger itself cancels before it
  arms the scheduler for the next computation. A pending computation was cancelled exactly
  when it is not the current one. A computation that is pending when such a trigger arrives,
  or that was cancelled, is not the current one after the trigger and never again, whatever
  happens later: whenever its promise resolves, the callback changes nothing and the regions
  it delivers are lost. The regions of the current computation are handed to the folding
  model.
\<close>

theorem stale_computation_discarded:
  "(\<lambda>s. (\<forall>p fm foldingRanges newValue.
            foldingRegionPromise s \<noteq> Some p \<longrightarrow>
              computeThen C p fm foldingRanges newValue s = s
              \<and> step C s (ComputeResolves p foldingRanges newValue) = step C s (ComputeResolves p None newValue))
        \<and> length (outstanding s) \<le> 1
        \<and> (\<forall>ev. triggers ev \<longrightarrow> outstanding (step C s ev) = [])
        \<and> outstanding (triggerFoldingModelChanged s) = []
        \<and> (\<forall>d. updateScheduler s = Some d \<longrightarrow>
              (\<exists>d'. updateScheduler (triggerFoldingModelChanged s) = Some d' \<and> task d'))
        \<and> (\<forall>c\<in>set (computations s).
              (cancelled c \<longleftrightarrow> foldingRegionPromise s \<noteq> Some (promise c))
            \<and> (\<forall>ev later fm foldingRanges newValue.
                  triggers ev \<or> cancelled c \<longrightarrow>
                    foldingRegionPromise (run C s (ev # later)) \<noteq> Some (promise c)
                  \<and> computeThen C (promise c) fm foldingRanges newValue (run C s (ev # later))
                      = run C s (ev # later)
                  \<and> step C (run C s (ev # later)) (ComputeResolves (promise c) foldingRanges newValue)
                      = step C (run C s (ev # later)) (ComputeResolves (promise c) None newValue)))
        \<and> (\<forall>p fm ranges newValue.
              foldingRegionPromise s = Some p \<longrightarrow>
                objects (computeThen C p fm (Some ranges) newValue s) =
                  (objects s)(fm := fst (FoldingModel_update C (fst (foldImports ranges s))
                                           (getSelectedLines s) (objects s fm)))))
     (run C (FoldingController C options model selections registry) events)"
proof -
  define s where "s = run C (FoldingController C options model selections registry) events"
  have w: "wellFormed s" by (simp add: s_def wellFormed_reachable)
  then have x: "scheduled s" by (simp add: wellFormed_def)
  have stale: "computeThen C p fm foldingRanges newValue t = t
      \<and> step C t (ComputeResolves p foldingRanges newValue) = step C t (ComputeResolves p None newValue)"
    if "foldingRegionPromise t \<noteq> Some p" for p fm foldingRanges newValue t
    using that stale_resolution_like_null [OF that, of C foldingRanges newValue]
    by (auto simp add: computeThen_def split: option.splits)
  have 2: "length (outstanding s) \<le> 1"
    using scheduled_outstanding(1) [OF x] .
  have 3: "outstanding (step C s ev) = []" if "triggers ev" for ev
  proof -
    from wellFormed_step [OF w, of C ev] have "scheduled (step C s ev)" by (simp add: wellFormed_def)
    from scheduled_outstanding(2) [OF this] step_triggers_current [OF w that, of C] show ?thesis by simp
  qed
  have 4: "outstanding (triggerFoldingModelChanged s) = []"
    using scheduled_outstanding(2) [OF scheduled_triggerFoldingModelChanged [OF x]]
      triggerFoldingModelChanged_current [OF x]
    by simp
  have 5: "\<exists>d'. updateScheduler (triggerFoldingModelChanged s) = Some d' \<and> task d'"
    if "updateScheduler s = Some d" for d
    using that by (simp add: triggerFoldingModelChanged_def Let_def)
  have 6: "(cancelled c \<longleftrightarrow> foldingRegionPromise s \<noteq> Some (promise c))
            \<and> (\<forall>ev later fm foldingRanges newValue.
                  triggers ev \<or> cancelled c \<longrightarrow>
                    foldingRegionPromise (run C s (ev # later)) \<noteq> Some (promise c)
                  \<and> computeThen C (promise c) fm foldingRanges newValue (run C s (ev # later))
                      = run C s (ev # later)
                  \<and> step C (run C s (ev # later)) (ComputeResolves (promise c) foldingRanges newValue)
                      = step C (run C s (ev # later)) (ComputeResolves (promise c) None newValue))"
    if c: "c \<in> set (computations s)" for c
  proof -
    note sc = scheduled_computations [OF x c]
    have "foldingRegionPromise (run C s (ev # later)) \<noteq> Some (promise c)"
      if "triggers ev \<or> cancelled c" for ev later
    proof -
      have a: "advanced s (step C s ev)" by (rule advanced_step)
      have "foldingRegionPromise (step C s ev) \<noteq> Some (promise c)"
      proof (cases "triggers ev")
        case True
        from step_triggers_current [OF w True, of C] show ?thesis by simp
      next
        case False
        with that sc(1) have "foldingRegionPromise s \<noteq> Some (promise c)" by simp
        with a sc(2) show ?thesis by (simp add: advanced_def)
      qed
      moreover from a sc(2) have "promise c < nextPromise (step C s ev)" by (simp add: advanced_def)
      moreover have "advanced (step C s ev) (run C (step C s ev) later)" by (rule advanced_run)
      ultimately show ?thesis by (simp add: advanced_def run_Cons)
    qed
    with stale sc(1) show ?thesis by blast
  qed
  have 7: "objects (computeThen C p fm (Some ranges) newValue s) =
                  (objects s)(fm := fst (FoldingModel_update C (fst (foldImports ranges s))
                                           (getSelectedLines s) (objects s fm)))"
    if "foldingRegionPromise s = Some p" for p fm ranges newValue
    using computeThen_imports(1) [OF that] .
  from stale [of s] 2 3 4 5 6 7 show ?thesis unfolding s_def [symmetric] by blast
qed

text \<open>
  A computation is in flight when the content changes. Whether it resolves before or after
  the second computation starts, it leaves the folding model without regions; the second
  one's regions are applied.
\<close>

theorem stale_computation_discarded_witness:
  "\<lparr>promise = 1, capturedModel = 0, cancelled = False, results = [0]\<rparr>
      \<in> set (computations (run plainModels exampleController [TimerFires]))
   \<and> foldingRegionPromise (run plainModels exampleController [TimerFires]) = Some 1
   \<and> triggers (ChangeModelContent 52)
   \<and> foldingRegionPromise (run plainModels exampleController [TimerFires, ChangeModelContent 52])
       \<noteq> Some 1
   \<and> foldingRegionPromise (run plainModels exampleController [TimerFires, ChangeModelContent 52, TimerFires])
       \<noteq> Some 1
   \<and> computeThen plainModels 1 0 (Some [bodyRegion]) 200
        (run plainModels exampleController [TimerFires, ChangeModelContent 52, TimerFires])
      = run plainModels exampleController [TimerFires, ChangeModelContent 52, TimerFires]
   \<and> regions (objects (run plainModels exampleController
        [TimerFires, ChangeModelContent 52, ComputeResolves 1 (Some [bodyRegion]) 200]) 0) = []
   \<and> regions (objects (run plainModels exampleController
        [TimerFires, ChangeModelContent 52, TimerFires, ComputeResolves 1 (Some [bodyRegion]) 200]) 0) = []
   \<and> regions (objects (run plainModels exampleController
        [TimerFires, ChangeModelContent 52, TimerFires, ComputeResolves 1 (Some [bodyRegion]) 200,
         ComputeResolves 3 (Some [bodyRegion]) 200]) 0) = [bodyRegion]"
proof -
  let ?s = "run plainModels exampleController [TimerFires]"
  let ?c = "\<lparr>promise = 1, capturedModel = 0, cancelled = False, results = [0]\<rparr>"
  note t = stale_computation_discarded [of plainModels exampleOptions "Some exampleDocument"
      "Some [\<lparr>range_startLineNumber = 4, range_startColumn = 1, range_endLineNumber = 4, range_endColumn = 1\<rparr>]"
      "[]" "[TimerFires]", folded exampleController_def]
  have 1: "?c \<in> set (computations ?s)" by code_simp
  have 2: "foldingRegionPromise ?s = Some 1" by code_simp
  have 3: "triggers (ChangeModelContent 52)" by (simp add: triggers_def)
  from t 1 have u: "\<forall>ev later fm foldingRanges newValue.
      triggers ev \<or> cancelled ?c \<longrightarrow>
        foldingRegionPromise (run plainModels ?s (ev # later)) \<noteq> Some (promise ?c)
      \<and> computeThen plainModels (promise ?c) fm foldingRanges newValue (run plainModels ?s (ev # later))
          = run plainModels ?s (ev # later)
      \<and> step plainModels (run plainModels ?s (ev # later)) (ComputeResolves (promise ?c) foldingRanges newValue)
          = step plainModels (run plainModels ?s (ev # later)) (ComputeResolves (promise ?c) None newValue)"
    by blast
  from u [rule_format, of "ChangeModelContent 52" "[]" 0 "Some [bodyRegion]" 200] 3
  have 4: "foldingRegionPromise (run plainModels exampleController [TimerFires, ChangeModelContent 52]) \<noteq> Some 1"
    by (simp add: run_append)
  from u [rule_format, of "ChangeModelContent 52" "[TimerFires]" 0 "Some [bodyRegion]" 200] 3
  have 5: "foldingRegionPromise (run plainModels exampleController [TimerFires, ChangeModelContent 52, TimerFires])
       \<noteq> Some 1"
    and 6: "computeThen plainModels 1 0 (Some [bodyRegion]) 200
        (run plainModels exampleController [TimerFires, ChangeModelContent 52, TimerFires])
      = run plainModels exampleController [TimerFires, ChangeModelContent 52, TimerFires]"
    by (simp_all add: run_append)
  have 7: "regions (objects (run plainModels exampleController
        [TimerFires, ChangeModelContent 52, ComputeResolves 1 (Some [bodyRegion]) 200]) 0) = []"
    by code_simp
  have 8: "regions (objects (run plainModels exampleController
        [TimerFires, ChangeModelContent 52, TimerFires, ComputeResolves 1 (Some [bodyRegion]) 200]) 0) = []"
    by code_simp
  have 9: "regions (objects (run plainModels exampleController
        [TimerFires, ChangeModelContent 52, TimerFires, ComputeResolves 1 (Some [bodyRegion]) 200,
         ComputeResolves 3 (Some [bodyRegion]) 200]) 0) = [bodyRegion]"
    by code_simp
  from 1 2 3 4 5 6 7 8 9 show ?thesis by (intro conjI)
qed

lemma objects_computeThen_empty:
  assumes "foldingRegionPromise s = Some p"
  shows "objects (computeThen C p fm (Some []) newValue s) =
     (objects s)(fm := fst (FoldingModel_update C [] (getSelectedLines s) (objects s fm)))"
proof -
  have "foldImports [] s = ([], False, s)"
    by (simp add: foldImports_def setCollapsedAllOfType_def)
  with assms show ?thesis
    by (simp add: computeThen_def split_beta Let_def split: option.splits)
qed

text \<open>
  C6. In every state the controller reaches: when the promise of a computation rejects, the
  error is reported once for each folding-model promise of that computation, of which there
  is at least one, and the models, the editor, the provider and the scheduler are as before.
  The callback of a computation that resolves with null changes nothing, while the callback
  of the current computation for an empty set of regions hands the empty set to the folding
  model.
\<close>

theorem provider_failure_is_no_update:
  "(\<lambda>s. (\<forall>c. computation s p = Some c \<longrightarrow>
             objects (computeRejects C p err s) = objects s
           \<and> unexpectedErrors (computeRejects C p err s) =
               unexpectedErrors s @ replicate (length (results c)) err
           \<and> results c \<noteq> []
           \<and> editor_calls (computeRejects C p err s) = editor_calls s
           \<and> editor_selections (computeRejects C p err s) = editor_selections s
           \<and> foldingModel (computeRejects C p err s) = foldingModel s
           \<and> hiddenRangeModel (computeRejects C p err s) = hiddenRangeModel s
           \<and> rangeProvider (computeRejects C p err s) = rangeProvider s
           \<and> updateScheduler (computeRejects C p err s) = updateScheduler s)
        \<and> computeThen C p fm None newValue s = s
        \<and> (foldingRegionPromise s = Some p \<longrightarrow>
             objects (computeThen C p fm (Some []) newValue s) =
               (objects s)(fm := fst (FoldingModel_update C [] (getSelectedLines s) (objects s fm)))))
     (run C (FoldingController C options model selections registry) events)"
proof -
  define s where "s = run C (FoldingController C options model selections registry) events"
  have w: "scheduled s" using wellFormed_reachable [of C options model selections registry events]
    by (simp add: s_def wellFormed_def)
  have 1: "objects (computeRejects C p err s) = objects s
           \<and> unexpectedErrors (computeRejects C p err s) =
               unexpectedErrors s @ replicate (length (results c)) err
           \<and> results c \<noteq> []
           \<and> editor_calls (computeRejects C p err s) = editor_calls s
           \<and> editor_selections (computeRejects C p err s) = editor_selections s
           \<and> foldingModel (computeRejects C p err s) = foldingModel s
           \<and> hiddenRangeModel (computeRejects C p err s) = hiddenRangeModel s
           \<and> rangeProvider (computeRejects C p err s) = rangeProvider s
           \<and> updateScheduler (computeRejects C p err s) = updateScheduler s"
    if "computation s p = Some c" for c
    using that computation_results [OF w that] rejectPromises_effect [of C err "forget p s" "results c"]
    by (simp add: computeRejects_def forget_def)
  have 2: "computeThen C p fm None newValue s = s" by (simp add: computeThen_def)
  from 1 2 objects_computeThen_empty [of s p C fm newValue] show ?thesis
    unfolding s_def [symmetric] by blast
qed

text \<open>
  The first computation of the example controller fails: the error is reported, the models
  are unchanged. Had it resolved with no regions, the folding model would be initialized;
  with null it is not.
\<close>

theorem provider_failure_is_no_update_witness:
  "computation (run plainModels exampleController [TimerFires]) 1
     = Some \<lparr>promise = 1, capturedModel = 0, cancelled = False, results = [0]\<rparr>
   \<and> foldingRegionPromise (run plainModels exampleController [TimerFires]) = Some 1
   \<and> objects (computeRejects plainModels 1 (Failure ''provider failed'') (run plainModels exampleController [TimerFires]))
       = objects (run plainModels exampleController [TimerFires])
   \<and> unexpectedErrors (run plainModels exampleController [TimerFires, ComputeRejects 1 (Failure ''provider failed'')])
       = [Failure ''provider failed'']
   \<and> isInitialized (objects (run plainModels exampleController [TimerFires, ComputeResolves 1 (Some []) 200]) 0)
   \<and> \<not> isInitialized (objects (run plainModels exampleController [TimerFires, ComputeResolves 1 None 200]) 0)"
proof -
  let ?s = "run plainModels exampleController [TimerFires]"
  note t = provider_failure_is_no_update [where C = plainModels and options =  exampleOptions
      and model = "Some exampleDocument"
      and selections = "Some [\<lparr>range_startLineNumber = 4, range_startColumn = 1, range_endLineNumber = 4, range_endColumn = 1\<rparr>]"
      and registry = "[]" and events = "[TimerFires]", folded exampleController_def]
  have 1: "computation ?s 1 = Some \<lparr>promise = 1, capturedModel = 0, cancelled = False, results = [0]\<rparr>"
    by code_simp
  have 2: "foldingRegionPromise ?s = Some 1" by code_simp
  from t [THEN conjunct1, rule_format, OF 1, THEN conjunct1]
  have 3: "objects (computeRejects plainModels 1 (Failure ''provider failed'') ?s) = objects ?s" .
  have 4: "unexpectedErrors (run plainModels exampleController [TimerFires, ComputeRejects 1 (Failure ''provider failed'')])
       = [Failure ''provider failed'']"
    by code_simp
  have 5: "isInitialized (objects (run plainModels exampleController [TimerFires, ComputeResolves 1 (Some []) 200]) 0)"
    by code_simp
  have 6: "\<not> isInitialized (objects (run plainModels exampleController [TimerFires, ComputeResolves 1 None 200]) 0)"
    by code_simp
  from 1 2 3 4 5 6 show ?thesis by (intro conjI)
qed


lemma saveViewState_returns:
  assumes "wellFormed s"
  shows "\<exists>r. saveViewState C s = Inr r"
proof -
  have "hiddenRangeModel s \<noteq> None" if "foldingModel s = Some fm" for fm
    using assms that by (auto simp add: wellFormed_def scheduled_def split: if_splits)
  then show ?thesis
    by (auto simp add: saveViewState_def Let_def split: option.splits)
qed

text \<open>
  C7. In every state the controller reaches in which no document is attached, folding is
  disabled or the document is too large: \<^verbatim>\<open>saveViewState\<close> returns the empty object,
  \<^verbatim>\<open>restoreViewState\<close> and \<^verbatim>\<open>runEditorCommand\<close> change nothing. Without a controller, and
  without a folding-model promise, \<^verbatim>\<open>runEditorCommand\<close> returns at once; \<^verbatim>\<open>saveViewState\<close>
  never fails on the missing hidden range model.
\<close>

theorem unavailable_model_is_noop:
  "(\<lambda>s. (modelUnavailable s \<longrightarrow>
             saveViewState C s =
               Inr (Some \<lparr>collapsedRegions = None, lineCount = None, provider = None, foldedImports = None\<rparr>)
           \<and> restoreViewState C state s = s
           \<and> runEditorCommand C action args (Some s) = Some s
           \<and> step C s (RunEditorCommand action args) = s
           \<and> step C s (RestoreViewState state) = s)
        \<and> runEditorCommand C action args None = None
        \<and> (foldingModelPromise s = None \<longrightarrow> runEditorCommand C action args (Some s) = Some s)
        \<and> (\<exists>r. saveViewState C s = Inr r))
     (run C (FoldingController C options model selections registry) events)"
proof -
  define s where "s = run C (FoldingController C options model selections registry) events"
  have w: "wellFormed s" by (simp add: s_def wellFormed_reachable)
  have 1: "saveViewState C s =
               Inr (Some \<lparr>collapsedRegions = None, lineCount = None, provider = None, foldedImports = None\<rparr>)
           \<and> restoreViewState C state s = s
           \<and> runEditorCommand C action args (Some s) = Some s
           \<and> step C s (RunEditorCommand action args) = s
           \<and> step C s (RestoreViewState state) = s"
    if "modelUnavailable s"
  proof -
    from w that have "\<not> localToDispose s"
      by (auto simp add: wellFormed_def attached_def modelUnavailable_def split: option.splits)
    with w have "foldingModelPromise s = None" by (simp add: wellFormed_def scheduled_def)
    with that show ?thesis
      by (auto simp add: saveViewState_def restoreViewState_def runEditorCommand_def modelUnavailable_def
          Let_def split: option.splits)
  qed
  have 2: "runEditorCommand C action args None = None" by (simp add: runEditorCommand_def)
  have 3: "runEditorCommand C action args (Some s) = Some s" if "foldingModelPromise s = None"
    using that by (simp add: runEditorCommand_def)
  from 1 2 3 saveViewState_returns [OF w, of C] show ?thesis
    unfolding s_def [symmetric] by blast
qed

text \<open>
  Folding is switched off for the example controller; the fold command then changes nothing.
  Detaching the document or attaching a too large one makes the model unavailable as well.
\<close>

theorem unavailable_model_is_noop_witness:
  "modelUnavailable (run plainModels exampleController
      [UpdateOptions (exampleOptions\<lparr>opt_folding := False\<rparr>) [Option_folding]])
   \<and> runEditorCommand plainModels FoldAction None
        (Some (run plainModels exampleController
           [UpdateOptions (exampleOptions\<lparr>opt_folding := False\<rparr>) [Option_folding]]))
      = Some (run plainModels exampleController
           [UpdateOptions (exampleOptions\<lparr>opt_folding := False\<rparr>) [Option_folding]])
   \<and> modelUnavailable (run plainModels exampleController [SetModel None])
   \<and> modelUnavailable (run plainModels exampleController
        [SetModel (Some (exampleDocument\<lparr>isTooLargeForTokenization := True\<rparr>))])
   \<and> \<not> modelUnavailable exampleController"
proof -
  let ?s = "run plainModels exampleController
      [UpdateOptions (exampleOptions\<lparr>opt_folding := False\<rparr>) [Option_folding]]"
  note t = unavailable_model_is_noop [where C = plainModels and options =  exampleOptions
      and model = "Some exampleDocument"
      and selections = "Some [\<lparr>range_startLineNumber = 4, range_startColumn = 1, range_endLineNumber = 4, range_endColumn = 1\<rparr>]"
      and registry = "[]"
      and events = "[UpdateOptions (exampleOptions\<lparr>opt_folding := False\<rparr>) [Option_folding]]"
      and action = FoldAction and args = None,
      folded exampleController_def]
  have 1: "modelUnavailable ?s" by code_simp
  from t [THEN conjunct1, rule_format, OF 1]
  have 2: "runEditorCommand plainModels FoldAction None (Some ?s) = Some ?s" by blast
  have 3: "modelUnavailable (run plainModels exampleController [SetModel None])" by code_simp
  have 4: "modelUnavailable (run plainModels exampleController
        [SetModel (Some (exampleDocument\<lparr>isTooLargeForTokenization := True\<rparr>))])" by code_simp
  have 5: "\<not> modelUnavailable exampleController" by code_simp
  from 1 2 3 4 5 show ?thesis by (intro conjI)
qed

section \<open>Folding imports by default\<close>

text \<open>
  C4, as stated, fails: imports are folded once for each folding model, not once for each
  document. A supplier is registered, and the syntax provider's first result has an import
  region, which the example controller collapses; then the limit of regions is changed,
  which makes \<^verbatim>\<open>onModelChanged\<close> create a new folding model for the same document and clear
  the flag, and the next computation's import region is collapsed again.
\<close>

theorem imports_refolded_counterexample:
  "map_option uri (editor_model (run plainModels exampleController
      [ChangeFoldingRangeProviders [(1, [7])], TimerFires, ComputeResolves 2 (Some [importsRegion]) 200,
       UpdateOptions (exampleOptions\<lparr>opt_foldingMaximumRegions := 100\<rparr>) [Option_foldingMaximumRegions],
       TimerFires, ComputeResolves 4 (Some [importsRegion]) 200])) = Some (uri exampleDocument)
   \<and> rangeProvider (run plainModels exampleController
      [ChangeFoldingRangeProviders [(1, [7])], TimerFires]) = Some (SyntaxRangeProvider 1 [7] 5000)
   \<and> regions (objects (run plainModels exampleController
      [ChangeFoldingRangeProviders [(1, [7])], TimerFires, ComputeResolves 2 (Some [importsRegion]) 200]) 0)
      = [importsRegion\<lparr>isCollapsed := True\<rparr>]
   \<and> count_list (editor_calls (run plainModels exampleController
      [ChangeFoldingRangeProviders [(1, [7])], TimerFires, ComputeResolves 2 (Some [importsRegion]) 200]))
      CaptureScrollState = 1
   \<and> currentModelHasFoldedImports (run plainModels exampleController
      [ChangeFoldingRangeProviders [(1, [7])], TimerFires, ComputeResolves 2 (Some [importsRegion]) 200])
   \<and> regions (objects (run plainModels exampleController
      [ChangeFoldingRangeProviders [(1, [7])], TimerFires, ComputeResolves 2 (Some [importsRegion]) 200,
       UpdateOptions (exampleOptions\<lparr>opt_foldingMaximumRegions := 100\<rparr>) [Option_foldingMaximumRegions],
       TimerFires, ComputeResolves 4 (Some [importsRegion]) 200]) 1) = [importsRegion\<lparr>isCollapsed := True\<rparr>]
   \<and> count_list (editor_calls (run plainModels exampleController
      [ChangeFoldingRangeProviders [(1, [7])], TimerFires, ComputeResolves 2 (Some [importsRegion]) 200,
       UpdateOptions (exampleOptions\<lparr>opt_foldingMaximumRegions := 100\<rparr>) [Option_foldingMaximumRegions],
       TimerFires, ComputeResolves 4 (Some [importsRegion]) 200])) CaptureScrollState = 2"
  by code_simp

lemma foldImports_result:
  "foldImports ranges s =
     (if foldingImportsByDefault s \<and> \<not> currentModelHasFoldedImports s
      then (snd (setCollapsedAllOfType FoldingRangeKind_Imports True ranges),
            list_ex (\<lambda>r. regionType r = Some FoldingRangeKind_Imports) ranges,
            if list_ex (\<lambda>r. regionType r = Some FoldingRangeKind_Imports) ranges
            then editorCall CaptureScrollState (s\<lparr>currentModelHasFoldedImports := True\<rparr>) else s)
      else (ranges, False, s))"
  by (simp add: foldImports_def setCollapsedAllOfType_def)

lemma importsCollapsed_setCollapsedAllOfType:
  "importsCollapsed (snd (setCollapsedAllOfType FoldingRangeKind_Imports True ranges))"
  by (induction ranges) (simp_all add: importsCollapsed_def setCollapsedAllOfType_def)

lemma computeThen_keeps_flag:
  "currentModelHasFoldedImports s \<Longrightarrow>
     currentModelHasFoldedImports (computeThen C p fm foldingRanges newValue s)"
  by (simp add: computeThen_def foldImports_result split_beta Let_def editorCall_def split: option.splits)

lemma step_keeps_flag:
  assumes "currentModelHasFoldedImports s" and "\<not> resetsImports ev"
  shows "currentModelHasFoldedImports (step C s ev)"
proof (cases ev)
  case (UpdateOptions options e)
  with assms(2) have "\<not> hasChanged e Option_folding" "\<not> hasChanged e Option_foldingMaximumRegions"
    by (simp_all add: resetsImports_def)
  with assms(1) UpdateOptions show ?thesis by (simp add: configuration Let_def)
next
  case (ComputeResolves p foldingRanges newValue)
  with assms(1) show ?thesis
    by (simp add: computeResolves_def computeThen_keeps_flag forget_def split: option.splits)
qed (use assms in \<open>simp_all add: resetsImports_def notifyTooManyRegions_def Let_def
      split: option.splits RangeProvider.splits\<close>)

lemma run_keeps_flag:
  "currentModelHasFoldedImports s \<Longrightarrow> \<not> list_ex resetsImports events
     \<Longrightarrow> currentModelHasFoldedImports (run C s events)"
  by (induction events arbitrary: s) (simp_all add: run_def step_keeps_flag)

lemma onModelChanged_clears_flag:
  "localToDispose (onModelChanged C s) \<Longrightarrow> \<not> currentModelHasFoldedImports (onModelChanged C s)"
  by (simp add: onModelChanged_def Let_def localToDispose_clear_def triggerFoldingModelChanged_def
      split: option.splits if_splits)

lemma restoreViewState_sets_flag:
  assumes "editor_model s = Some model" and "hiddenRangeModel s \<noteq> None" and "isEnabled s"
    and "\<not> isTooLargeForTokenization model" and "lineCount st = Some (getLineCount model)"
  shows "currentModelHasFoldedImports (restoreViewState C (Some st) s) = (foldedImports st = Some True)"
  using assms by (auto simp add: restoreViewState_def Let_def split_beta split: option.splits)


text \<open>
  C4, amended. When \<^verbatim>\<open>foldingImportsByDefault\<close> is configured and the flag is clear, the
  callback of the current computation collapses all regions of import type before it hands
  the regions to the folding model, and sets the flag exactly when there is such a region.
  While the flag is set the callback hands over the regions as computed, and the flag stays
  set over all events but those that run \<^verbatim>\<open>onModelChanged\<close> (a new document, a change of the
  options \<^verbatim>\<open>folding\<close> or \<^verbatim>\<open>foldingMaximumRegions\<close>) or \<^verbatim>\<open>restoreViewState\<close>. \<^verbatim>\<open>onModelChanged\<close>
  clears the flag whenever it creates a folding model, and \<^verbatim>\<open>restoreViewState\<close> sets it to the
  memento's \<^verbatim>\<open>foldedImports\<close> when the memento fits the document.
\<close>

theorem imports_folded_until_reset:
  "(foldingRegionPromise s = Some p \<and> foldingImportsByDefault s \<and> \<not> currentModelHasFoldedImports s \<longrightarrow>
      objects (computeThen C p fm (Some ranges) newValue s) =
        (objects s)(fm := fst (FoldingModel_update C
           (snd (setCollapsedAllOfType FoldingRangeKind_Imports True ranges))
           (getSelectedLines s) (objects s fm)))
    \<and> importsCollapsed (snd (setCollapsedAllOfType FoldingRangeKind_Imports True ranges))
    \<and> currentModelHasFoldedImports (computeThen C p fm (Some ranges) newValue s) =
        list_ex (\<lambda>r. regionType r = Some FoldingRangeKind_Imports) ranges)
   \<and> (foldingRegionPromise s = Some p \<and> currentModelHasFoldedImports s \<longrightarrow>
        objects (computeThen C p fm (Some ranges) newValue s) =
          (objects s)(fm := fst (FoldingModel_update C ranges (getSelectedLines s) (objects s fm))))
   \<and> (currentModelHasFoldedImports s \<and> \<not> list_ex resetsImports events \<longrightarrow>
        currentModelHasFoldedImports (run C s events))
   \<and> (localToDispose (onModelChanged C s) \<longrightarrow> \<not> currentModelHasFoldedImports (onModelChanged C s))
   \<and> (editor_model s = Some model \<and> hiddenRangeModel s \<noteq> None \<and> isEnabled s
        \<and> \<not> isTooLargeForTokenization model \<and> lineCount st = Some (getLineCount model) \<longrightarrow>
        currentModelHasFoldedImports (restoreViewState C (Some st) s) = (foldedImports st = Some True))"
proof -
  have 1: "objects (computeThen C p fm (Some ranges) newValue s) =
        (objects s)(fm := fst (FoldingModel_update C
           (snd (setCollapsedAllOfType FoldingRangeKind_Imports True ranges))
           (getSelectedLines s) (objects s fm)))
    \<and> importsCollapsed (snd (setCollapsedAllOfType FoldingRangeKind_Imports True ranges))
    \<and> currentModelHasFoldedImports (computeThen C p fm (Some ranges) newValue s) =
        list_ex (\<lambda>r. regionType r = Some FoldingRangeKind_Imports) ranges"
    if "foldingRegionPromise s = Some p" "foldingImportsByDefault s" "\<not> currentModelHasFoldedImports s"
    using that computeThen_imports [OF that(1), of C fm ranges newValue]
      importsCollapsed_setCollapsedAllOfType [of ranges]
    by (simp add: foldImports_result editorCall_def)
  have 2: "objects (computeThen C p fm (Some ranges) newValue s) =
          (objects s)(fm := fst (FoldingModel_update C ranges (getSelectedLines s) (objects s fm)))"
    if "foldingRegionPromise s = Some p" "currentModelHasFoldedImports s"
    using that computeThen_imports(1) [OF that(1), of C fm ranges newValue]
    by (simp add: foldImports_result)
  from 1 2 run_keeps_flag [of s events C] onModelChanged_clears_flag [of C s]
    restoreViewState_sets_flag [of s model st C]
  show ?thesis by blast
qed

text \<open>
  With a supplier registered, the first computation finds an import region and sets the
  flag. When the first computation finds no region, the second one still folds the imports;
  when the first one folded them, the second one after a content change does not: an import
  region that now starts on another line stays expanded, and the scroll state was captured
  once.
\<close>

theorem imports_folded_until_reset_witness:
  "foldingRegionPromise (run plainModels exampleController [ChangeFoldingRangeProviders [(1, [7])], TimerFires]) = Some 2
   \<and> foldingImportsByDefault (run plainModels exampleController [ChangeFoldingRangeProviders [(1, [7])], TimerFires])
   \<and> \<not> currentModelHasFoldedImports (run plainModels exampleController [ChangeFoldingRangeProviders [(1, [7])], TimerFires])
   \<and> currentModelHasFoldedImports (computeThen plainModels 2 0 (Some [importsRegion]) 200
        (run plainModels exampleController [ChangeFoldingRangeProviders [(1, [7])], TimerFires]))
   \<and> \<not> list_ex resetsImports [ChangeModelContent 51, TimerFires, ComputeResolves 4 (Some [importsRegion]) 200]
   \<and> regions (objects (run plainModels exampleController
        [ChangeFoldingRangeProviders [(1, [7])], TimerFires, ComputeResolves 2 (Some []) 200,
         ChangeModelContent 51, TimerFires, ComputeResolves 4 (Some [importsRegion]) 200]) 0) = [importsRegion\<lparr>isCollapsed := True\<rparr>]
   \<and> regions (objects (run plainModels exampleController
        [ChangeFoldingRangeProviders [(1, [7])], TimerFires, ComputeResolves 2 (Some [importsRegion]) 200,
         ChangeModelContent 51, TimerFires,
         ComputeResolves 4 (Some [importsRegion\<lparr>startLineNumber := 2\<rparr>]) 200]) 0)
       = [importsRegion\<lparr>startLineNumber := 2\<rparr>]
   \<and> count_list (editor_calls (run plainModels exampleController
        [ChangeFoldingRangeProviders [(1, [7])], TimerFires, ComputeResolves 2 (Some [importsRegion]) 200,
         ChangeModelContent 51, TimerFires,
         ComputeResolves 4 (Some [importsRegion\<lparr>startLineNumber := 2\<rparr>]) 200])) CaptureScrollState = 1"
proof -
  let ?s = "run plainModels exampleController [ChangeFoldingRangeProviders [(1, [7])], TimerFires]"
  have 1: "foldingRegionPromise ?s = Some 2 \<and> foldingImportsByDefault ?s \<and> \<not> currentModelHasFoldedImports ?s"
    by code_simp
  have 2: "list_ex (\<lambda>r. regionType r = Some FoldingRangeKind_Imports) [importsRegion]"
    by code_simp
  from imports_folded_until_reset [of ?s 2 plainModels 0 "[importsRegion]" 200, THEN conjunct1] 1 2
  have 3: "currentModelHasFoldedImports (computeThen plainModels 2 0 (Some [importsRegion]) 200 ?s)"
    by blast
  have 4: "\<not> list_ex resetsImports [ChangeModelContent 51, TimerFires, ComputeResolves 4 (Some [importsRegion]) 200]"
    by (simp add: resetsImports_def)
  have 5: "regions (objects (run plainModels exampleController
        [ChangeFoldingRangeProviders [(1, [7])], TimerFires, ComputeResolves 2 (Some []) 200,
         ChangeModelContent 51, TimerFires, ComputeResolves 4 (Some [importsRegion]) 200]) 0) = [importsRegion\<lparr>isCollapsed := True\<rparr>]"
    by code_simp
  have 6: "regions (objects (run plainModels exampleController
        [ChangeFoldingRangeProviders [(1, [7])], TimerFires, ComputeResolves 2 (Some [importsRegion]) 200,
         ChangeModelContent 51, TimerFires,
         ComputeResolves 4 (Some [importsRegion\<lparr>startLineNumber := 2\<rparr>]) 200]) 0)
       = [importsRegion\<lparr>startLineNumber := 2\<rparr>]"
    by code_simp
  have 7: "count_list (editor_calls (run plainModels exampleController
        [ChangeFoldingRangeProviders [(1, [7])], TimerFires, ComputeResolves 2 (Some [importsRegion]) 200,
         ChangeModelContent 51, TimerFires,
         ComputeResolves 4 (Some [importsRegion\<lparr>startLineNumber := 2\<rparr>]) 200])) CaptureScrollState = 1"
    by code_simp
  from 1 3 4 5 6 7 show ?thesis by (intro conjI) simp_all
qed

end
